theory Spec2Isabelle
  imports Complex_Main "HOL-Library.Word"
begin

section \<open>Floating-point values\<close>

text \<open>
  The C++ type \<open>float\<close> is embedded as a four-way datatype: not-a-number, the two
  infinities, and the finite values. The special values follow IEEE 754 as the C++
  operators \<open>+\<close>, \<open>-\<close>, \<open>*\<close>, \<open>/\<close>, \<open><\<close>, \<open>>\<close>, \<open>==\<close> and the library function
  \<open>log\<close> treat them. A finite value is carried as the real number it stands for. The
  \<open>float\<close> locals of \<open>calculate_transitions\<close> are rounded to single precision after every
  operation (\<open>rounded\<close> below): what they sum to and which sign they have depends on the
  rounding. The logarithm, and the sums of log-probabilities in the flank vectors and in the
  lattice, are taken without rounding: the statements about them concern order, \<open>-INFINITY\<close>
  and NaN, or say that they speak of unrounded sums. Overflow of those sums and the sign of
  zero are not represented.
\<close>

datatype float = NaN | NegInf | Fin real | PosInf

fun fadd :: "float \<Rightarrow> float \<Rightarrow> float" where
  "fadd NaN _ = NaN"
| "fadd _ NaN = NaN"
| "fadd NegInf PosInf = NaN"
| "fadd PosInf NegInf = NaN"
| "fadd NegInf _ = NegInf"
| "fadd _ NegInf = NegInf"
| "fadd PosInf _ = PosInf"
| "fadd _ PosInf = PosInf"
| "fadd (Fin x) (Fin y) = Fin (x + y)"

fun fneg :: "float \<Rightarrow> float" where
  "fneg NaN = NaN"
| "fneg NegInf = PosInf"
| "fneg PosInf = NegInf"
| "fneg (Fin x) = Fin (- x)"

definition fsub :: "float \<Rightarrow> float \<Rightarrow> float" where
  "fsub a b = fadd a (fneg b)"

fun fmul :: "float \<Rightarrow> float \<Rightarrow> float" where
  "fmul NaN _ = NaN"
| "fmul _ NaN = NaN"
| "fmul (Fin x) (Fin y) = Fin (x * y)"
| "fmul (Fin x) PosInf = (if x = 0 then NaN else if 0 < x then PosInf else NegInf)"
| "fmul (Fin x) NegInf = (if x = 0 then NaN else if 0 < x then NegInf else PosInf)"
| "fmul PosInf (Fin y) = (if y = 0 then NaN else if 0 < y then PosInf else NegInf)"
| "fmul NegInf (Fin y) = (if y = 0 then NaN else if 0 < y then NegInf else PosInf)"
| "fmul PosInf PosInf = PosInf"
| "fmul NegInf NegInf = PosInf"
| "fmul PosInf NegInf = NegInf"
| "fmul NegInf PosInf = NegInf"

fun fdiv :: "float \<Rightarrow> float \<Rightarrow> float" where
  "fdiv NaN _ = NaN"
| "fdiv _ NaN = NaN"
| "fdiv (Fin x) (Fin y) =
     (if y = 0 then (if x = 0 then NaN else if 0 < x then PosInf else NegInf)
      else Fin (x / y))"
| "fdiv (Fin x) PosInf = Fin 0"
| "fdiv (Fin x) NegInf = Fin 0"
| "fdiv PosInf (Fin y) = (if 0 \<le> y then PosInf else NegInf)"
| "fdiv NegInf (Fin y) = (if 0 \<le> y then NegInf else PosInf)"
| "fdiv PosInf PosInf = NaN"
| "fdiv PosInf NegInf = NaN"
| "fdiv NegInf PosInf = NaN"
| "fdiv NegInf NegInf = NaN"

text \<open>
  Rounding to single precision (IEEE 754 binary32, round to nearest, ties to even): a
  significand of 24 bits, the least exponent \<open>-126\<close> (below it the spacing stays
  \<open>2^-149\<close>), and infinity from \<open>2^128\<close> on. \<open>rne\<close> rounds a real number to the nearest
  integer, a tie to the even one.
\<close>

definition pow2 :: "int \<Rightarrow> real" where
  "pow2 k = 2 powr real_of_int k"

definition rne :: "real \<Rightarrow> int" where
  "rne r =
     (let f = \<lfloor>r\<rfloor>; d = r - of_int f
      in if d < 1 / 2 then f else if 1 / 2 < d then f + 1 else if even f then f else f + 1)"

definition round32 :: "real \<Rightarrow> float" where
  "round32 x =
     (if x = 0 then Fin 0
      else let e = max \<lfloor>log 2 \<bar>x\<bar>\<rfloor> (- 126);
               q = pow2 (e - 23);
               y = of_int (rne (x / q)) * q
           in if 2 ^ 128 \<le> \<bar>y\<bar> then (if 0 < y then PosInf else NegInf) else Fin y)"

text \<open>The \<open>float\<close> that holds the result of an operation whose exact result is \<open>a\<close>.\<close>

definition rounded :: "float \<Rightarrow> float" where
  "rounded a = (case a of Fin x \<Rightarrow> round32 x | _ \<Rightarrow> a)"

text \<open>\<open>a < b\<close>: false as soon as one side is NaN.\<close>

fun flt :: "float \<Rightarrow> float \<Rightarrow> bool" where
  "flt NaN _ = False"
| "flt _ NaN = False"
| "flt NegInf NegInf = False"
| "flt NegInf _ = True"
| "flt _ NegInf = False"
| "flt PosInf _ = False"
| "flt _ PosInf = True"
| "flt (Fin x) (Fin y) = (x < y)"

definition fgt :: "float \<Rightarrow> float \<Rightarrow> bool" where
  "fgt a b = flt b a"

text \<open>\<open>a == b\<close>: NaN is equal to nothing, itself included.\<close>

definition feq :: "float \<Rightarrow> float \<Rightarrow> bool" where
  "feq a b = (a \<noteq> NaN \<and> b \<noteq> NaN \<and> a = b)"

text \<open>\<open>a <= b\<close>, used in statements only.\<close>

definition fle :: "float \<Rightarrow> float \<Rightarrow> bool" where
  "fle a b = (flt a b \<or> feq a b)"

text \<open>\<open>std::max(a, b)\<close> is \<open>(a < b) ? b : a\<close>.\<close>

definition fmax :: "float \<Rightarrow> float \<Rightarrow> float" where
  "fmax a b = (if flt a b then b else a)"

text \<open>
  \<open>log(x)\<close>: NaN for a negative argument, \<open>-INFINITY\<close> at zero, the natural logarithm
  otherwise.
\<close>

fun flog :: "float \<Rightarrow> float" where
  "flog NaN = NaN"
| "flog NegInf = NaN"
| "flog PosInf = PosInf"
| "flog (Fin x) = (if x < 0 then NaN else if x = 0 then NegInf else Fin (ln x))"

text \<open>Conversion of a \<open>uint32_t\<close> to \<open>float\<close>.\<close>

definition float_of_uint32 :: "32 word \<Rightarrow> float" where
  "float_of_uint32 w = Fin (real (unat w))"

text \<open>
  Modelled from the spec: \<open>add_logs\<close> is declared outside the file under verification. The
  specification describes it as the stable log-domain sum \<open>log(e^a + e^b)\<close> for which
  \<open>-INFINITY\<close> (probability zero) is the additive identity.
\<close>

fun add_logs :: "float \<Rightarrow> float \<Rightarrow> float" where
  "add_logs NaN _ = NaN"
| "add_logs _ NaN = NaN"
| "add_logs NegInf b = b"
| "add_logs a NegInf = a"
| "add_logs PosInf _ = PosInf"
| "add_logs _ PosInf = PosInf"
| "add_logs (Fin x) (Fin y) = Fin (ln (exp x + exp y))"

text \<open>
  The values a log-probability can take: a finite number or \<open>-INFINITY\<close>. A probability
  is a finite number between 0 and 1.
\<close>

definition logdom :: "float \<Rightarrow> bool" where
  "logdom a = (a \<noteq> NaN \<and> a \<noteq> PosInf)"

definition is_prob :: "float \<Rightarrow> bool" where
  "is_prob a = (case a of Fin x \<Rightarrow> 0 \<le> x \<and> x \<le> 1 | _ \<Rightarrow> False)"

definition is_finite :: "float \<Rightarrow> bool" where
  "is_finite a = (case a of Fin x \<Rightarrow> True | _ \<Rightarrow> False)"

section \<open>Errors, vectors and matrices\<close>

text \<open>
  An access outside a \<open>std::vector\<close> or outside a matrix, and a failed \<open>assert\<close>, end
  the computation with an error value.
\<close>

datatype error = OutOfBounds | AssertionFailed

definition bindE :: "error + 'a \<Rightarrow> ('a \<Rightarrow> error + 'b) \<Rightarrow> error + 'b" where
  "bindE m f = (case m of Inl e \<Rightarrow> Inl e | Inr x \<Rightarrow> f x)"

text \<open>A \<open>for\<close> loop over the index list \<open>xs\<close>, leaving at the first error.\<close>

fun foldE :: "('a \<Rightarrow> 's \<Rightarrow> error + 's) \<Rightarrow> 'a list \<Rightarrow> 's \<Rightarrow> error + 's" where
  "foldE f [] s = Inr s"
| "foldE f (x # xs) s = bindE (f x s) (foldE f xs)"

text \<open>The values \<open>lo, lo + 1, ..., hi - 1\<close> of a \<open>uint32_t\<close> loop counter.\<close>

definition uint32_range :: "32 word \<Rightarrow> 32 word \<Rightarrow> 32 word list" where
  "uint32_range lo hi = map word_of_nat [unat lo ..< unat hi]"

definition vget :: "'a list \<Rightarrow> nat \<Rightarrow> error + 'a" where
  "vget v i = (if i < length v then Inr (v ! i) else Inl OutOfBounds)"

definition vset :: "'a list \<Rightarrow> nat \<Rightarrow> 'a \<Rightarrow> error + 'a list" where
  "vset v i x = (if i < length v then Inr (v[i := x]) else Inl OutOfBounds)"

text \<open>
  Modelled from the spec: the matrix type and its accessors \<open>get\<close> and \<open>set\<close> are declared
  outside the file under verification. The lattice is a rows by columns matrix whose cell
  \<open>(row, col)\<close> holds one value; storage of another shape than the engine needs is a
  fatal precondition failure, so an access outside the shape is an error.
\<close>

record 'a Matrix =
  n_rows :: "32 word"
  n_cols :: "32 word"
  cells :: "nat \<times> nat \<Rightarrow> 'a"

definition mget :: "'a Matrix \<Rightarrow> 32 word \<Rightarrow> 32 word \<Rightarrow> error + 'a" where
  "mget M row col =
     (if row < n_rows M \<and> col < n_cols M then Inr (cells M (unat row, unat col))
      else Inl OutOfBounds)"

definition mset :: "'a Matrix \<Rightarrow> 32 word \<Rightarrow> 32 word \<Rightarrow> 'a \<Rightarrow> error + 'a Matrix" where
  "mset M row col v =
     (if row < n_rows M \<and> col < n_cols M
      then Inr (M\<lparr>cells := (cells M)((unat row, unat col) := v)\<rparr>)
      else Inl OutOfBounds)"

type_synonym FloatMatrix = "float Matrix"

section \<open>Profile states\<close>

text \<open>
  Modelled from the spec: the enumeration of profile states is declared outside the file
  under verification. Within a block, state 0 is the match state, state 1 the event-split
  state and state 2 the kmer-skip state; a block has three states. \<open>PS_PRE_SOFT\<close> names the
  local-entry branch in the backtrace and is not a column.
\<close>

datatype ProfileState = PS_MATCH | PS_EVENT_SPLIT | PS_KMER_SKIP | PS_PRE_SOFT

fun ps :: "ProfileState \<Rightarrow> 32 word" where
  "ps PS_MATCH = 0"
| "ps PS_EVENT_SPLIT = 1"
| "ps PS_KMER_SKIP = 2"

definition PS_NUM_STATES :: "32 word" where
  "PS_NUM_STATES = 3"

text \<open>
  A cell of the backtrace matrix holds the byte written from the local variable \<open>from\<close>,
  which \<open>update_4\<close> declares without a value: \<open>None\<close> is the indeterminate byte.
\<close>

type_synonym UInt8Matrix = "ProfileState option Matrix"

section \<open>Output writer for the Forward algorithm\<close>

record ProfileHMMForwardOutput =
  fwd_p_fm :: FloatMatrix
  fwd_lp_end :: float

definition Forward_new :: "FloatMatrix \<Rightarrow> ProfileHMMForwardOutput" where
  "Forward_new p = \<lparr>fwd_p_fm = p, fwd_lp_end = NegInf\<rparr>"

definition Forward_update_4 ::
  "32 word \<Rightarrow> 32 word \<Rightarrow> float \<Rightarrow> float \<Rightarrow> float \<Rightarrow> float \<Rightarrow> float \<Rightarrow>
   ProfileHMMForwardOutput \<Rightarrow> error + ProfileHMMForwardOutput" where
  "Forward_update_4 row col m e k s lp_emission out =
     (let sum_1 = add_logs m e;
          sum_2 = add_logs k s;
          sum = fadd (add_logs sum_1 sum_2) lp_emission
      in bindE (mset (fwd_p_fm out) row col sum) (\<lambda>fm. Inr (out\<lparr>fwd_p_fm := fm\<rparr>)))"

definition Forward_update_end ::
  "float \<Rightarrow> 32 word \<Rightarrow> 32 word \<Rightarrow> ProfileHMMForwardOutput \<Rightarrow> ProfileHMMForwardOutput" where
  "Forward_update_end v row col out = out\<lparr>fwd_lp_end := add_logs (fwd_lp_end out) v\<rparr>"

definition Forward_get :: "32 word \<Rightarrow> 32 word \<Rightarrow> ProfileHMMForwardOutput \<Rightarrow> error + float" where
  "Forward_get row col out = mget (fwd_p_fm out) row col"

section \<open>Output writer for the Viterbi algorithm\<close>

text \<open>
  The constructor gives \<open>end_row\<close> and \<open>end_col\<close> no value: \<open>None\<close> until the first
  assignment.
\<close>

record ProfileHMMViterbiOutput =
  vit_p_fm :: FloatMatrix
  vit_p_bm :: UInt8Matrix
  vit_lp_end :: float
  vit_end_row :: "32 word option"
  vit_end_col :: "32 word option"

definition Viterbi_new :: "FloatMatrix \<Rightarrow> UInt8Matrix \<Rightarrow> ProfileHMMViterbiOutput" where
  "Viterbi_new pf pb =
     \<lparr>vit_p_fm = pf, vit_p_bm = pb, vit_lp_end = NegInf, vit_end_row = None, vit_end_col = None\<rparr>"

text \<open>The maximum and the \<open>if\<close> chain of \<open>update_4\<close>.\<close>

definition Viterbi_max :: "float \<Rightarrow> float \<Rightarrow> float \<Rightarrow> float \<Rightarrow> float" where
  "Viterbi_max m e k s = fmax (fmax m e) (fmax k s)"

definition Viterbi_from :: "float \<Rightarrow> float \<Rightarrow> float \<Rightarrow> float \<Rightarrow> ProfileState option" where
  "Viterbi_from m e k s =
     (let max = Viterbi_max m e k s in
      if feq max m then Some PS_MATCH
      else if feq max e then Some PS_EVENT_SPLIT
      else if feq max k then Some PS_KMER_SKIP
      else if feq max s then Some PS_PRE_SOFT
      else None)"

definition Viterbi_update_4 ::
  "32 word \<Rightarrow> 32 word \<Rightarrow> float \<Rightarrow> float \<Rightarrow> float \<Rightarrow> float \<Rightarrow> float \<Rightarrow>
   ProfileHMMViterbiOutput \<Rightarrow> error + ProfileHMMViterbiOutput" where
  "Viterbi_update_4 row col m e k s lp_emission out =
     (let max = Viterbi_max m e k s in
      bindE (mset (vit_p_fm out) row col (fadd max lp_emission)) (\<lambda>fm.
      bindE (mset (vit_p_bm out) row col (Viterbi_from m e k s)) (\<lambda>bm.
      Inr (out\<lparr>vit_p_fm := fm, vit_p_bm := bm\<rparr>))))"

definition Viterbi_update_end ::
  "float \<Rightarrow> 32 word \<Rightarrow> 32 word \<Rightarrow> ProfileHMMViterbiOutput \<Rightarrow> ProfileHMMViterbiOutput" where
  "Viterbi_update_end v row col out =
     (if fgt v (vit_lp_end out)
      then out\<lparr>vit_lp_end := v, vit_end_row := Some row, vit_end_col := Some col\<rparr>
      else out)"

definition Viterbi_get :: "32 word \<Rightarrow> 32 word \<Rightarrow> ProfileHMMViterbiOutput \<Rightarrow> error + float" where
  "Viterbi_get row col out = mget (vit_p_fm out) row col"

section \<open>Input data\<close>

text \<open>
  The fields of \<open>KHMMParameters\<close> and \<open>BlockTransitions\<close> that the code reads and writes.
\<close>

record KHMMParameters =
  trans_m_to_e_not_k :: float
  trans_e_to_e :: float
  trans_start_to_pre :: float
  trans_pre_self :: float

record BlockTransitions =
  lp_mm :: float
  lp_me :: float
  lp_mk :: float
  lp_ee :: float
  lp_em :: float
  lp_kk :: float
  lp_km :: float

record GaussianParameters =
  mean :: float

text \<open>
  Modelled from the spec: the input bundle and the emission model are external collaborators
  declared outside the file under verification. \<open>parameters\<close> stands for
  \<open>data.read->parameters[data.strand]\<close>; the stride is a signed number; the remaining
  fields are the external functions the code calls, already applied to the read and the
  strand of the bundle: kmer ranks, scaled Gaussian parameters of a rank, the skip
  probability of two expected levels, and the three emission log-probabilities.
\<close>

record HMMInputData =
  parameters :: KHMMParameters
  event_stride :: int
  event_stop_idx :: "32 word"
  get_rank :: "string \<Rightarrow> 32 word \<Rightarrow> 32 word"
  get_scaled_parameters :: "32 word \<Rightarrow> GaussianParameters"
  get_skip_probability :: "float \<Rightarrow> float \<Rightarrow> float"
  log_probability_match :: "32 word \<Rightarrow> 32 word \<Rightarrow> float"
  log_probability_event_insert :: "32 word \<Rightarrow> 32 word \<Rightarrow> float"
  log_probability_background :: "32 word \<Rightarrow> float"

section \<open>Transition probabilities\<close>

definition calculate_skip_probability ::
  "string \<Rightarrow> HMMInputData \<Rightarrow> 32 word \<Rightarrow> 32 word \<Rightarrow> float" where
  "calculate_skip_probability sequence data ki kj =
     (let rank_i = get_rank data sequence ki;
          rank_j = get_rank data sequence kj;
          level_i = get_scaled_parameters data rank_i;
          level_j = get_scaled_parameters data rank_j
      in get_skip_probability data (mean level_i) (mean level_j))"

text \<open>
  The seven local variables of one iteration of the loop of \<open>calculate_transitions\<close>, before
  the log transform. Each is a \<open>float\<close>, and so is every intermediate result: \<open>1 - p_skip\<close>,
  its product with \<open>trans_m_to_e_not_k\<close>, and \<open>1.0f - p_me\<close> are rounded before they are
  used. The fields of \<open>KHMMParameters\<close> are taken to be \<open>float\<close> values.
\<close>

record BlockProbabilities =
  p_mm :: float
  p_me :: float
  p_mk :: float
  p_ee :: float
  p_em :: float
  p_kk :: float
  p_km :: float

definition block_p_skip :: "string \<Rightarrow> HMMInputData \<Rightarrow> 32 word \<Rightarrow> float" where
  "block_p_skip sequence data ki =
     (if 0 < ki then calculate_skip_probability sequence data (ki - 1) ki else Fin 0)"

definition block_probabilities :: "KHMMParameters \<Rightarrow> float \<Rightarrow> BlockProbabilities" where
  "block_probabilities params p_skip =
     (let p_mk' = p_skip;
          p_me' = rounded (fmul (rounded (fsub (Fin 1) p_skip)) (trans_m_to_e_not_k params));
          p_mm' = rounded (fsub (rounded (fsub (Fin 1) p_me')) p_mk');
          p_ee' = trans_e_to_e params;
          p_em' = rounded (fsub (Fin 1) p_ee');
          p_kk' = p_skip;
          p_km' = rounded (fsub (Fin 1) p_skip)
      in \<lparr>p_mm = p_mm', p_me = p_me', p_mk = p_mk', p_ee = p_ee', p_em = p_em',
          p_kk = p_kk', p_km = p_km'\<rparr>)"

definition log_transform :: "BlockProbabilities \<Rightarrow> BlockTransitions" where
  "log_transform p =
     \<lparr>lp_mm = flog (p_mm p), lp_me = flog (p_me p), lp_mk = flog (p_mk p),
      lp_ee = flog (p_ee p), lp_em = flog (p_em p),
      lp_kk = flog (p_kk p), lp_km = flog (p_km p)\<rparr>"

definition calculate_transitions ::
  "32 word \<Rightarrow> string \<Rightarrow> HMMInputData \<Rightarrow> BlockTransitions list" where
  "calculate_transitions num_kmers sequence data =
     map (\<lambda>ki. log_transform (block_probabilities (parameters data) (block_p_skip sequence data ki)))
         (uint32_range 0 num_kmers)"

section \<open>Flanking probabilities\<close>

text \<open>
  The event index \<open>e_start + n * data.event_stride\<close>, stored in a \<open>uint32_t\<close>: whatever
  the width of the intermediate product, the stored value is the sum modulo \<open>2^32\<close>.
\<close>

definition event_index :: "HMMInputData \<Rightarrow> 32 word \<Rightarrow> 32 word \<Rightarrow> 32 word" where
  "event_index data e_start n = e_start + n * word_of_int (event_stride data)"

definition pre_flank_step ::
  "HMMInputData \<Rightarrow> KHMMParameters \<Rightarrow> 32 word \<Rightarrow> nat \<Rightarrow> float list \<Rightarrow> error + float list" where
  "pre_flank_step data params e_start i pre_flank =
     (let event_idx = event_index data e_start (word_of_nat (i - 1)) in
      bindE (vget pre_flank (i - 1)) (\<lambda>prev.
      vset pre_flank i
        (fadd (fadd (flog (trans_pre_self params))
                    (log_probability_background data event_idx))
              prev)))"

definition make_pre_flanking ::
  "HMMInputData \<Rightarrow> KHMMParameters \<Rightarrow> 32 word \<Rightarrow> 32 word \<Rightarrow> error + float list" where
  "make_pre_flanking data params e_start num_events =
     (let pre_flank = replicate (unat (num_events + 1)) (Fin 0) in
      bindE (vset pre_flank 0 (flog (trans_start_to_pre params))) (\<lambda>pre_flank.
      bindE (vset pre_flank 1
               (fadd (fadd (flog (fsub (Fin 1) (trans_start_to_pre params)))
                           (log_probability_background data e_start))
                     (flog (fsub (Fin 1) (trans_pre_self params))))) (\<lambda>pre_flank.
      foldE (pre_flank_step data params e_start) [2 ..< length pre_flank] pre_flank)))"

definition post_flank_step ::
  "HMMInputData \<Rightarrow> KHMMParameters \<Rightarrow> 32 word \<Rightarrow> nat \<Rightarrow> float list \<Rightarrow> error + float list" where
  "post_flank_step data params e_start i post_flank =
     (let event_idx = event_index data e_start (word_of_nat (i + 1)) in
      bindE (vget post_flank (i + 1)) (\<lambda>next.
      vset post_flank i
        (fadd (fadd (flog (trans_pre_self params))
                    (log_probability_background data event_idx))
              next)))"

text \<open>
  The loop counter of \<open>make_post_flanking\<close> is an \<open>int\<close> that starts at
  \<open>num_events - 3\<close>, read as a signed number, and runs down to 0.
\<close>

definition post_flank_indices :: "32 word \<Rightarrow> nat list" where
  "post_flank_indices num_events = rev [0 ..< nat (sint (num_events - 3) + 1)]"

definition make_post_flanking ::
  "HMMInputData \<Rightarrow> KHMMParameters \<Rightarrow> 32 word \<Rightarrow> 32 word \<Rightarrow> error + float list" where
  "make_post_flanking data params e_start num_events =
     (let post_flank = replicate (unat num_events) (Fin 0) in
      bindE (vset post_flank (unat (num_events - 1)) (flog (trans_start_to_pre params)))
        (\<lambda>post_flank.
      let event_idx = event_index data e_start (num_events - 1) in
      if event_idx \<noteq> event_stop_idx data then Inl AssertionFailed
      else
      bindE (vset post_flank (unat (num_events - 2))
               (fadd (fadd (flog (fsub (Fin 1) (trans_start_to_pre params)))
                           (log_probability_background data event_idx))
                     (flog (fsub (Fin 1) (trans_pre_self params))))) (\<lambda>post_flank.
      foldE (post_flank_step data params e_start) (post_flank_indices num_events)
        post_flank)))"

section \<open>The output strategy as a parameter\<close>

text \<open>
  The fill functions are templates over the class \<open>ProfileHMMOutput\<close>. The template
  parameter becomes a record of the six member functions the engine calls, over the type
  \<open>'o\<close> of the writer's state. Neither writer changes the shape of its matrices, so the
  bounds of the loops are read once.
\<close>

record 'o ProfileHMMOutput =
  update_4 :: "32 word \<Rightarrow> 32 word \<Rightarrow> float \<Rightarrow> float \<Rightarrow> float \<Rightarrow> float \<Rightarrow> float \<Rightarrow> 'o \<Rightarrow> error + 'o"
  update_end :: "float \<Rightarrow> 32 word \<Rightarrow> 32 word \<Rightarrow> 'o \<Rightarrow> 'o"
  get :: "32 word \<Rightarrow> 32 word \<Rightarrow> 'o \<Rightarrow> error + float"
  get_end :: "'o \<Rightarrow> float"
  get_num_columns :: "'o \<Rightarrow> 32 word"
  get_num_rows :: "'o \<Rightarrow> 32 word"

definition Forward_ops :: "ProfileHMMForwardOutput ProfileHMMOutput" where
  "Forward_ops =
     \<lparr>update_4 = Forward_update_4, update_end = Forward_update_end, get = Forward_get,
      get_end = fwd_lp_end, get_num_columns = (\<lambda>out. n_cols (fwd_p_fm out)),
      get_num_rows = (\<lambda>out. n_rows (fwd_p_fm out))\<rparr>"

definition Viterbi_ops :: "ProfileHMMViterbiOutput ProfileHMMOutput" where
  "Viterbi_ops =
     \<lparr>update_4 = Viterbi_update_4, update_end = Viterbi_update_end, get = Viterbi_get,
      get_end = vit_lp_end, get_num_columns = (\<lambda>out. n_cols (vit_p_fm out)),
      get_num_rows = (\<lambda>out. n_rows (vit_p_fm out))\<rparr>"

section \<open>The lattice fill engine\<close>

text \<open>
  The three state updates of one cell \<open>(row, block)\<close>. The local and the global variant
  hold the same text for them; \<open>m_s\<close> is the fourth argument of the match update, which the
  local variant passes through the variable \<open>m_s\<close> and the global one as a literal.
\<close>

definition update_states ::
  "'o ProfileHMMOutput \<Rightarrow> string \<Rightarrow> HMMInputData \<Rightarrow> 32 word \<Rightarrow> BlockTransitions list \<Rightarrow>
   32 word list \<Rightarrow> 32 word \<Rightarrow> 32 word \<Rightarrow> 'o \<Rightarrow> error + 'o" where
  "update_states ops sequence data e_start transitions kmer_ranks row block output =
     (let kmer_idx = block - 1 in
      bindE (vget transitions (unat kmer_idx)) (\<lambda>bt.
      let prev_block = block - 1;
          prev_block_offset = PS_NUM_STATES * prev_block;
          curr_block_offset = PS_NUM_STATES * block;
          event_idx = event_index data e_start (row - 1) in
      bindE (vget kmer_ranks (unat kmer_idx)) (\<lambda>rank.
      let lp_emission_m = log_probability_match data rank event_idx;
          lp_emission_e = log_probability_event_insert data rank event_idx in
      bindE (get ops (row - 1) (prev_block_offset + ps PS_MATCH) output) (\<lambda>g_m.
      bindE (get ops (row - 1) (prev_block_offset + ps PS_EVENT_SPLIT) output) (\<lambda>g_e.
      bindE (get ops (row - 1) (prev_block_offset + ps PS_KMER_SKIP) output) (\<lambda>g_k.
      let m_m = fadd (lp_mm bt) g_m;
          m_e = fadd (lp_em bt) g_e;
          m_k = fadd (lp_km bt) g_k;
          m_s = NegInf in
      bindE (update_4 ops row (curr_block_offset + ps PS_MATCH) m_m m_e m_k m_s lp_emission_m
               output) (\<lambda>output.
      bindE (get ops (row - 1) (curr_block_offset + ps PS_MATCH) output) (\<lambda>g_m.
      bindE (get ops (row - 1) (curr_block_offset + ps PS_EVENT_SPLIT) output) (\<lambda>g_e.
      let e_m = fadd (lp_me bt) g_m;
          e_e = fadd (lp_ee bt) g_e in
      bindE (update_4 ops row (curr_block_offset + ps PS_EVENT_SPLIT) e_m e_e NegInf NegInf
               lp_emission_e output) (\<lambda>output.
      bindE (get ops row (prev_block_offset + ps PS_MATCH) output) (\<lambda>g_m.
      bindE (get ops row (prev_block_offset + ps PS_KMER_SKIP) output) (\<lambda>g_k.
      let k_m = fadd (lp_mk bt) g_m;
          k_k = fadd (lp_kk bt) g_k in
      update_4 ops row (curr_block_offset + ps PS_KMER_SKIP) k_m NegInf k_k NegInf (Fin 0)
        output))))))))))))"

text \<open>The transition from the last kmer's block to the end of the alignment.\<close>

definition update_end_states ::
  "'o ProfileHMMOutput \<Rightarrow> float list \<Rightarrow> float \<Rightarrow> 32 word \<Rightarrow> 32 word \<Rightarrow> 'o \<Rightarrow> error + 'o" where
  "update_end_states ops post_flank lp_ms row block output =
     (let curr_block_offset = PS_NUM_STATES * block in
      bindE (get ops row (curr_block_offset + ps PS_MATCH) output) (\<lambda>g_m.
      bindE (vget post_flank (unat (row - 1))) (\<lambda>pf.
      let lp1 = fadd (fadd lp_ms g_m) pf in
      bindE (get ops row (curr_block_offset + ps PS_EVENT_SPLIT) output) (\<lambda>g_e.
      bindE (vget post_flank (unat (row - 1))) (\<lambda>pf.
      let lp2 = fadd (fadd lp_ms g_e) pf in
      bindE (get ops row (curr_block_offset + ps PS_KMER_SKIP) output) (\<lambda>g_k.
      bindE (vget post_flank (unat (row - 1))) (\<lambda>pf.
      let lp3 = fadd (fadd lp_ms g_k) pf;
          output = update_end ops lp1 row (curr_block_offset + ps PS_MATCH) output;
          output = update_end ops lp2 row (curr_block_offset + ps PS_EVENT_SPLIT) output;
          output = update_end ops lp3 row (curr_block_offset + ps PS_KMER_SKIP) output
      in Inr output)))))))"

text \<open>The body of the inner loop of the local variant.\<close>

definition local_cell ::
  "'o ProfileHMMOutput \<Rightarrow> string \<Rightarrow> HMMInputData \<Rightarrow> 32 word \<Rightarrow> BlockTransitions list \<Rightarrow>
   32 word list \<Rightarrow> float list \<Rightarrow> float \<Rightarrow> 32 word \<Rightarrow> 32 word \<Rightarrow> 32 word \<Rightarrow> 'o \<Rightarrow> error + 'o" where
  "local_cell ops sequence data e_start transitions kmer_ranks post_flank lp_ms last_kmer_idx
     row block output =
     bindE (update_states ops sequence data e_start transitions kmer_ranks row block output)
       (\<lambda>output.
     if block - 1 = last_kmer_idx
     then update_end_states ops post_flank lp_ms row block output
     else Inr output)"

text \<open>
  The two nested loops of the local variant, with the local variables they read. The uniform
  prior \<open>lp_ms\<close> is an argument.
\<close>

definition local_sweep ::
  "'o ProfileHMMOutput \<Rightarrow> string \<Rightarrow> HMMInputData \<Rightarrow> 32 word \<Rightarrow> BlockTransitions list \<Rightarrow>
   32 word list \<Rightarrow> float list \<Rightarrow> float \<Rightarrow> 32 word \<Rightarrow> 32 word \<Rightarrow> 'o \<Rightarrow> error + 'o" where
  "local_sweep ops sequence data e_start transitions kmer_ranks post_flank lp_ms last_kmer_idx
     num_blocks output =
     foldE (\<lambda>row.
        foldE (local_cell ops sequence data e_start transitions kmer_ranks post_flank lp_ms
                 last_kmer_idx row)
          (uint32_range 1 (num_blocks - 1)))
       (uint32_range 1 (get_num_rows ops output)) output"

definition profile_hmm_fill_generic_local ::
  "'o ProfileHMMOutput \<Rightarrow> string \<Rightarrow> HMMInputData \<Rightarrow> 32 word \<Rightarrow> 'o \<Rightarrow> error + (float \<times> 'o)" where
  "profile_hmm_fill_generic_local ops sequence data e_start output =
     (let num_blocks = get_num_columns ops output div PS_NUM_STATES;
          num_kmers = num_blocks - 2;
          last_kmer_idx = num_kmers - 1;
          transitions = calculate_transitions num_kmers sequence data;
          kmer_ranks = map (get_rank data sequence) (uint32_range 0 num_kmers);
          num_events = get_num_rows ops output - 1 in
      bindE (make_pre_flanking data (parameters data) e_start num_events) (\<lambda>pre_flank.
      bindE (make_post_flanking data (parameters data) e_start num_events) (\<lambda>post_flank.
      let lp_ms = flog (fdiv (Fin 1) (float_of_uint32 num_kmers)) in
      bindE (local_sweep ops sequence data e_start transitions kmer_ranks post_flank lp_ms
               last_kmer_idx num_blocks output) (\<lambda>output.
      Inr (get_end ops output, output)))))"

definition global_sweep ::
  "'o ProfileHMMOutput \<Rightarrow> string \<Rightarrow> HMMInputData \<Rightarrow> 32 word \<Rightarrow> BlockTransitions list \<Rightarrow>
   32 word list \<Rightarrow> 32 word \<Rightarrow> 'o \<Rightarrow> error + 'o" where
  "global_sweep ops sequence data e_start transitions kmer_ranks num_blocks output =
     foldE (\<lambda>row.
        foldE (update_states ops sequence data e_start transitions kmer_ranks row)
          (uint32_range 1 (num_blocks - 1)))
       (uint32_range 1 (get_num_rows ops output)) output"

definition profile_hmm_fill_generic_global ::
  "'o ProfileHMMOutput \<Rightarrow> string \<Rightarrow> HMMInputData \<Rightarrow> 32 word \<Rightarrow> 'o \<Rightarrow> error + (float \<times> 'o)" where
  "profile_hmm_fill_generic_global ops sequence data e_start output =
     (let num_blocks = get_num_columns ops output div PS_NUM_STATES;
          num_kmers = num_blocks - 2;
          transitions = calculate_transitions num_kmers sequence data;
          kmer_ranks = map (get_rank data sequence) (uint32_range 0 num_kmers) in
      bindE (global_sweep ops sequence data e_start transitions kmer_ranks num_blocks output)
        (\<lambda>output.
      let last_event_row = get_num_rows ops output - 1;
          last_aligned_block = num_blocks - 2;
          match_state_last_block = PS_NUM_STATES * last_aligned_block + ps PS_MATCH in
      bindE (get ops last_event_row match_state_last_block output) (\<lambda>g.
      let output = update_end ops g last_event_row match_state_last_block output in
      Inr (get_end ops output, output))))"


section \<open>Observing the calls of the engine\<close>

text \<open>
  To state which calls the engine makes, a writer is wrapped into one that behaves as the
  wrapped writer does and appends every \<open>update_4\<close> and \<open>update_end\<close> call, with its
  arguments, to a log.
\<close>

datatype call =
  Update4 "32 word" "32 word" float float float float float
| UpdateEnd float "32 word" "32 word"

definition traced :: "'o ProfileHMMOutput \<Rightarrow> ('o \<times> call list) ProfileHMMOutput" where
  "traced ops =
     \<lparr>update_4 = (\<lambda>row col m e k s em (out, calls).
        bindE (update_4 ops row col m e k s em out)
          (\<lambda>out'. Inr (out', calls @ [Update4 row col m e k s em]))),
      update_end = (\<lambda>v row col (out, calls).
        (update_end ops v row col out, calls @ [UpdateEnd v row col])),
      get = (\<lambda>row col (out, calls). get ops row col out),
      get_end = (\<lambda>(out, calls). get_end ops out),
      get_num_columns = (\<lambda>(out, calls). get_num_columns ops out),
      get_num_rows = (\<lambda>(out, calls). get_num_rows ops out)\<rparr>"

fun is_update_end :: "call \<Rightarrow> bool" where
  "is_update_end (UpdateEnd v row col) = True"
| "is_update_end _ = False"

fun fourth_input :: "call \<Rightarrow> float option" where
  "fourth_input (Update4 row col m e k s em) = Some s"
| "fourth_input _ = None"

section \<open>Statements in the words of the specification\<close>

text \<open>
  The branch the specification asks the Viterbi writer to record: the first one, in the order
  match, event-split, kmer-skip, local-entry, whose input equals the maximum \<open>M\<close> under
  floating-point equality.
\<close>

definition recorded_branch_spec ::
  "float \<Rightarrow> float \<Rightarrow> float \<Rightarrow> float \<Rightarrow> float \<Rightarrow> ProfileState option" where
  "recorded_branch_spec M m e k s =
     map_option fst (find (\<lambda>(st, x). feq M x)
       [(PS_MATCH, m), (PS_EVENT_SPLIT, e), (PS_KMER_SKIP, k), (PS_PRE_SOFT, s)])"

text \<open>
  The column the global variant reads its end score from, as a function of the number of
  columns: the match state of block \<open>num_blocks - 2\<close>.
\<close>

definition match_state_last_block :: "32 word \<Rightarrow> 32 word" where
  "match_state_last_block n_columns =
     PS_NUM_STATES * (n_columns div PS_NUM_STATES - 2) + ps PS_MATCH"

section \<open>A small input bundle\<close>

text \<open>
  A three-event window against a one-kmer sequence, with the transition parameters of the
  specification's end-to-end scenario: the lattice has four rows and nine columns.
\<close>

definition example_parameters :: KHMMParameters where
  "example_parameters =
     \<lparr>trans_m_to_e_not_k = Fin (1 / 10), trans_e_to_e = Fin (3 / 10),
      trans_start_to_pre = Fin (1 / 2), trans_pre_self = Fin (1 / 5)\<rparr>"

definition example_data :: HMMInputData where
  "example_data =
     \<lparr>parameters = example_parameters, event_stride = 1, event_stop_idx = 2,
      get_rank = (\<lambda>sequence ki. ki), get_scaled_parameters = (\<lambda>rank. \<lparr>mean = Fin 1\<rparr>),
      get_skip_probability = (\<lambda>a b. Fin (1 / 4)),
      log_probability_match = (\<lambda>rank event_idx. Fin (- 1)),
      log_probability_event_insert = (\<lambda>rank event_idx. Fin (- 2)),
      log_probability_background = (\<lambda>event_idx. Fin (- 3))\<rparr>"

definition example_lattice :: FloatMatrix where
  "example_lattice =
     \<lparr>n_rows = 4, n_cols = 9,
      cells = (\<lambda>(row, col). if row = 0 \<and> col < 3 then Fin 0 else NegInf)\<rparr>"

definition example_backtrace :: UInt8Matrix where
  "example_backtrace = \<lparr>n_rows = 4, n_cols = 9, cells = (\<lambda>(row, col). None)\<rparr>"

text \<open>
  A one-event window against the same sequence: a lattice of two rows, and its backtrace
  matrix.
\<close>

definition short_lattice :: FloatMatrix where
  "short_lattice =
     \<lparr>n_rows = 2, n_cols = 9,
      cells = (\<lambda>(row, col). if row = 0 \<and> col < 3 then Fin 0 else NegInf)\<rparr>"

definition short_backtrace :: UInt8Matrix where
  "short_backtrace = \<lparr>n_rows = 2, n_cols = 9, cells = (\<lambda>(row, col). None)\<rparr>"


text \<open>
  Inputs for the transition table that are single-precision numbers: the \<open>float\<close> nearest
  to 0.2 as \<open>trans_m_to_e_not_k\<close> with the \<open>float\<close> nearest to 0.04 as skip probability; a
  stay probability of \<open>2^25\<close>, which is no probability; and \<open>trans_m_to_e_not_k = 1\<close> with the
  \<open>float\<close> nearest to 0.2 as skip probability.
\<close>

definition float_parameters :: KHMMParameters where
  "float_parameters = example_parameters\<lparr>trans_m_to_e_not_k := Fin (13421773 / 67108864)\<rparr>"

definition float_data :: HMMInputData where
  "float_data =
     example_data\<lparr>parameters := float_parameters,
                  get_skip_probability := (\<lambda>a b. Fin (5368709 / 134217728))\<rparr>"

definition wide_parameters :: KHMMParameters where
  "wide_parameters = example_parameters\<lparr>trans_e_to_e := Fin 33554432\<rparr>"

definition edge_parameters :: KHMMParameters where
  "edge_parameters = example_parameters\<lparr>trans_m_to_e_not_k := Fin 1\<rparr>"

definition edge_data :: HMMInputData where
  "edge_data =
     example_data\<lparr>parameters := edge_parameters,
                  get_skip_probability := (\<lambda>a b. Fin (13421773 / 67108864))\<rparr>"

text \<open>
  A one-event window against a sequence of two kmers: a lattice of two rows and twelve
  columns, and a backtrace matrix that holds \<open>PS_MATCH\<close> everywhere.
\<close>

definition edge_lattice :: FloatMatrix where
  "edge_lattice =
     \<lparr>n_rows = 2, n_cols = 12,
      cells = (\<lambda>(row, col). if row = 0 \<and> col < 3 then Fin 0 else NegInf)\<rparr>"

definition edge_backtrace :: UInt8Matrix where
  "edge_backtrace = \<lparr>n_rows = 2, n_cols = 12, cells = (\<lambda>(row, col). Some PS_MATCH)\<rparr>"

section \<open>Names for the terms of the flank vectors\<close>

text \<open>
  The term both builders add for one more background event, and the value of their second base
  case.
\<close>

definition flank_term :: "HMMInputData \<Rightarrow> KHMMParameters \<Rightarrow> 32 word \<Rightarrow> nat \<Rightarrow> float" where
  "flank_term data params e_start n =
     fadd (flog (trans_pre_self params))
          (log_probability_background data (event_index data e_start (word_of_nat n)))"

definition flank_base :: "HMMInputData \<Rightarrow> KHMMParameters \<Rightarrow> 32 word \<Rightarrow> float" where
  "flank_base data params event_idx =
     fadd (fadd (flog (fsub (Fin 1) (trans_start_to_pre params)))
                (log_probability_background data event_idx))
          (flog (fsub (Fin 1) (trans_pre_self params)))"

text \<open>The parameters of the small bundle with a start-to-pre probability of one percent.\<close>

definition steep_parameters :: KHMMParameters where
  "steep_parameters = example_parameters\<lparr>trans_start_to_pre := Fin (1 / 100)\<rparr>"

section \<open>Relating two runs of the engine\<close>

text \<open>
  Two writers \<open>A\<close> and \<open>B\<close> are compared through a relation \<open>R\<close> between their states and a
  relation \<open>G\<close> between the values they hand out: \<open>get\<close> yields related values in related
  states, \<open>update_4\<close> with related inputs, a fourth input of \<open>-INFINITY\<close> and an emission
  term in \<open>C\<close> keeps the states related (\<open>sim_states\<close>), \<open>update_end\<close> with inputs related by
  \<open>E\<close> keeps them related (\<open>sim_end\<close>), and related states have the same shape
  (\<open>sim_shape\<close>). With \<open>A = B\<close> and a relation that holds between a state and itself only,
  this is an invariant of one run.
\<close>

definition sim_states ::
  "('s \<Rightarrow> 't \<Rightarrow> bool) \<Rightarrow> (float \<Rightarrow> float \<Rightarrow> bool) \<Rightarrow> (float \<Rightarrow> bool) \<Rightarrow>
   's ProfileHMMOutput \<Rightarrow> 't ProfileHMMOutput \<Rightarrow> bool" where
  "sim_states R G C A B \<longleftrightarrow>
     G NegInf NegInf \<and>
     (\<forall>c a b. C c \<longrightarrow> G a b \<longrightarrow> G (fadd c a) (fadd c b)) \<and>
     (\<forall>s t row col. R s t \<longrightarrow> rel_sum (=) G (get A row col s) (get B row col t)) \<and>
     (\<forall>s t row col m e k em m' e' k'. R s t \<longrightarrow> G m m' \<longrightarrow> G e e' \<longrightarrow> G k k' \<longrightarrow> C em \<longrightarrow>
        rel_sum (=) R (update_4 A row col m e k NegInf em s)
                      (update_4 B row col m' e' k' NegInf em t))"

definition sim_end ::
  "('s \<Rightarrow> 't \<Rightarrow> bool) \<Rightarrow> (float \<Rightarrow> float \<Rightarrow> bool) \<Rightarrow>
   's ProfileHMMOutput \<Rightarrow> 't ProfileHMMOutput \<Rightarrow> bool" where
  "sim_end R E A B \<longleftrightarrow>
     (\<forall>s t v v' row col. R s t \<longrightarrow> E v v' \<longrightarrow>
        R (update_end A v row col s) (update_end B v' row col t))"

definition all_transitions :: "(float \<Rightarrow> bool) \<Rightarrow> BlockTransitions \<Rightarrow> bool" where
  "all_transitions C bt \<longleftrightarrow>
     C (lp_mm bt) \<and> C (lp_me bt) \<and> C (lp_mk bt) \<and> C (lp_ee bt) \<and> C (lp_em bt) \<and>
     C (lp_kk bt) \<and> C (lp_km bt)"

definition sim_shape ::
  "('s \<Rightarrow> 't \<Rightarrow> bool) \<Rightarrow> 's ProfileHMMOutput \<Rightarrow> 't ProfileHMMOutput \<Rightarrow> bool" where
  "sim_shape R A B \<longleftrightarrow>
     (\<forall>s t. R s t \<longrightarrow> get_num_rows A s = get_num_rows B t \<and>
                      get_num_columns A s = get_num_columns B t)"

section \<open>Runs that end without an error\<close>

text \<open>
  \<open>total_on I nr nc A\<close>: in every state that satisfies \<open>I\<close> the writer \<open>A\<close> reports
  \<open>nr\<close> rows and \<open>nc\<close> columns, \<open>get\<close> and \<open>update_4\<close> succeed at every position inside
  these bounds, and \<open>update_4\<close> and \<open>update_end\<close> lead to a state that satisfies \<open>I\<close>.
\<close>

definition total_on ::
  "('s \<Rightarrow> bool) \<Rightarrow> 32 word \<Rightarrow> 32 word \<Rightarrow> 's ProfileHMMOutput \<Rightarrow> bool" where
  "total_on I nr nc A \<longleftrightarrow>
     (\<forall>s. I s \<longrightarrow> get_num_rows A s = nr \<and> get_num_columns A s = nc) \<and>
     (\<forall>s row col. I s \<longrightarrow> row < nr \<longrightarrow> col < nc \<longrightarrow> (\<exists>g. get A row col s = Inr g)) \<and>
     (\<forall>s row col m e k x em. I s \<longrightarrow> row < nr \<longrightarrow> col < nc \<longrightarrow>
        (\<exists>s'. update_4 A row col m e k x em s = Inr s' \<and> I s')) \<and>
     (\<forall>s v row col. I s \<longrightarrow> I (update_end A v row col s))"

section \<open>Relations and invariants of the two writers\<close>



text \<open>
  The three block states as backtrace values, and an invariant of a Viterbi writer with
  respect to the backtrace matrix \<open>bm0\<close> it started from: every lattice cell is a
  log-probability and every backtrace cell is the one of \<open>bm0\<close> or a block state
  (\<open>vit_inv\<close>).
\<close>

definition backtrace_states :: "ProfileState option set" where
  "backtrace_states = {Some PS_MATCH, Some PS_EVENT_SPLIT, Some PS_KMER_SKIP}"

definition vit_inv :: "UInt8Matrix \<Rightarrow> ProfileHMMViterbiOutput \<Rightarrow> bool" where
  "vit_inv bm0 vo \<longleftrightarrow>
     (\<forall>rc. logdom (cells (vit_p_fm vo) rc)) \<and>
     (\<forall>rc. cells (vit_p_bm vo) rc = cells bm0 rc \<or> cells (vit_p_bm vo) rc \<in> backtrace_states)"


section \<open>Facts about the floating-point operations\<close>

subsection \<open>Rounding\<close>

lemma pow2_pos [simp]: "0 < pow2 k"
  by (simp add: pow2_def)

lemma pow2_add: "pow2 (j + k) = pow2 j * pow2 k"
  by (simp add: pow2_def powr_add)

lemma pow2_nat: "pow2 (int n) = 2 ^ n"
  by (simp add: pow2_def powr_realpow)

lemma pow2_neg_nat: "pow2 (- int n) = 1 / 2 ^ n"
  by (simp add: pow2_def powr_minus powr_realpow inverse_eq_divide)

lemma pow2_mono: "j \<le> k \<Longrightarrow> pow2 j \<le> pow2 k"
  by (simp add: pow2_def)

lemma pow2_numeral [simp]: "pow2 (numeral n) = 2 ^ numeral n" "pow2 (- numeral n) = 1 / 2 ^ numeral n"
  "pow2 0 = 1" "pow2 1 = 2" "pow2 (- 1) = 1 / 2"
  using pow2_nat [of "numeral n"] pow2_neg_nat [of "numeral n"]
  by (simp_all add: pow2_def powr_minus inverse_eq_divide)

lemma rne_bound: "\<bar>of_int (rne r) - r\<bar> \<le> 1 / 2"
  unfolding rne_def Let_def by (auto simp: abs_if; linarith)

lemma rne_of_int [simp]: "rne (of_int n) = n"
  by (simp add: rne_def)

lemma rne_le_int: "r \<le> of_int n \<Longrightarrow> rne r \<le> n"
  unfolding rne_def Let_def
  by (auto simp: le_floor_iff floor_le_iff; linarith)

lemma rne_ge_int: "of_int n \<le> r \<Longrightarrow> n \<le> rne r"
  unfolding rne_def Let_def
  by (auto simp: le_floor_iff; linarith)

lemma floor_log2:
  assumes "pow2 k \<le> \<bar>x\<bar>" "\<bar>x\<bar> < pow2 (k + 1)"
  shows "\<lfloor>log 2 \<bar>x\<bar>\<rfloor> = k"
proof -
  have "0 < \<bar>x\<bar>" using assms(1) pow2_pos [of k] by linarith
  then show ?thesis
    using assms by (subst floor_log_eq_powr_iff) (simp_all add: pow2_def)
qed

lemma round32_eval:
  assumes "pow2 k \<le> \<bar>x\<bar>" "\<bar>x\<bar> < pow2 (k + 1)" "- 126 \<le> k"
    and "y = of_int (rne (x / pow2 (k - 23))) * pow2 (k - 23)" "\<bar>y\<bar> < 2 ^ 128"
  shows "round32 x = Fin y"
proof -
  have "0 < \<bar>x\<bar>" using assms(1) pow2_pos [of k] by linarith
  then have "x \<noteq> 0" by auto
  moreover have "max \<lfloor>log 2 \<bar>x\<bar>\<rfloor> (- 126) = k"
    using floor_log2 [OF assms(1,2)] assms(3) by simp
  ultimately show ?thesis
    using assms(4,5) by (simp add: round32_def Let_def)
qed

lemma round32_zero [simp]: "round32 0 = Fin 0"
  by (simp add: round32_def)

lemma round32_one [simp]: "round32 1 = Fin 1"
  by (rule round32_eval [where k = 0]) (simp_all add: rne_def)

lemma round32_minus_one: "round32 (- 1) = Fin (- 1)"
  by (rule round32_eval [where k = 0]) (simp_all add: rne_def)

lemma round32_unit:
  assumes "\<bar>x\<bar> \<le> 1"
  shows "\<exists>y. round32 x = Fin y \<and> \<bar>y - x\<bar> \<le> 1 / 2 ^ 25 \<and> \<bar>y\<bar> \<le> 1 \<and>
             (0 \<le> x \<longrightarrow> 0 \<le> y) \<and> (x \<le> 0 \<longrightarrow> y \<le> 0)"
proof -
  consider "x = 0" | "x = 1" | "x = - 1" | "x \<noteq> 0" "\<bar>x\<bar> < 1"
    using assms by fastforce
  then show ?thesis
  proof cases
    case 1
    then show ?thesis by simp
  next
    case 2
    then show ?thesis by simp
  next
    case 3
    then show ?thesis by (simp add: round32_minus_one)
  next
    case 4
    define e where "e = max \<lfloor>log 2 \<bar>x\<bar>\<rfloor> (- 126)"
    define n where "n = nat (23 - e)"
    define q where "q = pow2 (e - 23)"
    define r where "r = x / q"
    define y where "y = of_int (rne r) * q"
    have "log 2 \<bar>x\<bar> < 0"
      using 4 by simp
    then have "\<lfloor>log 2 \<bar>x\<bar>\<rfloor> \<le> - 1"
      by (simp add: floor_le_iff)
    then have e: "e \<le> - 1"
      unfolding e_def by linarith
    then have j: "e - 23 = - int n" "24 \<le> n"
      by (simp_all add: n_def)
    have q: "q = 1 / 2 ^ n"
      unfolding q_def j(1) by (rule pow2_neg_nat)
    have qpos: "0 < q"
      by (simp add: q)
    have "(2 :: real) ^ 24 \<le> 2 ^ n"
      using j(2) by (intro power_increasing) simp_all
    then have qle: "q \<le> 1 / 2 ^ 24"
      unfolding q by (intro divide_left_mono) simp_all
    have N: "of_int (2 ^ n) * q = 1"
      by (simp add: q)
    have x: "x = r * q"
      using qpos by (simp add: r_def)
    have "\<bar>r\<bar> < of_int (2 ^ n)"
      using 4(2) by (simp add: r_def q abs_mult)
    then have rr: "r \<le> of_int (2 ^ n)" "of_int (- (2 ^ n)) \<le> r"
      by simp_all
    have "rne r \<le> 2 ^ n" "- (2 ^ n) \<le> rne r"
      using rne_le_int [OF rr(1)] rne_ge_int [OF rr(2)] by simp_all
    then have "\<bar>rne r\<bar> \<le> 2 ^ n"
      by linarith
    then have "\<bar>real_of_int (rne r)\<bar> \<le> of_int (2 ^ n)"
      by (metis of_int_abs of_int_le_iff)
    then have "\<bar>y\<bar> \<le> of_int (2 ^ n) * q"
      unfolding y_def abs_mult using qpos by (simp add: mult_right_mono)
    then have y1: "\<bar>y\<bar> \<le> 1"
      using N by simp
    have "y - x = (of_int (rne r) - r) * q"
      unfolding y_def x by (simp add: algebra_simps)
    then have "\<bar>y - x\<bar> = \<bar>of_int (rne r) - r\<bar> * q"
      using qpos by (simp add: abs_mult)
    also have "\<dots> \<le> 1 / 2 * q"
      using rne_bound [of r] qpos by (intro mult_right_mono) simp_all
    also have "\<dots> \<le> 1 / 2 ^ 25"
      using qle by simp
    finally have err: "\<bar>y - x\<bar> \<le> 1 / 2 ^ 25" .
    have pos: "0 \<le> y" if "0 \<le> x"
    proof -
      have "of_int 0 \<le> r" using that qpos by (simp add: r_def)
      then have "0 \<le> rne r" by (rule rne_ge_int)
      then show ?thesis using qpos by (simp add: y_def)
    qed
    have neg: "y \<le> 0" if "x \<le> 0"
    proof -
      have "r \<le> of_int 0" using that qpos by (simp add: r_def divide_nonpos_pos)
      then have "rne r \<le> 0" by (rule rne_le_int)
      then show ?thesis using qpos by (simp add: y_def mult_le_0_iff)
    qed
    have "round32 x = Fin y"
      using 4(1) y1 unfolding round32_def Let_def e_def [symmetric] q_def [symmetric]
        r_def [symmetric] y_def [symmetric]
      by simp
    then show ?thesis
      using err y1 pos neg by blast
  qed
qed

lemma ulp_numerals:
  "(1 :: real) / 2 ^ 25 = 1 / 33554432" "(1 :: real) / 2 ^ 24 = 2 / 33554432"
  "(1 :: real) / 2 ^ 23 = 4 / 33554432"
  by simp_all

lemma rounded_simps [simp]:
  "rounded (Fin x) = round32 x" "rounded NaN = NaN" "rounded NegInf = NegInf"
  "rounded PosInf = PosInf"
  by (simp_all add: rounded_def)

subsection \<open>Order and special values\<close>

lemma is_probE: "is_prob a \<Longrightarrow> \<exists>x. a = Fin x \<and> 0 \<le> x \<and> x \<le> 1"
  by (cases a) (auto simp: is_prob_def)

lemma flt_irrefl [simp]: "\<not> flt a a"
  by (cases a) auto

lemma flt_asym: "flt a b \<Longrightarrow> \<not> flt b a"
  by (cases a; cases b) auto

lemma fle_refl: "a \<noteq> NaN \<Longrightarrow> fle a a"
  by (simp add: fle_def feq_def)

lemma not_flt_fle: "a \<noteq> NaN \<Longrightarrow> b \<noteq> NaN \<Longrightarrow> \<not> flt a b \<Longrightarrow> fle b a"
  by (cases a; cases b) (auto simp: fle_def feq_def)

lemma flt_fle: "flt a b \<Longrightarrow> fle a b"
  by (simp add: fle_def)

lemma fle_trans: "fle a b \<Longrightarrow> fle b c \<Longrightarrow> fle a c"
  by (cases a; cases b; cases c) (auto simp: fle_def feq_def)

lemma fmax_cases: "fmax a b = a \<or> fmax a b = b"
  by (simp add: fmax_def)

lemma fmax_NaN_free: "a \<noteq> NaN \<Longrightarrow> b \<noteq> NaN \<Longrightarrow> fmax a b \<noteq> NaN"
  by (simp add: fmax_def)

lemma fmax_ge1: "a \<noteq> NaN \<Longrightarrow> b \<noteq> NaN \<Longrightarrow> fle a (fmax a b)"
  by (simp add: fmax_def flt_fle fle_refl)

lemma fmax_ge2: "a \<noteq> NaN \<Longrightarrow> b \<noteq> NaN \<Longrightarrow> fle b (fmax a b)"
  by (simp add: fmax_def not_flt_fle fle_refl)

lemma is_finiteE: "is_finite a \<Longrightarrow> \<exists>x. a = Fin x"
  by (cases a) (auto simp: is_finite_def)

section \<open>Facts about errors, loops and matrices\<close>

lemma bindE_Inr: "bindE m f = Inr y \<longleftrightarrow> (\<exists>x. m = Inr x \<and> f x = Inr y)"
  by (cases m) (auto simp: bindE_def)

lemma mset_Inr:
  "mset M row col v = Inr M' \<Longrightarrow>
   M' = M\<lparr>cells := (cells M)((unat row, unat col) := v)\<rparr> \<and> row < n_rows M \<and> col < n_cols M"
  by (auto simp: mset_def split: if_splits)

lemma length_uint32_range [simp]: "length (uint32_range lo hi) = unat hi - unat lo"
  by (simp add: uint32_range_def)

lemma uint32_range_nth:
  "i < unat hi - unat lo \<Longrightarrow> uint32_range lo hi ! i = word_of_nat (unat lo + i)"
  by (simp add: uint32_range_def)

section \<open>The Viterbi writer\<close>

lemma Viterbi_update_4_Inr:
  "Viterbi_update_4 row col m e k s em out = Inr out' \<Longrightarrow>
   out' = out\<lparr>vit_p_fm := (vit_p_fm out)\<lparr>cells :=
                 (cells (vit_p_fm out))((unat row, unat col) := fadd (Viterbi_max m e k s) em)\<rparr>,
              vit_p_bm := (vit_p_bm out)\<lparr>cells :=
                 (cells (vit_p_bm out))((unat row, unat col) := Viterbi_from m e k s)\<rparr>\<rparr>
   \<and> row < n_rows (vit_p_fm out) \<and> col < n_cols (vit_p_fm out)
   \<and> row < n_rows (vit_p_bm out) \<and> col < n_cols (vit_p_bm out)"
  by (auto simp: Viterbi_update_4_def Let_def bindE_Inr dest!: mset_Inr)

lemma Viterbi_max_greatest:
  assumes "m \<noteq> NaN" "e \<noteq> NaN" "k \<noteq> NaN" "s \<noteq> NaN"
  shows "Viterbi_max m e k s \<in> {m, e, k, s}"
    and "fle m (Viterbi_max m e k s)" "fle e (Viterbi_max m e k s)"
    and "fle k (Viterbi_max m e k s)" "fle s (Viterbi_max m e k s)"
proof -
  let ?a = "fmax m e" and ?b = "fmax k s"
  have a: "?a \<noteq> NaN" and b: "?b \<noteq> NaN"
    using assms by (simp_all add: fmax_NaN_free)
  show "Viterbi_max m e k s \<in> {m, e, k, s}"
    unfolding Viterbi_max_def
    using fmax_cases [of m e] fmax_cases [of k s] fmax_cases [of ?a ?b] by auto
  show "fle m (Viterbi_max m e k s)"
    unfolding Viterbi_max_def
    using fle_trans [OF fmax_ge1 [of m e] fmax_ge1 [OF a b]] assms by simp
  show "fle e (Viterbi_max m e k s)"
    unfolding Viterbi_max_def
    using fle_trans [OF fmax_ge2 [of m e] fmax_ge1 [OF a b]] assms by simp
  show "fle k (Viterbi_max m e k s)"
    unfolding Viterbi_max_def
    using fle_trans [OF fmax_ge1 [of k s] fmax_ge2 [OF a b]] assms by simp
  show "fle s (Viterbi_max m e k s)"
    unfolding Viterbi_max_def
    using fle_trans [OF fmax_ge2 [of k s] fmax_ge2 [OF a b]] assms by simp
qed

lemma Viterbi_from_spec:
  "Viterbi_from m e k s = recorded_branch_spec (Viterbi_max m e k s) m e k s"
  by (simp add: Viterbi_from_def recorded_branch_spec_def Let_def)

text \<open>
  C6. When the Viterbi writer's \<open>update_4\<close> returns, the lattice cell \<open>(row, col)\<close> holds
  the value of the nested \<open>std::max\<close> of the four inputs plus the emission term, and the
  backtrace cell holds the first branch, in the order match, event-split, kmer-skip,
  local-entry, whose input equals that value under floating-point equality (no branch, and so
  the indeterminate byte, when none does). When no input is NaN the nested \<open>std::max\<close> is the
  maximum of the four inputs: it is one of them and none is greater.
\<close>

theorem Viterbi_update_4_stores_max:
  assumes "Viterbi_update_4 row col m e k s lp_emission out = Inr out'"
  shows "cells (vit_p_fm out') (unat row, unat col) = fadd (Viterbi_max m e k s) lp_emission \<and>
         cells (vit_p_bm out') (unat row, unat col)
           = recorded_branch_spec (Viterbi_max m e k s) m e k s \<and>
         (m \<noteq> NaN \<and> e \<noteq> NaN \<and> k \<noteq> NaN \<and> s \<noteq> NaN \<longrightarrow>
            Viterbi_max m e k s \<in> {m, e, k, s} \<and>
            fle m (Viterbi_max m e k s) \<and> fle e (Viterbi_max m e k s) \<and>
            fle k (Viterbi_max m e k s) \<and> fle s (Viterbi_max m e k s))"
  using Viterbi_update_4_Inr [OF assms] Viterbi_max_greatest [of m e k s]
  by (simp add: Viterbi_from_spec)

theorem Viterbi_update_4_stores_max_witness:
  "(case Viterbi_update_4 1 3 (Fin (- 2)) (Fin (- 1)) (Fin (- 1)) NegInf (Fin (- 3))
           (Viterbi_new example_lattice example_backtrace) of
      Inl err \<Rightarrow> False
    | Inr out' \<Rightarrow> cells (vit_p_fm out') (1, 3) = Fin (- 4) \<and>
                  cells (vit_p_bm out') (1, 3) = Some PS_EVENT_SPLIT)"
proof -
  let ?out = "Viterbi_new example_lattice example_backtrace"
  have "\<exists>out'. Viterbi_update_4 1 3 (Fin (- 2)) (Fin (- 1)) (Fin (- 1)) NegInf (Fin (- 3)) ?out
          = Inr out'"
    by (simp add: Viterbi_update_4_def Viterbi_new_def example_lattice_def example_backtrace_def
        mset_def bindE_def)
  then obtain out' where
    h: "Viterbi_update_4 1 3 (Fin (- 2)) (Fin (- 1)) (Fin (- 1)) NegInf (Fin (- 3)) ?out = Inr out'"
    by blast
  have "Fin (- 2) \<noteq> NaN \<and> Fin (- 1) \<noteq> NaN \<and> Fin (- 1) \<noteq> NaN \<and> NegInf \<noteq> NaN"
    by simp
  with Viterbi_update_4_stores_max [OF h] show ?thesis
    by (simp add: h Viterbi_max_def fmax_def recorded_branch_spec_def feq_def)
qed

text \<open>
  C7. The Viterbi writer's \<open>update_end\<close> replaces the stored end score, row and column when
  \<open>v\<close> is strictly greater than the stored score and leaves the writer as it is otherwise,
  in particular on a tie and on a smaller value. A new writer holds the score \<open>-INFINITY\<close>.
\<close>

theorem Viterbi_update_end_strict:
  "(fgt v (vit_lp_end out) \<longrightarrow>
      Viterbi_update_end v row col out =
        out\<lparr>vit_lp_end := v, vit_end_row := Some row, vit_end_col := Some col\<rparr>) \<and>
   (\<not> fgt v (vit_lp_end out) \<longrightarrow> Viterbi_update_end v row col out = out) \<and>
   (feq v (vit_lp_end out) \<or> flt v (vit_lp_end out) \<longrightarrow>
      Viterbi_update_end v row col out = out) \<and>
   vit_lp_end (Viterbi_new pf pb) = NegInf"
  by (auto simp: Viterbi_update_end_def Viterbi_new_def fgt_def feq_def dest: flt_asym)

theorem Viterbi_update_end_strict_witness:
  "fgt (Fin (- 5)) (vit_lp_end (Viterbi_new example_lattice example_backtrace)) \<and>
   Viterbi_update_end (Fin (- 5)) 1 3 (Viterbi_new example_lattice example_backtrace) =
     (Viterbi_new example_lattice example_backtrace)
       \<lparr>vit_lp_end := Fin (- 5), vit_end_row := Some 1, vit_end_col := Some 3\<rparr> \<and>
   feq (Fin (- 5))
     (vit_lp_end ((Viterbi_new example_lattice example_backtrace)\<lparr>vit_lp_end := Fin (- 5)\<rparr>)) \<and>
   Viterbi_update_end (Fin (- 5)) 2 4
       ((Viterbi_new example_lattice example_backtrace)\<lparr>vit_lp_end := Fin (- 5)\<rparr>) =
     (Viterbi_new example_lattice example_backtrace)\<lparr>vit_lp_end := Fin (- 5)\<rparr>"
  using Viterbi_update_end_strict
      [of "Fin (- 5)" "Viterbi_new example_lattice example_backtrace" 1 3
          example_lattice example_backtrace]
    Viterbi_update_end_strict
      [of "Fin (- 5)" "(Viterbi_new example_lattice example_backtrace)\<lparr>vit_lp_end := Fin (- 5)\<rparr>"
          2 4 example_lattice example_backtrace]
  by (simp add: fgt_def feq_def Viterbi_new_def)

section \<open>The transition table\<close>

lemma length_calculate_transitions [simp]:
  "length (calculate_transitions num_kmers sequence data) = unat num_kmers"
  by (simp add: calculate_transitions_def)

lemma calculate_transitions_nth:
  "ki < unat num_kmers \<Longrightarrow>
   calculate_transitions num_kmers sequence data ! ki =
     log_transform
       (block_probabilities (parameters data) (block_p_skip sequence data (word_of_nat ki)))"
  by (simp add: calculate_transitions_def uint32_range_nth)

lemma round32_prob:
  assumes "0 \<le> x" "x \<le> 1"
  shows "\<exists>y. round32 x = Fin y \<and> \<bar>y - x\<bar> \<le> 1 / 2 ^ 25 \<and> 0 \<le> y \<and> y \<le> 1"
proof -
  have "\<bar>x\<bar> \<le> 1" using assms by linarith
  from round32_unit [OF this] obtain y where y: "round32 x = Fin y" "\<bar>y - x\<bar> \<le> 1 / 2 ^ 25"
    "\<bar>y\<bar> \<le> 1" "0 \<le> x \<longrightarrow> 0 \<le> y"
    by blast
  have "0 \<le> y" using y(4) assms(1) by blast
  moreover have "y \<le> 1" using y(3) by linarith
  ultimately show ?thesis using y(1,2) by blast
qed

lemma block_probabilities_unit:
  assumes t: "trans_m_to_e_not_k params = Fin t" "0 \<le> t" "t \<le> 1"
    and u: "trans_e_to_e params = Fin u" "0 \<le> u" "u \<le> 1"
    and s: "0 \<le> s" "s \<le> 1"
  shows "\<exists>a m b p c.
     block_probabilities params (Fin s) =
       \<lparr>p_mm = Fin p, p_me = Fin m, p_mk = Fin s, p_ee = Fin u, p_em = Fin c, p_kk = Fin s,
        p_km = Fin a\<rparr> \<and>
     round32 (1 - s) = Fin a \<and> round32 (a * t) = Fin m \<and>
     \<bar>a - (1 - s)\<bar> \<le> 1 / 2 ^ 25 \<and> 0 \<le> a \<and> a \<le> 1 \<and>
     \<bar>m - a * t\<bar> \<le> 1 / 2 ^ 25 \<and> 0 \<le> m \<and> m \<le> 1 \<and>
     \<bar>b - (1 - m)\<bar> \<le> 1 / 2 ^ 25 \<and> 0 \<le> b \<and> b \<le> 1 \<and>
     \<bar>p - (b - s)\<bar> \<le> 1 / 2 ^ 25 \<and> (s \<le> b \<longrightarrow> 0 \<le> p) \<and>
     \<bar>c - (1 - u)\<bar> \<le> 1 / 2 ^ 25 \<and> 0 \<le> c \<and> c \<le> 1"
proof -
  have "0 \<le> 1 - s" "1 - s \<le> 1" using s by linarith+
  from round32_prob [OF this] obtain a where a: "round32 (1 - s) = Fin a"
    "\<bar>a - (1 - s)\<bar> \<le> 1 / 2 ^ 25" "0 \<le> a" "a \<le> 1"
    by blast
  have "0 \<le> a * t" using a(3) t(2) by (rule mult_nonneg_nonneg)
  moreover have "a * t \<le> 1 * 1" using a(3,4) t(2,3) by (intro mult_mono) simp_all
  then have "a * t \<le> 1" by simp
  ultimately obtain m where m: "round32 (a * t) = Fin m"
    "\<bar>m - a * t\<bar> \<le> 1 / 2 ^ 25" "0 \<le> m" "m \<le> 1"
    using round32_prob by blast
  have "0 \<le> 1 - m" "1 - m \<le> 1" using m(3,4) by linarith+
  from round32_prob [OF this] obtain b where b: "round32 (1 - m) = Fin b"
    "\<bar>b - (1 - m)\<bar> \<le> 1 / 2 ^ 25" "0 \<le> b" "b \<le> 1"
    by blast
  have "\<bar>b - s\<bar> \<le> 1" using b(3,4) s by linarith
  from round32_unit [OF this] obtain p where p: "round32 (b - s) = Fin p"
    "\<bar>p - (b - s)\<bar> \<le> 1 / 2 ^ 25" "0 \<le> b - s \<longrightarrow> 0 \<le> p"
    by blast
  have p3: "s \<le> b \<longrightarrow> 0 \<le> p" using p(3) by simp
  have "0 \<le> 1 - u" "1 - u \<le> 1" using u(2,3) by linarith+
  from round32_prob [OF this] obtain c where c: "round32 (1 - u) = Fin c"
    "\<bar>c - (1 - u)\<bar> \<le> 1 / 2 ^ 25" "0 \<le> c" "c \<le> 1"
    by blast
  have bp: "block_probabilities params (Fin s) =
       \<lparr>p_mm = Fin p, p_me = Fin m, p_mk = Fin s, p_ee = Fin u, p_em = Fin c, p_kk = Fin s,
        p_km = Fin a\<rparr>"
    by (simp add: block_probabilities_def Let_def fsub_def t(1) u(1) a(1) m(1) b(1) p(1) c(1))
  show ?thesis
    apply (rule exI [of _ a], rule exI [of _ m], rule exI [of _ b], rule exI [of _ p],
        rule exI [of _ c])
    apply (intro conjI)
    apply (fact bp a m b p(1,2) p3 c)+
    done
qed

lemma round32_steps:
  "round32 (128849019 / 134217728) = Fin (16106127 / 16777216)"
  "round32 (216172780503171 / 1125899906842624) = Fin (6442451 / 33554432)"
  "round32 (27111981 / 33554432) = Fin (6777995 / 8388608)"
  "round32 (103079211 / 134217728) = Fin (12884901 / 16777216)"
  "round32 (32212253 / 33554432) = Fin (8053063 / 8388608)"
  "round32 (134217717 / 134217728) = Fin (16777215 / 16777216)"
  "round32 (- 33554431) = Fin (- 33554432)"
  "round32 (7 / 10) = Fin (11744051 / 16777216)"
  "round32 (1 / 10) = Fin (13421773 / 134217728)"
  "round32 (120795955 / 134217728) = Fin (7549747 / 8388608)"
  "round32 (53687091 / 67108864) = Fin (13421773 / 16777216)"
  "round32 (13421773 / 16777216) = Fin (13421773 / 16777216)"
  "round32 (3355443 / 16777216) = Fin (3355443 / 16777216)"
  "round32 (- (1 / 67108864)) = Fin (- (1 / 67108864))"
  "round32 (7549747 / 8388608) = Fin (7549747 / 8388608)"
proof -
  show "round32 (128849019 / 134217728) = Fin (16106127 / 16777216)"
    by (rule round32_eval [where k = "- 1"]) (simp_all add: rne_def)
  show "round32 (216172780503171 / 1125899906842624) = Fin (6442451 / 33554432)"
    by (rule round32_eval [where k = "- 3"]) (simp_all add: rne_def)
  show "round32 (27111981 / 33554432) = Fin (6777995 / 8388608)"
    by (rule round32_eval [where k = "- 1"]) (simp_all add: rne_def)
  show "round32 (103079211 / 134217728) = Fin (12884901 / 16777216)"
    by (rule round32_eval [where k = "- 1"]) (simp_all add: rne_def)
  show "round32 (32212253 / 33554432) = Fin (8053063 / 8388608)"
    by (rule round32_eval [where k = "- 1"]) (simp_all add: rne_def)
  show "round32 (134217717 / 134217728) = Fin (16777215 / 16777216)"
    by (rule round32_eval [where k = "- 1"]) (simp_all add: rne_def)
  show "round32 (- 33554431) = Fin (- 33554432)"
    by (rule round32_eval [where k = 24]) (simp_all add: rne_def)
  show "round32 (7 / 10) = Fin (11744051 / 16777216)"
    by (rule round32_eval [where k = "- 1"]) (simp_all add: rne_def)
  show "round32 (1 / 10) = Fin (13421773 / 134217728)"
    by (rule round32_eval [where k = "- 4"]) (simp_all add: rne_def)
  show "round32 (120795955 / 134217728) = Fin (7549747 / 8388608)"
    by (rule round32_eval [where k = "- 1"]) (simp_all add: rne_def)
  show "round32 (53687091 / 67108864) = Fin (13421773 / 16777216)"
    by (rule round32_eval [where k = "- 1"]) (simp_all add: rne_def)
  show "round32 (13421773 / 16777216) = Fin (13421773 / 16777216)"
    by (rule round32_eval [where k = "- 1"]) (simp_all add: rne_def)
  show "round32 (3355443 / 16777216) = Fin (3355443 / 16777216)"
    by (rule round32_eval [where k = "- 3"]) (simp_all add: rne_def)
  show "round32 (- (1 / 67108864)) = Fin (- (1 / 67108864))"
    by (rule round32_eval [where k = "- 26"]) (simp_all add: rne_def)
  show "round32 (7549747 / 8388608) = Fin (7549747 / 8388608)"
    by (rule round32_eval [where k = "- 1"]) (simp_all add: rne_def)
qed

lemma float_block:
  "block_probabilities float_parameters (Fin (5368709 / 134217728)) =
     \<lparr>p_mm = Fin (12884901 / 16777216), p_me = Fin (6442451 / 33554432),
      p_mk = Fin (5368709 / 134217728), p_ee = Fin (3 / 10),
      p_em = Fin (11744051 / 16777216), p_kk = Fin (5368709 / 134217728),
      p_km = Fin (16106127 / 16777216)\<rparr>"
  by (simp add: block_probabilities_def Let_def fsub_def float_parameters_def
      example_parameters_def round32_steps)

text \<open>
  C2, as stated, fails in the arithmetic of the code. With the \<open>float\<close> nearest to 0.04 as
  skip probability and the \<open>float\<close> nearest to 0.2 as \<open>trans_m_to_e_not_k\<close>, the three
  match-state probabilities of block 1 add up to \<open>1 - 7 / 2^27\<close>, and their sum taken in
  \<open>float\<close> is \<open>1 - 2^-24\<close>. With a stay probability of \<open>2^25\<close> the code has
  \<open>p_em = -2^25\<close>, so that \<open>p_ee + p_em = 0\<close>.
\<close>

theorem transition_sums_not_one:
  "calculate_transitions 2 [] float_data ! 1 =
     log_transform (block_probabilities float_parameters (Fin (5368709 / 134217728))) \<and>
   p_mm (block_probabilities float_parameters (Fin (5368709 / 134217728)))
     = Fin (12884901 / 16777216) \<and>
   p_me (block_probabilities float_parameters (Fin (5368709 / 134217728)))
     = Fin (6442451 / 33554432) \<and>
   p_mk (block_probabilities float_parameters (Fin (5368709 / 134217728)))
     = Fin (5368709 / 134217728) \<and>
   (12884901 / 16777216 + 6442451 / 33554432 + 5368709 / 134217728 :: real)
     = 1 - 7 / 134217728 \<and>
   rounded (fadd (rounded (fadd (Fin (12884901 / 16777216)) (Fin (6442451 / 33554432))))
                 (Fin (5368709 / 134217728))) = Fin (16777215 / 16777216) \<and>
   p_ee (block_probabilities wide_parameters (Fin 0)) = Fin 33554432 \<and>
   p_em (block_probabilities wide_parameters (Fin 0)) = Fin (- 33554432)"
proof -
  have "calculate_transitions 2 [] float_data ! 1 =
     log_transform (block_probabilities float_parameters (Fin (5368709 / 134217728)))"
    using calculate_transitions_nth [of 1 2 "[]" float_data]
    by (simp add: block_p_skip_def calculate_skip_probability_def float_data_def)
  moreover have "rounded (fadd (rounded (fadd (Fin (12884901 / 16777216))
        (Fin (6442451 / 33554432)))) (Fin (5368709 / 134217728))) = Fin (16777215 / 16777216)"
    by (simp add: round32_steps)
  moreover have "p_em (block_probabilities wide_parameters (Fin 0)) = Fin (- 33554432)"
    by (simp add: block_probabilities_def Let_def fsub_def wide_parameters_def
        example_parameters_def round32_steps)
  moreover have "p_ee (block_probabilities wide_parameters (Fin 0)) = Fin 33554432"
    by (simp add: block_probabilities_def Let_def wide_parameters_def)
  ultimately show ?thesis
    by (simp add: float_block)
qed

text \<open>
  C2, amended. When the skip probability of block \<open>ki\<close> and the two model-wide constants
  \<open>trans_m_to_e_not_k\<close> and \<open>trans_e_to_e\<close> lie between 0 and 1, the entry of the table is
  the log transform of seven finite probabilities whose sums per source state are 1 up to
  the rounding of single precision: \<open>p_mm + p_me + p_mk\<close> differs from 1 by at most
  \<open>2^-24\<close>, and \<open>p_ee + p_em\<close> and \<open>p_kk + p_km\<close> by at most \<open>2^-25\<close>. Here
  \<open>p_mk = p_kk = p_skip\<close>, and \<open>p_me\<close> is the rounded product of the rounded difference
  \<open>1 - p_skip\<close> with \<open>trans_m_to_e_not_k\<close>.
\<close>

theorem calculate_transitions_sums_near_one:
  assumes "ki < unat num_kmers"
    and "is_prob (block_p_skip sequence data (word_of_nat ki))"
    and "is_prob (trans_m_to_e_not_k (parameters data))"
    and "is_prob (trans_e_to_e (parameters data))"
  shows "\<exists>mm me mk ee em kk km.
     calculate_transitions num_kmers sequence data ! ki =
       log_transform
         (block_probabilities (parameters data) (block_p_skip sequence data (word_of_nat ki))) \<and>
     block_probabilities (parameters data) (block_p_skip sequence data (word_of_nat ki)) =
       \<lparr>p_mm = Fin mm, p_me = Fin me, p_mk = Fin mk, p_ee = Fin ee, p_em = Fin em,
        p_kk = Fin kk, p_km = Fin km\<rparr> \<and>
     \<bar>mm + me + mk - 1\<bar> \<le> 1 / 2 ^ 24 \<and>
     \<bar>ee + em - 1\<bar> \<le> 1 / 2 ^ 25 \<and>
     \<bar>kk + km - 1\<bar> \<le> 1 / 2 ^ 25 \<and>
     Fin mk = block_p_skip sequence data (word_of_nat ki) \<and>
     Fin kk = block_p_skip sequence data (word_of_nat ki) \<and>
     Fin me = rounded (fmul (rounded (fsub (Fin 1) (block_p_skip sequence data (word_of_nat ki))))
                            (trans_m_to_e_not_k (parameters data)))"
proof -
  obtain s where s: "block_p_skip sequence data (word_of_nat ki) = Fin s" "0 \<le> s" "s \<le> 1"
    using assms(2) is_probE by blast
  obtain t where t: "trans_m_to_e_not_k (parameters data) = Fin t" "0 \<le> t" "t \<le> 1"
    using assms(3) is_probE by blast
  obtain u where u: "trans_e_to_e (parameters data) = Fin u" "0 \<le> u" "u \<le> 1"
    using assms(4) is_probE by blast
  from block_probabilities_unit [OF t u s(2,3)]
  obtain a m b p c where bp: "block_probabilities (parameters data) (Fin s) =
       \<lparr>p_mm = Fin p, p_me = Fin m, p_mk = Fin s, p_ee = Fin u, p_em = Fin c, p_kk = Fin s,
        p_km = Fin a\<rparr>"
    and r: "round32 (1 - s) = Fin a" "round32 (a * t) = Fin m"
    and e: "\<bar>a - (1 - s)\<bar> \<le> 1 / 2 ^ 25" "\<bar>b - (1 - m)\<bar> \<le> 1 / 2 ^ 25"
      "\<bar>p - (b - s)\<bar> \<le> 1 / 2 ^ 25" "\<bar>c - (1 - u)\<bar> \<le> 1 / 2 ^ 25"
    by blast
  have "\<bar>p + m + s - 1\<bar> \<le> 1 / 2 ^ 24" "\<bar>u + c - 1\<bar> \<le> 1 / 2 ^ 25" "\<bar>s + a - 1\<bar> \<le> 1 / 2 ^ 25"
    using e unfolding ulp_numerals by linarith+
  moreover have "Fin m = rounded (fmul (rounded (fsub (Fin 1) (Fin s))) (Fin t))"
    by (simp add: fsub_def r)
  ultimately show ?thesis
    using calculate_transitions_nth [OF assms(1), of sequence data] bp
    unfolding s(1) t(1) by blast
qed

theorem calculate_transitions_sums_near_one_witness:
  "\<exists>mm me mk.
     calculate_transitions 2 [] float_data ! 1 =
       log_transform (block_probabilities float_parameters (Fin (5368709 / 134217728))) \<and>
     p_mm (block_probabilities float_parameters (Fin (5368709 / 134217728))) = Fin mm \<and>
     p_me (block_probabilities float_parameters (Fin (5368709 / 134217728))) = Fin me \<and>
     p_mk (block_probabilities float_parameters (Fin (5368709 / 134217728))) = Fin mk \<and>
     \<bar>mm + me + mk - 1\<bar> \<le> 1 / 2 ^ 24 \<and> mk = 5368709 / 134217728"
proof -
  have skip: "block_p_skip [] float_data (word_of_nat 1) = Fin (5368709 / 134217728)"
    by (simp add: block_p_skip_def calculate_skip_probability_def float_data_def)
  have par: "parameters float_data = float_parameters"
    by (simp add: float_data_def)
  have h1: "1 < unat (2 :: 32 word)"
    by simp
  have h2: "is_prob (block_p_skip [] float_data (word_of_nat 1))"
    unfolding skip by (simp add: is_prob_def)
  have h3: "is_prob (trans_m_to_e_not_k (parameters float_data))"
    by (simp add: par float_parameters_def is_prob_def)
  have h4: "is_prob (trans_e_to_e (parameters float_data))"
    by (simp add: par float_parameters_def example_parameters_def is_prob_def)
  from calculate_transitions_sums_near_one [OF h1 h2 h3 h4]
  obtain mm me mk ee em kk km where
    tr: "calculate_transitions 2 [] float_data ! 1 =
           log_transform (block_probabilities float_parameters (Fin (5368709 / 134217728)))"
    and bp: "block_probabilities float_parameters (Fin (5368709 / 134217728)) =
       \<lparr>p_mm = Fin mm, p_me = Fin me, p_mk = Fin mk, p_ee = Fin ee, p_em = Fin em,
        p_kk = Fin kk, p_km = Fin km\<rparr>"
    and sum: "\<bar>mm + me + mk - 1\<bar> \<le> 1 / 2 ^ 24"
    and mk: "Fin mk = Fin (5368709 / 134217728)"
    unfolding skip par by blast
  have "mk = 5368709 / 134217728"
    using mk by simp
  then show ?thesis
    using tr sum unfolding bp
    by - (rule exI [of _ mm], rule exI [of _ me], rule exI [of _ mk], simp)
qed

text \<open>
  C9. Whenever the table has a first entry, that entry is the log transform of the
  probabilities computed from skip probability 0, whatever the sequence and the input data: its
  \<open>lp_mk\<close> and \<open>lp_kk\<close> are \<open>-INFINITY\<close> and its \<open>lp_km\<close> is 0. For a sequence of one kmer
  the table is that single entry.
\<close>

theorem calculate_transitions_first_block:
  "(0 < unat num_kmers \<longrightarrow>
      calculate_transitions num_kmers sequence data ! 0 =
        log_transform (block_probabilities (parameters data) (Fin 0)) \<and>
      lp_mk (calculate_transitions num_kmers sequence data ! 0) = NegInf \<and>
      lp_kk (calculate_transitions num_kmers sequence data ! 0) = NegInf \<and>
      lp_km (calculate_transitions num_kmers sequence data ! 0) = Fin 0) \<and>
   calculate_transitions 1 sequence data =
     [log_transform (block_probabilities (parameters data) (Fin 0))]"
proof -
  have one: "calculate_transitions 1 sequence data =
     [log_transform (block_probabilities (parameters data) (Fin 0))]"
    by (simp add: calculate_transitions_def uint32_range_def block_p_skip_def)
  have "0 < unat num_kmers \<Longrightarrow> calculate_transitions num_kmers sequence data ! 0 =
        log_transform (block_probabilities (parameters data) (Fin 0))"
    using calculate_transitions_nth [of 0 num_kmers sequence data]
    by (simp add: block_p_skip_def)
  then show ?thesis
    using one by (auto simp: log_transform_def block_probabilities_def fsub_def Let_def)
qed

theorem calculate_transitions_first_block_witness:
  "lp_mk (calculate_transitions 3 ''ACGTACG'' example_data ! 0) = NegInf \<and>
   lp_kk (calculate_transitions 3 ''ACGTACG'' example_data ! 0) = NegInf \<and>
   lp_km (calculate_transitions 3 ''ACGTACG'' example_data ! 0) = Fin 0 \<and>
   lp_me (calculate_transitions 3 ''ACGTACG'' example_data ! 0)
     = Fin (ln (13421773 / 134217728))"
proof -
  have "0 < unat (3 :: 32 word)"
    by simp
  then show ?thesis
    using calculate_transitions_first_block [of 3 "''ACGTACG''" example_data]
    by (simp add: log_transform_def block_probabilities_def fsub_def Let_def example_data_def
        example_parameters_def round32_steps)
qed

section \<open>The flank vectors\<close>

lemma vset_Inr: "vset v i x = Inr v' \<longleftrightarrow> i < length v \<and> v' = v[i := x]"
  by (auto simp: vset_def)

lemma vget_Inr: "vget v i = Inr x \<longleftrightarrow> i < length v \<and> x = v ! i"
  by (auto simp: vget_def)

lemma vset_ok: "i < length v \<Longrightarrow> vset v i x = Inr (v[i := x])"
  by (simp add: vset_def)

lemma vget_ok: "i < length v \<Longrightarrow> vget v i = Inr (v ! i)"
  by (simp add: vget_def)

lemma bindE_simps [simp]: "bindE (Inr x) f = f x" "bindE (Inl e) f = Inl e"
  by (simp_all add: bindE_def)

lemma pre_flank_step_Inr:
  "pre_flank_step data params e_start i pf = Inr pf' \<longleftrightarrow>
     i - 1 < length pf \<and> i < length pf \<and>
     pf' = pf[i := fadd (flank_term data params e_start (i - 1)) (pf ! (i - 1))]"
  by (auto simp: pre_flank_step_def Let_def bindE_Inr vget_Inr vset_Inr flank_term_def)

lemma post_flank_step_Inr:
  "post_flank_step data params e_start i pf = Inr pf' \<longleftrightarrow>
     i + 1 < length pf \<and>
     pf' = pf[i := fadd (flank_term data params e_start (i + 1)) (pf ! (i + 1))]"
  by (auto simp: post_flank_step_def Let_def bindE_Inr vget_Inr vset_Inr flank_term_def)

lemma pre_flank_loop:
  "1 \<le> a \<Longrightarrow> b \<le> length pf \<Longrightarrow>
   \<exists>pf'. foldE (pre_flank_step data params e_start) [a ..< b] pf = Inr pf' \<and>
     length pf' = length pf \<and>
     (\<forall>j<a. pf' ! j = pf ! j) \<and>
     (\<forall>i. a \<le> i \<and> i < b \<longrightarrow>
        pf' ! i = fadd (flank_term data params e_start (i - 1)) (pf' ! (i - 1)))"
proof (induction "b - a" arbitrary: a pf)
  case 0
  then show ?case by auto
next
  case (Suc n)
  let ?pf1 = "pf[a := fadd (flank_term data params e_start (a - 1)) (pf ! (a - 1))]"
  from Suc have ab: "a < b" by simp
  have step: "pre_flank_step data params e_start a pf = Inr ?pf1"
    using Suc.prems ab by (simp add: pre_flank_step_Inr)
  have "n = b - Suc a" using Suc by simp
  from Suc.hyps(1) [OF this, of ?pf1] Suc.prems
  obtain pf' where pf': "foldE (pre_flank_step data params e_start) [Suc a ..< b] ?pf1 = Inr pf'"
     "length pf' = length pf" "\<forall>j<Suc a. pf' ! j = ?pf1 ! j"
     "\<forall>i. Suc a \<le> i \<and> i < b \<longrightarrow>
        pf' ! i = fadd (flank_term data params e_start (i - 1)) (pf' ! (i - 1))"
    by auto
  have "foldE (pre_flank_step data params e_start) [a ..< b] pf = Inr pf'"
    using ab step pf'(1) by (simp add: upt_rec [of a b])
  moreover have "\<forall>j<a. pf' ! j = pf ! j"
    using pf'(3) by simp
  moreover have "pf' ! a = fadd (flank_term data params e_start (a - 1)) (pf' ! (a - 1))"
    using pf'(3) Suc.prems ab by simp
  then have "\<forall>i. a \<le> i \<and> i < b \<longrightarrow>
        pf' ! i = fadd (flank_term data params e_start (i - 1)) (pf' ! (i - 1))"
    using pf'(4) by (metis Suc_leI le_neq_implies_less)
  ultimately show ?case using pf'(2) by blast
qed

lemma post_flank_loop:
  "k < length pf \<Longrightarrow>
   \<exists>pf'. foldE (post_flank_step data params e_start) (rev [0 ..< k]) pf = Inr pf' \<and>
     length pf' = length pf \<and>
     (\<forall>j\<ge>k. pf' ! j = pf ! j) \<and>
     (\<forall>i<k. pf' ! i = fadd (flank_term data params e_start (i + 1)) (pf' ! (i + 1)))"
proof (induction k arbitrary: pf)
  case 0
  then show ?case by simp
next
  case (Suc k)
  let ?pf1 = "pf[k := fadd (flank_term data params e_start (k + 1)) (pf ! (k + 1))]"
  have step: "post_flank_step data params e_start k pf = Inr ?pf1"
    using Suc.prems by (simp add: post_flank_step_Inr)
  from Suc.IH [of ?pf1] Suc.prems
  obtain pf' where pf': "foldE (post_flank_step data params e_start) (rev [0 ..< k]) ?pf1 = Inr pf'"
     "length pf' = length pf" "\<forall>j\<ge>k. pf' ! j = ?pf1 ! j"
     "\<forall>i<k. pf' ! i = fadd (flank_term data params e_start (i + 1)) (pf' ! (i + 1))"
    by auto
  have "foldE (post_flank_step data params e_start) (rev [0 ..< Suc k]) pf = Inr pf'"
    using step pf'(1) by simp
  moreover have "\<forall>j\<ge>Suc k. pf' ! j = pf ! j"
    using pf'(3) by simp
  moreover have "pf' ! k = fadd (flank_term data params e_start (k + 1)) (pf' ! (k + 1))"
    using pf'(3) Suc.prems by simp
  then have "\<forall>i<Suc k. pf' ! i = fadd (flank_term data params e_start (i + 1)) (pf' ! (i + 1))"
    using pf'(4) by (metis less_Suc_eq)
  ultimately show ?case using pf'(2) by blast
qed

lemma sint_le_unat: "sint (w :: 32 word) \<le> int (unat w)"
proof -
  have "- (2 ^ 31) \<le> uint w"
    by (rule order_trans [of _ 0]) simp_all
  then have le: "signed_take_bit 31 (uint w) \<le> uint w"
    by (simp only: signed_take_bit_int_less_eq_self_iff)
  have "sint w = signed_take_bit 31 (uint w)"
    by (simp add: sint_uint)
  with le have "sint w \<le> uint w"
    by (simp only:)
  then show ?thesis
    by (simp only: uint_nat)
qed

lemma sint_eq_unat:
  assumes "unat (w :: 32 word) < 2 ^ 31"
  shows "sint w = int (unat w)"
proof -
  have "int (unat w) < int (2 ^ 31)"
    using assms by (simp only: of_nat_less_iff)
  then have a: "uint w < 2 ^ 31"
    by (simp only: uint_nat of_nat_power of_nat_numeral)
  have b: "- (2 ^ 31) \<le> uint w"
    by (rule order_trans [of _ 0]) simp_all
  from a b have eq: "signed_take_bit 31 (uint w) = uint w"
    by (simp only: signed_take_bit_int_eq_self_iff)
  have "sint w = signed_take_bit 31 (uint w)"
    by (simp add: sint_uint)
  with eq have "sint w = uint w"
    by (simp only:)
  then show ?thesis
    by (simp only: uint_nat)
qed

lemma unat_sub_nat:
  "k \<le> unat (n :: 32 word) \<Longrightarrow> unat (n - word_of_nat k) = unat n - k"
proof -
  assume k: "k \<le> unat n"
  have "unat n < 2 ^ 32" using unsigned_less [of n] by simp
  with k have "k < 2 ^ 32" by simp
  then have uk: "unat (word_of_nat k :: 32 word) = k" by (simp add: unat_of_nat)
  have "word_of_nat k \<le> n" using k uk by (simp add: word_le_nat_alt)
  from unat_sub [OF this] uk show ?thesis by simp
qed

lemma unat_eq_numeral_word: "unat (n :: 32 word) = k \<Longrightarrow> n = word_of_nat k"
  by auto

lemma post_loop_count_bound:
  assumes "2 \<le> unat (n :: 32 word)"
  shows "nat (sint (n - 3) + 1) \<le> unat n - 2"
proof (cases "3 \<le> unat n")
  case True
  have "unat (n - 3) = unat n - 3"
    using unat_sub_nat [of 3 n] True by simp
  with sint_le_unat [of "n - 3"] True show ?thesis by linarith
next
  case False
  with assms have "unat n = 2" by simp
  then have "n = 2" using unat_eq_numeral_word [of n 2] by simp
  then show ?thesis by simp
qed

lemma post_loop_count_exact:
  assumes "2 \<le> unat (n :: 32 word)" "unat n < 2 ^ 31 + 3"
  shows "nat (sint (n - 3) + 1) = unat n - 2"
proof (cases "3 \<le> unat n")
  case True
  have u: "unat (n - 3) = unat n - 3"
    using unat_sub_nat [of 3 n] True by simp
  then have "unat (n - 3) < 2 ^ 31" using assms True by linarith
  from sint_eq_unat [OF this] u True show ?thesis by linarith
next
  case False
  with assms have "unat n = 2" by simp
  then have "n = 2" using unat_eq_numeral_word [of n 2] by simp
  then show ?thesis by simp
qed

lemma unat_lt_2_cases: "unat (n :: 32 word) < 2 \<Longrightarrow> n = 0 \<or> n = 1"
proof -
  assume "unat n < 2"
  then have "unat n = 0 \<or> unat n = 1" by auto
  then show ?thesis using unat_eq_numeral_word [of n 0] unat_eq_numeral_word [of n 1] by auto
qed

lemma make_pre_flanking_total:
  assumes "2 \<le> unat (num_events + 1)"
  shows "\<exists>pf. make_pre_flanking data params e_start num_events = Inr pf \<and>
     length pf = unat (num_events + 1) \<and>
     pf ! 0 = flog (trans_start_to_pre params) \<and>
     pf ! 1 = flank_base data params e_start \<and>
     (\<forall>i. 2 \<le> i \<and> i < length pf \<longrightarrow>
        pf ! i = fadd (flank_term data params e_start (i - 1)) (pf ! (i - 1)))"
proof -
  let ?L = "unat (num_events + 1)"
  let ?pf0 = "replicate ?L (Fin 0)"
  let ?pf1 = "?pf0[0 := flog (trans_start_to_pre params)]"
  let ?pf2 = "?pf1[1 := flank_base data params e_start]"
  have len: "length ?pf2 = ?L" by simp
  from pre_flank_loop [of 2 ?L ?pf2 data params e_start]
  obtain pf' where pf': "foldE (pre_flank_step data params e_start) [2 ..< ?L] ?pf2 = Inr pf'"
    "length pf' = ?L" "\<forall>j<2. pf' ! j = ?pf2 ! j"
    "\<forall>i. 2 \<le> i \<and> i < ?L \<longrightarrow>
        pf' ! i = fadd (flank_term data params e_start (i - 1)) (pf' ! (i - 1))"
    by auto
  have "make_pre_flanking data params e_start num_events = Inr pf'"
    using assms pf'(1)
    by (simp add: make_pre_flanking_def Let_def vset_ok flank_base_def)
  moreover have "pf' ! 0 = flog (trans_start_to_pre params)"
    using pf'(3) assms by simp
  moreover have "pf' ! 1 = flank_base data params e_start"
    using pf'(3) assms by simp
  ultimately show ?thesis using pf'(2,4) by auto
qed

lemma make_pre_flanking_Inl:
  "\<not> 2 \<le> unat (num_events + 1) \<Longrightarrow>
   make_pre_flanking data params e_start num_events = Inl OutOfBounds"
  by (auto simp: make_pre_flanking_def Let_def vset_def bindE_def)

lemma make_post_flanking_total:
  assumes "2 \<le> unat num_events"
    and "event_index data e_start (num_events - 1) = event_stop_idx data"
  shows "\<exists>pf. make_post_flanking data params e_start num_events = Inr pf \<and>
     length pf = unat num_events \<and>
     pf ! (unat num_events - 1) = flog (trans_start_to_pre params) \<and>
     pf ! (unat num_events - 2) = flank_base data params (event_stop_idx data) \<and>
     (\<forall>i < nat (sint (num_events - 3) + 1).
        pf ! i = fadd (flank_term data params e_start (i + 1)) (pf ! (i + 1)))"
proof -
  let ?L = "unat num_events"
  let ?k = "nat (sint (num_events - 3) + 1)"
  let ?pf0 = "replicate ?L (Fin 0)"
  let ?pf1 = "?pf0[?L - 1 := flog (trans_start_to_pre params)]"
  let ?pf2 = "?pf1[?L - 2 := flank_base data params (event_stop_idx data)]"
  have u1: "unat (num_events - 1) = ?L - 1"
    using unat_sub_nat [of 1 num_events] assms(1) by simp
  have u2: "unat (num_events - 2) = ?L - 2"
    using unat_sub_nat [of 2 num_events] assms(1) by simp
  have k: "?k \<le> ?L - 2" by (rule post_loop_count_bound [OF assms(1)])
  then have "?k < length ?pf2" using assms(1) by simp
  from post_flank_loop [OF this, of data params e_start]
  obtain pf' where pf': "foldE (post_flank_step data params e_start) (rev [0 ..< ?k]) ?pf2 = Inr pf'"
    "length pf' = ?L" "\<forall>j\<ge>?k. pf' ! j = ?pf2 ! j"
    "\<forall>i<?k. pf' ! i = fadd (flank_term data params e_start (i + 1)) (pf' ! (i + 1))"
    by auto
  have "make_post_flanking data params e_start num_events = Inr pf'"
    using assms pf'(1)
    by (simp add: make_post_flanking_def Let_def vset_ok flank_base_def u1 u2
        post_flank_indices_def)
  moreover have "pf' ! (?L - 1) = flog (trans_start_to_pre params)"
    using pf'(3) k assms(1) by simp
  moreover have "pf' ! (?L - 2) = flank_base data params (event_stop_idx data)"
    using pf'(3) k assms(1) by simp
  ultimately show ?thesis using pf'(2,4) by auto
qed

lemma make_post_flanking_mismatch:
  assumes "2 \<le> unat num_events"
    and "event_index data e_start (num_events - 1) \<noteq> event_stop_idx data"
  shows "make_post_flanking data params e_start num_events = Inl AssertionFailed"
proof -
  have u1: "unat (num_events - 1) = unat num_events - 1"
    using unat_sub_nat [of 1 num_events] assms(1) by simp
  show ?thesis
    using assms by (simp add: make_post_flanking_def Let_def vset_ok u1)
qed

lemma unat_m1: "unat (- 1 :: 32 word) = 4294967295"
  by (simp add: unsigned_minus_1_eq_mask mask_eq_exp_minus_1)

lemma make_post_flanking_short:
  assumes "unat num_events < 2"
  shows "\<exists>err. make_post_flanking data params e_start num_events = Inl err"
  using unat_lt_2_cases [OF assms]
  by (auto simp: make_post_flanking_def Let_def vset_def unat_m1)

text \<open>
  C8. \<open>make_post_flanking\<close> needs at least two events: with fewer it ends in an error,
  because a base case writes outside the vector. With at least two events it compares the
  computed last event index \<open>e_start + (num_events - 1) * event_stride\<close> with the declared
  final index of the window and fails its assertion on a mismatch; on a match it returns a
  vector of \<open>num_events\<close> entries, so every access it made was in bounds, and the entries
  \<open>num_events - 1\<close> and \<open>num_events - 2\<close> hold the two base cases.
\<close>

theorem make_post_flanking_contract:
  "(2 \<le> unat num_events \<and> event_index data e_start (num_events - 1) = event_stop_idx data \<longrightarrow>
      (\<exists>pf. make_post_flanking data params e_start num_events = Inr pf \<and>
            length pf = unat num_events \<and>
            pf ! (unat num_events - 1) = flog (trans_start_to_pre params) \<and>
            pf ! (unat num_events - 2) = flank_base data params (event_stop_idx data))) \<and>
   (2 \<le> unat num_events \<and> event_index data e_start (num_events - 1) \<noteq> event_stop_idx data \<longrightarrow>
      make_post_flanking data params e_start num_events = Inl AssertionFailed) \<and>
   (unat num_events < 2 \<longrightarrow>
      (\<exists>err. make_post_flanking data params e_start num_events = Inl err))"
  using make_post_flanking_total [of num_events data e_start params]
    make_post_flanking_mismatch [of num_events data e_start params]
    make_post_flanking_short [of num_events data params e_start]
  by blast

lemma example_stop: "event_index example_data 0 (3 - 1) = event_stop_idx example_data"
  by (simp add: event_index_def example_data_def)

theorem make_post_flanking_contract_witness:
  "(\<exists>pf. make_post_flanking example_data example_parameters 0 3 = Inr pf \<and> length pf = 3 \<and>
         pf ! 2 = Fin (ln (1 / 2)) \<and> pf ! 1 = Fin (ln (1 / 2) + - 3 + ln (4 / 5))) \<and>
   make_post_flanking example_data example_parameters 1 3 = Inl AssertionFailed \<and>
   (\<exists>err. make_post_flanking example_data example_parameters 0 1 = Inl err)"
proof -
  have a: "2 \<le> unat (3 :: 32 word) \<and>
      event_index example_data 0 (3 - 1) = event_stop_idx example_data"
    by (simp add: event_index_def example_data_def)
  have b: "2 \<le> unat (3 :: 32 word) \<and>
      event_index example_data 1 (3 - 1) \<noteq> event_stop_idx example_data"
    by (simp add: event_index_def example_data_def)
  have c: "unat (1 :: 32 word) < 2"
    by simp
  have base: "flank_base example_data example_parameters (event_stop_idx example_data)
      = Fin (ln (1 / 2) + - 3 + ln (4 / 5))"
    by (simp add: flank_base_def example_data_def example_parameters_def fsub_def)
  have l: "flog (trans_start_to_pre example_parameters) = Fin (ln (1 / 2))"
    by (simp add: example_parameters_def)
  show ?thesis
    using make_post_flanking_contract [of 3 example_data 0 example_parameters] a
      make_post_flanking_contract [of 3 example_data 1 example_parameters] b
      make_post_flanking_contract [of 1 example_data 0 example_parameters] c
    by (auto simp: base l)
qed

lemma fle_zero_logdom: "fle a (Fin 0) \<Longrightarrow> logdom a"
  by (cases a) (auto simp: fle_def feq_def logdom_def)

lemma fadd_logdom: "logdom a \<Longrightarrow> logdom b \<Longrightarrow> logdom (fadd a b)"
  by (cases a; cases b) (auto simp: logdom_def)

lemma fadd_nonpos: "fle a (Fin 0) \<Longrightarrow> fle b (Fin 0) \<Longrightarrow> fle (fadd a b) (Fin 0)"
  by (cases a; cases b) (auto simp: fle_def feq_def)

lemma fadd_le_self: "fle c (Fin 0) \<Longrightarrow> logdom x \<Longrightarrow> fle (fadd c x) x"
  by (cases c; cases x) (auto simp: fle_def feq_def logdom_def)

lemma flog_prob: "is_prob p \<Longrightarrow> fle (flog p) (Fin 0)"
  by (cases p) (auto simp: is_prob_def fle_def feq_def)

lemma flog_one_minus_prob: "is_prob p \<Longrightarrow> fle (flog (fsub (Fin 1) p)) (Fin 0)"
  by (cases p) (auto simp: is_prob_def fle_def feq_def fsub_def)

lemma flank_term_nonpos:
  assumes "is_prob (trans_pre_self params)"
    and "\<forall>idx. fle (log_probability_background data idx) (Fin 0)"
  shows "fle (flank_term data params e_start n) (Fin 0)"
  unfolding flank_term_def using assms by (intro fadd_nonpos flog_prob) auto

lemma flank_base_logdom:
  assumes "is_prob (trans_start_to_pre params)" "is_prob (trans_pre_self params)"
    and "\<forall>idx. fle (log_probability_background data idx) (Fin 0)"
  shows "logdom (flank_base data params idx)"
  unfolding flank_base_def using assms
  by (intro fle_zero_logdom fadd_nonpos flog_one_minus_prob) auto

lemma pre_flank_monotone:
  assumes tsp: "is_prob (trans_start_to_pre params)" and tps: "is_prob (trans_pre_self params)"
    and bg: "\<forall>idx. fle (log_probability_background data idx) (Fin 0)"
    and run: "make_pre_flanking data params e_start num_events = Inr pf"
    and i: "1 \<le> i" "i + 1 < length pf"
  shows "fle (pf ! (i + 1)) (pf ! i)"
proof -
  have L: "2 \<le> unat (num_events + 1)"
    using run make_pre_flanking_Inl [of num_events data params e_start] by auto
  from make_pre_flanking_total [OF L, of data params e_start] run
  have one: "pf ! 1 = flank_base data params e_start"
    and rec: "\<And>j. 2 \<le> j \<Longrightarrow> j < length pf \<Longrightarrow>
        pf ! j = fadd (flank_term data params e_start (j - 1)) (pf ! (j - 1))"
    by auto
  have tnp: "\<And>n. fle (flank_term data params e_start n) (Fin 0)"
    using flank_term_nonpos [OF tps bg] by simp
  have dom: "1 \<le> j \<Longrightarrow> j < length pf \<Longrightarrow> logdom (pf ! j)" for j
  proof (induction j)
    case 0
    then show ?case by simp
  next
    case (Suc j)
    show ?case
    proof (cases "j = 0")
      case True
      then show ?thesis using one flank_base_logdom [OF tsp tps bg] by simp
    next
      case False
      then have "logdom (pf ! j)" using Suc by simp
      moreover have "pf ! Suc j = fadd (flank_term data params e_start j) (pf ! j)"
        using rec [of "Suc j"] False Suc.prems by simp
      ultimately show ?thesis
        using fadd_logdom [OF fle_zero_logdom [OF tnp]] by simp
    qed
  qed
  have "pf ! (i + 1) = fadd (flank_term data params e_start i) (pf ! i)"
    using rec [of "i + 1"] i by simp
  then show ?thesis
    using fadd_le_self [OF tnp dom] i by simp
qed

lemma post_flank_monotone:
  assumes tsp: "is_prob (trans_start_to_pre params)" and tps: "is_prob (trans_pre_self params)"
    and bg: "\<forall>idx. fle (log_probability_background data idx) (Fin 0)"
    and run: "make_post_flanking data params e_start num_events = Inr pf"
    and small: "unat num_events < 2 ^ 31 + 3"
    and i: "i + 2 < length pf"
  shows "fle (pf ! i) (pf ! (i + 1))"
proof -
  have L: "2 \<le> unat num_events"
    using run make_post_flanking_short [of num_events data params e_start] by force
  have stop: "event_index data e_start (num_events - 1) = event_stop_idx data"
    using run make_post_flanking_mismatch [OF L, of data e_start params] by force
  have k: "nat (sint (num_events - 3) + 1) = unat num_events - 2"
    by (rule post_loop_count_exact [OF L small])
  from make_post_flanking_total [OF L stop, of params] run
  have len: "length pf = unat num_events"
    and base: "pf ! (unat num_events - 2) = flank_base data params (event_stop_idx data)"
    and rec: "\<And>j. j < unat num_events - 2 \<Longrightarrow>
        pf ! j = fadd (flank_term data params e_start (j + 1)) (pf ! (j + 1))"
    using k by auto
  have tnp: "\<And>n. fle (flank_term data params e_start n) (Fin 0)"
    using flank_term_nonpos [OF tps bg] by simp
  have dom: "d \<le> unat num_events - 2 \<Longrightarrow> logdom (pf ! (unat num_events - 2 - d))" for d
  proof (induction d)
    case 0
    then show ?case using base flank_base_logdom [OF tsp tps bg] by simp
  next
    case (Suc d)
    let ?j = "unat num_events - 2 - Suc d"
    have j: "?j < unat num_events - 2" "?j + 1 = unat num_events - 2 - d"
      using Suc.prems by simp_all
    have "logdom (pf ! (?j + 1))" using Suc j by simp
    then show ?case
      using rec [OF j(1)] fadd_logdom [OF fle_zero_logdom [OF tnp]] by simp
  qed
  have le: "i + 1 \<le> unat num_events - 2" using i len by simp
  define d where "d = unat num_events - 2 - (i + 1)"
  have "d \<le> unat num_events - 2" and "unat num_events - 2 - d = i + 1"
    using le by (simp_all add: d_def)
  then have "logdom (pf ! (i + 1))"
    using dom [of d] by simp
  moreover have "pf ! i = fadd (flank_term data params e_start (i + 1)) (pf ! (i + 1))"
    using rec [of i] i len by simp
  ultimately show ?thesis
    using fadd_le_self [OF tnp] by simp
qed

text \<open>
  C3, amended. When the two flank parameters are probabilities and no background
  log-probability is NaN or above 0, every pre-flank vector the builder returns is
  non-increasing from index 1 upward, and every post-flank vector it returns for a window of
  fewer than \<open>2^31 + 3\<close> events is non-decreasing up to index \<open>num_events - 2\<close>. Nothing is
  said about the step between the anchor entry and its neighbour.
\<close>

theorem flank_vectors_monotone:
  assumes "is_prob (trans_start_to_pre params)" and "is_prob (trans_pre_self params)"
    and "\<forall>idx. fle (log_probability_background data idx) (Fin 0)"
  shows "(\<forall>pf i. make_pre_flanking data params e_start num_events = Inr pf \<and>
                 1 \<le> i \<and> i + 1 < length pf \<longrightarrow> fle (pf ! (i + 1)) (pf ! i)) \<and>
         (\<forall>pf i. make_post_flanking data params e_start num_events = Inr pf \<and>
                 unat num_events < 2 ^ 31 + 3 \<and> i + 2 < length pf \<longrightarrow>
                 fle (pf ! i) (pf ! (i + 1)))"
  using pre_flank_monotone [OF assms] post_flank_monotone [OF assms] by blast

lemma ln_bound: "ln (1 / 100) < ln (99 / 100) + - 3 + ln (4 / 5 :: real)"
proof -
  have "exp (3 :: real) = exp 1 * exp 1 * exp 1"
    by (simp flip: exp_add)
  also have "\<dots> \<le> 3 * 3 * 3"
    by (intro mult_mono exp_le) simp_all
  finally have "exp (3 :: real) < 396 / 5" by simp
  then have "ln (exp (3 :: real)) < ln (396 / 5)"
    by (subst ln_less_cancel_iff) simp_all
  then have three: "3 < ln (396 / 5 :: real)" by simp
  have "ln (99 / 100 :: real) + ln (4 / 5) = ln (99 / 100 * (4 / 5))"
    by (rule ln_mult_pos [symmetric]) simp_all
  moreover have "ln (99 / 100 * (4 / 5) :: real) - ln (1 / 100) = ln (99 / 100 * (4 / 5) / (1 / 100))"
    by (rule ln_divide_pos [symmetric]) simp_all
  moreover have "(99 / 100 * (4 / 5) / (1 / 100) :: real) = 396 / 5"
    by simp
  ultimately have "ln (396 / 5 :: real) = ln (99 / 100) + ln (4 / 5) - ln (1 / 100)"
    by simp
  with three show ?thesis by simp
qed

text \<open>
  C3, as stated, fails between the anchor and its neighbour: with a start-to-pre probability
  of one percent, a stay probability of one fifth and a background log-probability of -3, the
  entry \<open>pre_flank[1]\<close> is greater than \<open>pre_flank[0]\<close>.
\<close>

theorem pre_flank_not_monotone:
  "(case make_pre_flanking example_data steep_parameters 0 2 of
      Inl err \<Rightarrow> False
    | Inr pf \<Rightarrow> length pf = 3 \<and> pf ! 0 = Fin (ln (1 / 100)) \<and>
                pf ! 1 = Fin (ln (99 / 100) + - 3 + ln (4 / 5)) \<and>
                \<not> fle (pf ! 1) (pf ! 0))"
proof -
  have "2 \<le> unat (2 + 1 :: 32 word)"
    by simp
  from make_pre_flanking_total [OF this, of example_data steep_parameters 0]
  obtain pf where pf: "make_pre_flanking example_data steep_parameters 0 2 = Inr pf"
    "length pf = 3" "pf ! 0 = flog (trans_start_to_pre steep_parameters)"
    "pf ! 1 = flank_base example_data steep_parameters 0"
    by auto
  have "pf ! 0 = Fin (ln (1 / 100))"
    using pf(3) by (simp add: steep_parameters_def)
  moreover have "pf ! 1 = Fin (ln (99 / 100) + - 3 + ln (4 / 5))"
    using pf(4)
    by (simp add: flank_base_def steep_parameters_def example_parameters_def example_data_def
        fsub_def)
  ultimately show ?thesis
    using pf(1,2) ln_bound by (simp add: fle_def feq_def)
qed

theorem flank_vectors_monotone_witness:
  "(\<exists>pf. make_pre_flanking example_data example_parameters 0 3 = Inr pf \<and> length pf = 4 \<and>
         fle (pf ! 2) (pf ! 1) \<and> fle (pf ! 3) (pf ! 2)) \<and>
   (\<exists>pf. make_post_flanking example_data example_parameters 0 3 = Inr pf \<and> length pf = 3 \<and>
         fle (pf ! 0) (pf ! 1))"
proof -
  have h1: "is_prob (trans_start_to_pre example_parameters)"
    and h2: "is_prob (trans_pre_self example_parameters)"
    by (simp_all add: example_parameters_def is_prob_def)
  have h3: "\<forall>idx. fle (log_probability_background example_data idx) (Fin 0)"
    by (simp add: example_data_def fle_def)
  obtain pre where pre: "make_pre_flanking example_data example_parameters 0 3 = Inr pre"
    "length pre = 4"
    using make_pre_flanking_total [of 3 example_data example_parameters 0] by auto
  obtain post where post: "make_post_flanking example_data example_parameters 0 3 = Inr post"
    "length post = 3"
    using make_post_flanking_total [of 3 example_data 0 example_parameters] example_stop by auto
  have small: "unat (3 :: 32 word) < 2 ^ 31 + 3"
    by simp
  note mono = flank_vectors_monotone [OF h1 h2 h3, of 0 3]
  have "fle (pre ! (1 + 1)) (pre ! 1)"
    using mono [THEN conjunct1, rule_format, of pre 1] pre by simp
  moreover have "fle (pre ! (2 + 1)) (pre ! 2)"
    using mono [THEN conjunct1, rule_format, of pre 2] pre by simp
  moreover have "fle (post ! 0) (post ! (0 + 1))"
    using mono [THEN conjunct2, rule_format, of post 0] post small by simp
  ultimately show ?thesis
    using pre post by (simp add: eval_nat_numeral)
qed

section \<open>Two runs of the engine, step by step\<close>

lemma bindE_rel:
  assumes "rel_sum (=) A m m'" and "\<And>x y. A x y \<Longrightarrow> rel_sum (=) B (f x) (g y)"
  shows "rel_sum (=) B (bindE m f) (bindE m' g)"
  using assms by (cases m; cases m') (auto simp: bindE_def)

lemma bindE_vget_rel:
  assumes "\<And>x. i < length v \<Longrightarrow> x = v ! i \<Longrightarrow> rel_sum (=) B (f x) (g x)"
  shows "rel_sum (=) B (bindE (vget v i) f) (bindE (vget v i) g)"
  using assms by (auto simp: bindE_def vget_def)

lemma foldE_rel:
  assumes "R s t"
    and "\<And>x s t. x \<in> set xs \<Longrightarrow> R s t \<Longrightarrow> rel_sum (=) R (f x s) (g x t)"
  shows "rel_sum (=) R (foldE f xs s) (foldE g xs t)"
  using assms
proof (induction xs arbitrary: s t)
  case Nil
  then show ?case by simp
next
  case (Cons x xs)
  show ?case
    unfolding foldE.simps
  proof (rule bindE_rel [where A = R])
    show "rel_sum (=) R (f x s) (g x t)"
      using Cons.prems by simp
  next
    fix s' t'
    assume "R s' t'"
    then show "rel_sum (=) R (foldE f xs s') (foldE g xs t')"
      using Cons.IH [of s' t'] Cons.prems(2) by simp
  qed
qed

lemma update_states_rel:
  assumes sim: "sim_states R G C A B" and R: "R s t"
    and tr: "\<forall>bt\<in>set transitions. all_transitions C bt"
    and em: "\<forall>rank idx. C (log_probability_match data rank idx) \<and>
                        C (log_probability_event_insert data rank idx)"
    and zero: "C (Fin 0)"
  shows "rel_sum (=) R
    (update_states A sequence data e_start transitions kmer_ranks row block s)
    (update_states B sequence data e_start transitions kmer_ranks row block t)"
proof -
  have getr: "\<And>s t row col. R s t \<Longrightarrow> rel_sum (=) G (get A row col s) (get B row col t)"
    using sim by (simp add: sim_states_def)
  have upd: "\<And>s t row col m e k em m' e' k'. R s t \<Longrightarrow> G m m' \<Longrightarrow> G e e' \<Longrightarrow> G k k' \<Longrightarrow> C em \<Longrightarrow>
        rel_sum (=) R (update_4 A row col m e k NegInf em s)
                      (update_4 B row col m' e' k' NegInf em t)"
    using sim unfolding sim_states_def by blast
  have add: "\<And>c a b. C c \<Longrightarrow> G a b \<Longrightarrow> G (fadd c a) (fadd c b)"
    using sim unfolding sim_states_def by blast
  have ninf: "G NegInf NegInf"
    using sim by (simp add: sim_states_def)
  have emm: "\<And>rank idx. C (log_probability_match data rank idx)"
    and eme: "\<And>rank idx. C (log_probability_event_insert data rank idx)"
    using em by simp_all
  show ?thesis
    unfolding update_states_def Let_def
  proof (rule bindE_vget_rel, rule bindE_vget_rel)
    fix bt rank
    assume "unat (block - 1) < length transitions" "bt = transitions ! unat (block - 1)"
    then have "all_transitions C bt" using tr by simp
    then have c: "C (lp_mm bt)" "C (lp_me bt)" "C (lp_mk bt)" "C (lp_ee bt)" "C (lp_em bt)"
      "C (lp_kk bt)" "C (lp_km bt)"
      by (simp_all add: all_transitions_def)
    show "rel_sum (=) R
       (bindE (get A (row - 1) (PS_NUM_STATES * (block - 1) + ps PS_MATCH) s)
         (\<lambda>g_m. bindE (get A (row - 1) (PS_NUM_STATES * (block - 1) + ps PS_EVENT_SPLIT) s)
         (\<lambda>g_e. bindE (get A (row - 1) (PS_NUM_STATES * (block - 1) + ps PS_KMER_SKIP) s)
         (\<lambda>g_k. bindE (update_4 A row (PS_NUM_STATES * block + ps PS_MATCH)
                  (fadd (lp_mm bt) g_m) (fadd (lp_em bt) g_e) (fadd (lp_km bt) g_k) NegInf
                  (log_probability_match data rank (event_index data e_start (row - 1))) s)
         (\<lambda>output. bindE (get A (row - 1) (PS_NUM_STATES * block + ps PS_MATCH) output)
         (\<lambda>g_m. bindE (get A (row - 1) (PS_NUM_STATES * block + ps PS_EVENT_SPLIT) output)
         (\<lambda>g_e. bindE (update_4 A row (PS_NUM_STATES * block + ps PS_EVENT_SPLIT)
                  (fadd (lp_me bt) g_m) (fadd (lp_ee bt) g_e) NegInf NegInf
                  (log_probability_event_insert data rank (event_index data e_start (row - 1)))
                  output)
         (\<lambda>output. bindE (get A row (PS_NUM_STATES * (block - 1) + ps PS_MATCH) output)
         (\<lambda>g_m. bindE (get A row (PS_NUM_STATES * (block - 1) + ps PS_KMER_SKIP) output)
         (\<lambda>g_k. update_4 A row (PS_NUM_STATES * block + ps PS_KMER_SKIP)
                  (fadd (lp_mk bt) g_m) NegInf (fadd (lp_kk bt) g_k) NegInf (Fin 0)
                  output))))))))))
       (bindE (get B (row - 1) (PS_NUM_STATES * (block - 1) + ps PS_MATCH) t)
         (\<lambda>g_m. bindE (get B (row - 1) (PS_NUM_STATES * (block - 1) + ps PS_EVENT_SPLIT) t)
         (\<lambda>g_e. bindE (get B (row - 1) (PS_NUM_STATES * (block - 1) + ps PS_KMER_SKIP) t)
         (\<lambda>g_k. bindE (update_4 B row (PS_NUM_STATES * block + ps PS_MATCH)
                  (fadd (lp_mm bt) g_m) (fadd (lp_em bt) g_e) (fadd (lp_km bt) g_k) NegInf
                  (log_probability_match data rank (event_index data e_start (row - 1))) t)
         (\<lambda>output. bindE (get B (row - 1) (PS_NUM_STATES * block + ps PS_MATCH) output)
         (\<lambda>g_m. bindE (get B (row - 1) (PS_NUM_STATES * block + ps PS_EVENT_SPLIT) output)
         (\<lambda>g_e. bindE (update_4 B row (PS_NUM_STATES * block + ps PS_EVENT_SPLIT)
                  (fadd (lp_me bt) g_m) (fadd (lp_ee bt) g_e) NegInf NegInf
                  (log_probability_event_insert data rank (event_index data e_start (row - 1)))
                  output)
         (\<lambda>output. bindE (get B row (PS_NUM_STATES * (block - 1) + ps PS_MATCH) output)
         (\<lambda>g_m. bindE (get B row (PS_NUM_STATES * (block - 1) + ps PS_KMER_SKIP) output)
         (\<lambda>g_k. update_4 B row (PS_NUM_STATES * block + ps PS_KMER_SKIP)
                  (fadd (lp_mk bt) g_m) NegInf (fadd (lp_kk bt) g_k) NegInf (Fin 0)
                  output))))))))))"
      using R
      apply -
      apply (rule bindE_rel [OF getr], assumption)
      apply (rule bindE_rel [OF getr], assumption)
      apply (rule bindE_rel [OF getr], assumption)
      apply (rule bindE_rel [OF upd])
           apply (assumption | rule add c emm)+
      apply (rule bindE_rel [OF getr], assumption)
      apply (rule bindE_rel [OF getr], assumption)
      apply (rule bindE_rel [OF upd])
           apply (assumption | rule add c eme ninf)+
      apply (rule bindE_rel [OF getr], assumption)
      apply (rule bindE_rel [OF getr], assumption)
      apply (rule upd)
          apply (assumption | rule add c zero ninf)+
      done
  qed
qed

lemma update_end_states_rel:
  assumes sim: "sim_states R G C A B" and se: "sim_end R E A B" and R: "R s t"
    and lp: "\<And>g g' pf. G g g' \<Longrightarrow> pf \<in> set post_flank \<Longrightarrow>
               E (fadd (fadd lp_ms g) pf) (fadd (fadd lp_ms' g') pf)"
  shows "rel_sum (=) R
    (update_end_states A post_flank lp_ms row block s)
    (update_end_states B post_flank lp_ms' row block t)"
proof -
  have getr: "\<And>s t row col. R s t \<Longrightarrow> rel_sum (=) G (get A row col s) (get B row col t)"
    using sim by (simp add: sim_states_def)
  have upe: "\<And>s t v v' row col. R s t \<Longrightarrow> E v v' \<Longrightarrow>
        R (update_end A v row col s) (update_end B v' row col t)"
    using se unfolding sim_end_def by blast
  have pf: "\<And>i. i < length post_flank \<Longrightarrow> post_flank ! i \<in> set post_flank"
    by simp
  show ?thesis
    unfolding update_end_states_def Let_def
    using R
    apply -
    apply (rule bindE_rel [OF getr], assumption)
    apply (rule bindE_vget_rel)
    apply (rule bindE_rel [OF getr], assumption)
    apply (rule bindE_vget_rel)
    apply (rule bindE_rel [OF getr], assumption)
    apply (rule bindE_vget_rel)
    apply (simp only: rel_sum_simps)
    apply (intro upe lp)
          apply (assumption | simp only: pf)+
    done
qed

lemma local_cell_rel:
  assumes sim: "sim_states R G C A B" and se: "sim_end R E A B" and R: "R s t"
    and tr: "\<forall>bt\<in>set transitions. all_transitions C bt"
    and em: "\<forall>rank idx. C (log_probability_match data rank idx) \<and>
                        C (log_probability_event_insert data rank idx)"
    and zero: "C (Fin 0)"
    and lp: "\<And>g g' pf. G g g' \<Longrightarrow> pf \<in> set post_flank \<Longrightarrow>
               E (fadd (fadd lp_ms g) pf) (fadd (fadd lp_ms' g') pf)"
  shows "rel_sum (=) R
    (local_cell A sequence data e_start transitions kmer_ranks post_flank lp_ms last_kmer_idx
       row block s)
    (local_cell B sequence data e_start transitions kmer_ranks post_flank lp_ms' last_kmer_idx
       row block t)"
  unfolding local_cell_def
proof (rule bindE_rel [where A = R])
  show "rel_sum (=) R
     (update_states A sequence data e_start transitions kmer_ranks row block s)
     (update_states B sequence data e_start transitions kmer_ranks row block t)"
    by (rule update_states_rel [OF sim R tr em zero])
next
  fix s' t'
  assume R': "R s' t'"
  show "rel_sum (=) R
          (if block - 1 = last_kmer_idx
           then update_end_states A post_flank lp_ms row block s' else Inr s')
          (if block - 1 = last_kmer_idx
           then update_end_states B post_flank lp_ms' row block t' else Inr t')"
    using update_end_states_rel [OF sim se R', of post_flank lp_ms lp_ms' row block] lp R'
    by simp
qed

lemma local_sweep_rel:
  assumes sim: "sim_states R G C A B" and se: "sim_end R E A B" and sh: "sim_shape R A B"
    and R: "R s t"
    and tr: "\<forall>bt\<in>set transitions. all_transitions C bt"
    and em: "\<forall>rank idx. C (log_probability_match data rank idx) \<and>
                        C (log_probability_event_insert data rank idx)"
    and zero: "C (Fin 0)"
    and lp: "\<And>g g' pf. uint32_range 1 (num_blocks - 1) \<noteq> [] \<Longrightarrow> G g g' \<Longrightarrow>
               pf \<in> set post_flank \<Longrightarrow>
               E (fadd (fadd lp_ms g) pf) (fadd (fadd lp_ms' g') pf)"
  shows "rel_sum (=) R
    (local_sweep A sequence data e_start transitions kmer_ranks post_flank lp_ms last_kmer_idx
       num_blocks s)
    (local_sweep B sequence data e_start transitions kmer_ranks post_flank lp_ms' last_kmer_idx
       num_blocks t)"
proof -
  have rows: "get_num_rows A s = get_num_rows B t"
    using sh R by (simp add: sim_shape_def)
  show ?thesis
    unfolding local_sweep_def rows
  proof (rule foldE_rel [where R = R, OF R])
    fix row s' t'
    assume R': "R s' t'"
    show "rel_sum (=) R
       (foldE (local_cell A sequence data e_start transitions kmer_ranks post_flank lp_ms
                 last_kmer_idx row) (uint32_range 1 (num_blocks - 1)) s')
       (foldE (local_cell B sequence data e_start transitions kmer_ranks post_flank lp_ms'
                 last_kmer_idx row) (uint32_range 1 (num_blocks - 1)) t')"
    proof (rule foldE_rel [where R = R, OF R'])
      fix block s'' t''
      assume block: "block \<in> set (uint32_range 1 (num_blocks - 1))" and R'': "R s'' t''"
      from block have ne: "uint32_range 1 (num_blocks - 1) \<noteq> []"
        by auto
      show "rel_sum (=) R
         (local_cell A sequence data e_start transitions kmer_ranks post_flank lp_ms
            last_kmer_idx row block s'')
         (local_cell B sequence data e_start transitions kmer_ranks post_flank lp_ms'
            last_kmer_idx row block t'')"
        by (rule local_cell_rel [OF sim se R'' tr em zero lp [OF ne]])
    qed
  qed
qed

lemma global_sweep_rel:
  assumes sim: "sim_states R G C A B" and sh: "sim_shape R A B"
    and R: "R s t"
    and tr: "\<forall>bt\<in>set transitions. all_transitions C bt"
    and em: "\<forall>rank idx. C (log_probability_match data rank idx) \<and>
                        C (log_probability_event_insert data rank idx)"
    and zero: "C (Fin 0)"
  shows "rel_sum (=) R
    (global_sweep A sequence data e_start transitions kmer_ranks num_blocks s)
    (global_sweep B sequence data e_start transitions kmer_ranks num_blocks t)"
proof -
  have rows: "get_num_rows A s = get_num_rows B t"
    using sh R by (simp add: sim_shape_def)
  show ?thesis
    unfolding global_sweep_def rows
    by (intro foldE_rel R update_states_rel [OF sim _ tr em zero])
qed

lemma bindE_same_rel:
  assumes "\<And>x. m = Inr x \<Longrightarrow> rel_sum (=) B (f x) (g x)"
  shows "rel_sum (=) B (bindE m f) (bindE m g)"
  using assms by (cases m) (auto simp: bindE_def)

lemma local_fill_rel:
  assumes sim: "sim_states R G C A B" and se: "sim_end R E A B" and sh: "sim_shape R A B"
    and R: "R s t"
    and tr: "\<forall>bt\<in>set (calculate_transitions
                 (get_num_columns B t div PS_NUM_STATES - 2) sequence data). all_transitions C bt"
    and em: "\<forall>rank idx. C (log_probability_match data rank idx) \<and>
                        C (log_probability_event_insert data rank idx)"
    and zero: "C (Fin 0)"
    and lp: "\<And>g g' pf post_flank.
               make_post_flanking data (parameters data) e_start (get_num_rows B t - 1)
                 = Inr post_flank \<Longrightarrow>
               uint32_range 1 (get_num_columns B t div PS_NUM_STATES - 1) \<noteq> [] \<Longrightarrow>
               G g g' \<Longrightarrow> pf \<in> set post_flank \<Longrightarrow>
               E (fadd (fadd (flog (fdiv (Fin 1)
                    (float_of_uint32 (get_num_columns B t div PS_NUM_STATES - 2)))) g) pf)
                 (fadd (fadd (flog (fdiv (Fin 1)
                    (float_of_uint32 (get_num_columns B t div PS_NUM_STATES - 2)))) g') pf)"
    and ge: "\<And>s t. R s t \<Longrightarrow> Ge (get_end A s) (get_end B t)"
  shows "rel_sum (=) (\<lambda>(f, s') (v, t'). Ge f v \<and> R s' t')
    (profile_hmm_fill_generic_local A sequence data e_start s)
    (profile_hmm_fill_generic_local B sequence data e_start t)"
proof -
  have rows: "get_num_rows A s = get_num_rows B t"
    and cols: "get_num_columns A s = get_num_columns B t"
    using sh R by (simp_all add: sim_shape_def)
  show ?thesis
    unfolding profile_hmm_fill_generic_local_def Let_def rows cols
  proof (rule bindE_same_rel, rule bindE_same_rel, rule bindE_rel [where A = R])
    fix pre_flank post_flank
    assume post: "make_post_flanking data (parameters data) e_start (get_num_rows B t - 1)
                    = Inr post_flank"
    show "rel_sum (=) R
       (local_sweep A sequence data e_start
          (calculate_transitions (get_num_columns B t div PS_NUM_STATES - 2) sequence data)
          (map (get_rank data sequence)
             (uint32_range 0 (get_num_columns B t div PS_NUM_STATES - 2)))
          post_flank
          (flog (fdiv (Fin 1) (float_of_uint32 (get_num_columns B t div PS_NUM_STATES - 2))))
          (get_num_columns B t div PS_NUM_STATES - 2 - 1)
          (get_num_columns B t div PS_NUM_STATES) s)
       (local_sweep B sequence data e_start
          (calculate_transitions (get_num_columns B t div PS_NUM_STATES - 2) sequence data)
          (map (get_rank data sequence)
             (uint32_range 0 (get_num_columns B t div PS_NUM_STATES - 2)))
          post_flank
          (flog (fdiv (Fin 1) (float_of_uint32 (get_num_columns B t div PS_NUM_STATES - 2))))
          (get_num_columns B t div PS_NUM_STATES - 2 - 1)
          (get_num_columns B t div PS_NUM_STATES) t)"
      by (rule local_sweep_rel [OF sim se sh R tr em zero lp [OF post]])
  next
    fix pre_flank post_flank s' t'
    assume "R s' t'"
    then show "rel_sum (=) (\<lambda>(f, s') (v, t'). Ge f v \<and> R s' t')
       (Inr (get_end A s', s')) (Inr (get_end B t', t'))"
      using ge by simp
  qed
qed

lemma global_fill_rel:
  assumes sim: "sim_states R G C A B" and se: "sim_end R G A B" and sh: "sim_shape R A B"
    and R: "R s t"
    and tr: "\<forall>bt\<in>set (calculate_transitions
                 (get_num_columns B t div PS_NUM_STATES - 2) sequence data). all_transitions C bt"
    and em: "\<forall>rank idx. C (log_probability_match data rank idx) \<and>
                        C (log_probability_event_insert data rank idx)"
    and zero: "C (Fin 0)"
    and ge: "\<And>s t. R s t \<Longrightarrow> Ge (get_end A s) (get_end B t)"
  shows "rel_sum (=) (\<lambda>(f, s') (v, t'). Ge f v \<and> R s' t')
    (profile_hmm_fill_generic_global A sequence data e_start s)
    (profile_hmm_fill_generic_global B sequence data e_start t)"
proof -
  have cols: "get_num_columns A s = get_num_columns B t"
    using sh R by (simp add: sim_shape_def)
  have getr: "\<And>s t row col. R s t \<Longrightarrow> rel_sum (=) G (get A row col s) (get B row col t)"
    using sim by (simp add: sim_states_def)
  have upe: "\<And>s t v v' row col. R s t \<Longrightarrow> G v v' \<Longrightarrow>
        R (update_end A v row col s) (update_end B v' row col t)"
    using se unfolding sim_end_def by blast
  show ?thesis
    unfolding profile_hmm_fill_generic_global_def Let_def cols
  proof (rule bindE_rel [where A = R])
    show "rel_sum (=) R
       (global_sweep A sequence data e_start
          (calculate_transitions (get_num_columns B t div PS_NUM_STATES - 2) sequence data)
          (map (get_rank data sequence)
             (uint32_range 0 (get_num_columns B t div PS_NUM_STATES - 2)))
          (get_num_columns B t div PS_NUM_STATES) s)
       (global_sweep B sequence data e_start
          (calculate_transitions (get_num_columns B t div PS_NUM_STATES - 2) sequence data)
          (map (get_rank data sequence)
             (uint32_range 0 (get_num_columns B t div PS_NUM_STATES - 2)))
          (get_num_columns B t div PS_NUM_STATES) t)"
      by (rule global_sweep_rel [OF sim sh R tr em zero])
  next
    fix s' t'
    assume R': "R s' t'"
    have rows': "get_num_rows A s' = get_num_rows B t'"
      using sh R' by (simp add: sim_shape_def)
    show "rel_sum (=) (\<lambda>(f, s') (v, t'). Ge f v \<and> R s' t')
       (bindE (get A (get_num_rows A s' - 1)
                 (PS_NUM_STATES * (get_num_columns B t div PS_NUM_STATES - 2) + ps PS_MATCH) s')
          (\<lambda>g. Inr (get_end A (update_end A g (get_num_rows A s' - 1)
                   (PS_NUM_STATES * (get_num_columns B t div PS_NUM_STATES - 2) + ps PS_MATCH) s'),
                 update_end A g (get_num_rows A s' - 1)
                   (PS_NUM_STATES * (get_num_columns B t div PS_NUM_STATES - 2) + ps PS_MATCH) s')))
       (bindE (get B (get_num_rows B t' - 1)
                 (PS_NUM_STATES * (get_num_columns B t div PS_NUM_STATES - 2) + ps PS_MATCH) t')
          (\<lambda>g. Inr (get_end B (update_end B g (get_num_rows B t' - 1)
                   (PS_NUM_STATES * (get_num_columns B t div PS_NUM_STATES - 2) + ps PS_MATCH) t'),
                 update_end B g (get_num_rows B t' - 1)
                   (PS_NUM_STATES * (get_num_columns B t div PS_NUM_STATES - 2) + ps PS_MATCH) t')))"
      unfolding rows'
      apply (rule bindE_rel [OF getr [OF R']])
      apply (simp only: rel_sum_simps prod.case)
      apply (intro conjI ge upe R')
       apply assumption+
      done
  qed
qed

section \<open>The observed run\<close>

lemma traced_simps [simp]:
  "get (traced ops) row col (s, cs) = get ops row col s"
  "update_4 (traced ops) row col m e k x em (s, cs) =
     bindE (update_4 ops row col m e k x em s) (\<lambda>s'. Inr (s', cs @ [Update4 row col m e k x em]))"
  "update_end (traced ops) v row col (s, cs) =
     (update_end ops v row col s, cs @ [UpdateEnd v row col])"
  "get_end (traced ops) (s, cs) = get_end ops s"
  "get_num_columns (traced ops) (s, cs) = get_num_columns ops s"
  "get_num_rows (traced ops) (s, cs) = get_num_rows ops s"
  by (simp_all add: traced_def)

lemma rel_sum_eq_refl: "rel_sum (=) (=) m m"
  by (cases m) auto

lemma traced_sim_states:
  "sim_states (\<lambda>x t. fst x = t) (=) (\<lambda>c. True) (traced ops) ops"
  unfolding sim_states_def
  by (auto simp: rel_sum_eq_refl bindE_def split: sum.splits)

lemma traced_sim_end: "sim_end (\<lambda>x t. fst x = t) (=) (traced ops) ops"
  unfolding sim_end_def by auto

lemma traced_sim_shape: "sim_shape (\<lambda>x t. fst x = t) (traced ops) ops"
  unfolding sim_shape_def by auto

lemma traced_inv_states:
  assumes "\<And>cs row col m e k em. P cs \<Longrightarrow> P (cs @ [Update4 row col m e k NegInf em])"
  shows "sim_states (\<lambda>x y. x = y \<and> P (snd x)) (=) (\<lambda>c. True) (traced ops) (traced ops)"
  unfolding sim_states_def
  using assms by (auto simp: rel_sum_eq_refl bindE_def split: sum.splits)

lemma traced_inv_end:
  assumes "\<And>cs v row col. P cs \<Longrightarrow> P (cs @ [UpdateEnd v row col])"
  shows "sim_end (\<lambda>x y. x = y \<and> P (snd x)) (=) (traced ops) (traced ops)"
  unfolding sim_end_def using assms by auto

lemma inv_sim_shape: "sim_shape (\<lambda>x y. x = y \<and> P x) A A"
  unfolding sim_shape_def by auto

lemma all_transitions_True [simp]: "all_transitions (\<lambda>c. True) bt"
  by (simp add: all_transitions_def)

lemma traced_local_fill:
  "rel_sum (=) (\<lambda>(f, x) (v, t). f = v \<and> fst x = t)
     (profile_hmm_fill_generic_local (traced ops) sequence data e_start (output, cs))
     (profile_hmm_fill_generic_local ops sequence data e_start output)"
  by (rule local_fill_rel [OF traced_sim_states traced_sim_end traced_sim_shape]) auto

lemma traced_global_fill:
  "rel_sum (=) (\<lambda>(f, x) (v, t). f = v \<and> fst x = t)
     (profile_hmm_fill_generic_global (traced ops) sequence data e_start (output, cs))
     (profile_hmm_fill_generic_global ops sequence data e_start output)"
  by (rule global_fill_rel [OF traced_sim_states traced_sim_end traced_sim_shape]) auto

lemma traced_global_sweep:
  "rel_sum (=) (\<lambda>x t. fst x = t)
     (global_sweep (traced ops) sequence data e_start transitions kmer_ranks num_blocks (output, cs))
     (global_sweep ops sequence data e_start transitions kmer_ranks num_blocks output)"
  by (rule global_sweep_rel [OF traced_sim_states traced_sim_shape]) auto

lemma traced_local_fill_inv:
  assumes u4: "\<And>cs row col m e k em. P cs \<Longrightarrow> P (cs @ [Update4 row col m e k NegInf em])"
    and ue: "\<And>cs v row col. P cs \<Longrightarrow> P (cs @ [UpdateEnd v row col])"
    and P: "P cs"
    and run: "profile_hmm_fill_generic_local (traced ops) sequence data e_start (output, cs)
                = Inr (score, output', cs')"
  shows "P cs'"
proof -
  let ?R = "\<lambda>x y. x = y \<and> P (snd x)"
  have "rel_sum (=) (\<lambda>(f, x) (v, y). True \<and> ?R x y)
     (profile_hmm_fill_generic_local (traced ops) sequence data e_start (output, cs))
     (profile_hmm_fill_generic_local (traced ops) sequence data e_start (output, cs))"
    by (rule local_fill_rel [OF traced_inv_states [of P, OF u4] traced_inv_end [of P, OF ue]
          inv_sim_shape]) (auto simp: P)
  then show ?thesis
    by (simp add: run)
qed

lemma traced_global_sweep_inv:
  assumes u4: "\<And>cs row col m e k em. P cs \<Longrightarrow> P (cs @ [Update4 row col m e k NegInf em])"
    and P: "P cs"
    and run: "global_sweep (traced ops) sequence data e_start transitions kmer_ranks num_blocks
                (output, cs) = Inr (output', cs')"
  shows "P cs'"
proof -
  let ?R = "\<lambda>x y. x = y \<and> P (snd x)"
  have "rel_sum (=) ?R
     (global_sweep (traced ops) sequence data e_start transitions kmer_ranks num_blocks (output, cs))
     (global_sweep (traced ops) sequence data e_start transitions kmer_ranks num_blocks (output, cs))"
    by (rule global_sweep_rel [OF traced_inv_states [of P, OF u4] inv_sim_shape]) (auto simp: P)
  then show ?thesis
    by (simp add: run)
qed

section \<open>The two writers inside the engine\<close>

lemma Forward_ops_simps [simp]:
  "update_4 Forward_ops = Forward_update_4"
  "update_end Forward_ops = Forward_update_end"
  "get Forward_ops = Forward_get"
  "get_end Forward_ops = fwd_lp_end"
  "get_num_columns Forward_ops out = n_cols (fwd_p_fm out)"
  "get_num_rows Forward_ops out = n_rows (fwd_p_fm out)"
  by (simp_all add: Forward_ops_def)

lemma Viterbi_ops_simps [simp]:
  "update_4 Viterbi_ops = Viterbi_update_4"
  "update_end Viterbi_ops = Viterbi_update_end"
  "get Viterbi_ops = Viterbi_get"
  "get_end Viterbi_ops = vit_lp_end"
  "get_num_columns Viterbi_ops out = n_cols (vit_p_fm out)"
  "get_num_rows Viterbi_ops out = n_rows (vit_p_fm out)"
  by (simp_all add: Viterbi_ops_def)

lemma Forward_update_4_eq:
  "Forward_update_4 row col m e k s em out =
     (if row < n_rows (fwd_p_fm out) \<and> col < n_cols (fwd_p_fm out)
      then Inr (out\<lparr>fwd_p_fm := (fwd_p_fm out)\<lparr>cells := (cells (fwd_p_fm out))
             ((unat row, unat col) := fadd (add_logs (add_logs m e) (add_logs k s)) em)\<rparr>\<rparr>)
      else Inl OutOfBounds)"
  by (simp add: Forward_update_4_def mset_def Let_def)

lemma Viterbi_update_4_eq:
  "Viterbi_update_4 row col m e k s em out =
     (if row < n_rows (vit_p_fm out) \<and> col < n_cols (vit_p_fm out)
      then (if row < n_rows (vit_p_bm out) \<and> col < n_cols (vit_p_bm out)
            then Inr (out\<lparr>vit_p_fm := (vit_p_fm out)\<lparr>cells := (cells (vit_p_fm out))
                        ((unat row, unat col) := fadd (Viterbi_max m e k s) em)\<rparr>,
                      vit_p_bm := (vit_p_bm out)\<lparr>cells := (cells (vit_p_bm out))
                        ((unat row, unat col) := Viterbi_from m e k s)\<rparr>\<rparr>)
            else Inl OutOfBounds)
      else Inl OutOfBounds)"
  by (simp add: Viterbi_update_4_def mset_def Let_def)

lemma add_logs_NegInf_right: "add_logs k NegInf = k"
  by (cases k) simp_all

lemma fmax_NegInf_right: "fmax k NegInf = k"
  by (cases k) (simp_all add: fmax_def)

lemma Forward_lattice_sim_states:
  "sim_states (\<lambda>a b. fwd_p_fm a = fwd_p_fm b) (=) (\<lambda>c. True) Forward_ops Forward_ops"
  unfolding sim_states_def
  by (auto simp: Forward_get_def Forward_update_4_eq rel_sum_eq_refl)

lemma Forward_lattice_sim_end:
  "sim_end (\<lambda>a b. fwd_p_fm a = fwd_p_fm b) (\<lambda>v v'. True) Forward_ops Forward_ops"
  unfolding sim_end_def by (simp add: Forward_update_end_def)

lemma Viterbi_lattice_sim_states:
  "sim_states (\<lambda>a b. vit_p_fm a = vit_p_fm b \<and> vit_p_bm a = vit_p_bm b) (=) (\<lambda>c. True)
     Viterbi_ops Viterbi_ops"
  unfolding sim_states_def
  by (auto simp: Viterbi_get_def Viterbi_update_4_eq rel_sum_eq_refl)

lemma Viterbi_lattice_sim_end:
  "sim_end (\<lambda>a b. vit_p_fm a = vit_p_fm b \<and> vit_p_bm a = vit_p_bm b) (\<lambda>v v'. True)
     Viterbi_ops Viterbi_ops"
  unfolding sim_end_def by (simp add: Viterbi_update_end_def)

lemma fourth_input_inv:
  "\<forall>c\<in>set cs. fourth_input c = None \<or> fourth_input c = Some NegInf \<Longrightarrow>
   \<forall>c\<in>set (cs @ [Update4 row col m e k NegInf em]).
      fourth_input c = None \<or> fourth_input c = Some NegInf"
  "\<forall>c\<in>set cs. fourth_input c = None \<or> fourth_input c = Some NegInf \<Longrightarrow>
   \<forall>c\<in>set (cs @ [UpdateEnd v row col]).
      fourth_input c = None \<or> fourth_input c = Some NegInf"
  by auto

text \<open>
  C4. In a run of the local fill engine every \<open>update_4\<close> call, the match-state call of
  every row and block among them, receives \<open>-INFINITY\<close> as its fourth input, and the
  observed run returns what the engine returns. The lattice (and the backtrace) the two nested
  loops leave behind does not depend on the uniform prior \<open>lp_ms\<close>, under either strategy:
  the prior reaches the end-transition updates only. A fourth input of \<open>-INFINITY\<close> leaves
  the third input as it is, under the log-sum and under \<open>std::max\<close>.
\<close>

theorem local_entry_disabled:
  "(profile_hmm_fill_generic_local (traced ops) sequence data e_start (output, [])
       = Inr (score, output', calls) \<longrightarrow>
      (\<forall>c\<in>set calls. fourth_input c = None \<or> fourth_input c = Some NegInf) \<and>
      profile_hmm_fill_generic_local ops sequence data e_start output = Inr (score, output')) \<and>
   rel_sum (=) (\<lambda>a b. fwd_p_fm a = fwd_p_fm b)
     (local_sweep Forward_ops sequence data e_start transitions kmer_ranks post_flank lp_ms
        last_kmer_idx num_blocks fo)
     (local_sweep Forward_ops sequence data e_start transitions kmer_ranks post_flank lp_ms'
        last_kmer_idx num_blocks fo) \<and>
   rel_sum (=) (\<lambda>a b. vit_p_fm a = vit_p_fm b \<and> vit_p_bm a = vit_p_bm b)
     (local_sweep Viterbi_ops sequence data e_start transitions kmer_ranks post_flank lp_ms
        last_kmer_idx num_blocks vo)
     (local_sweep Viterbi_ops sequence data e_start transitions kmer_ranks post_flank lp_ms'
        last_kmer_idx num_blocks vo) \<and>
   add_logs k NegInf = k \<and> fmax k NegInf = k"
proof (intro conjI impI)
  assume run: "profile_hmm_fill_generic_local (traced ops) sequence data e_start (output, [])
       = Inr (score, output', calls)"
  let ?P = "\<lambda>cs. \<forall>c\<in>set cs. fourth_input c = None \<or> fourth_input c = Some NegInf"
  have "?P calls"
    by (rule traced_local_fill_inv [where P = ?P, OF fourth_input_inv _ run]) simp_all
  then show "\<forall>c\<in>set calls. fourth_input c = None \<or> fourth_input c = Some NegInf" .
  show "profile_hmm_fill_generic_local ops sequence data e_start output = Inr (score, output')"
    using traced_local_fill [of ops sequence data e_start "output" "[]"] run
    by (cases "profile_hmm_fill_generic_local ops sequence data e_start output") auto
next
  show "rel_sum (=) (\<lambda>a b. fwd_p_fm a = fwd_p_fm b)
     (local_sweep Forward_ops sequence data e_start transitions kmer_ranks post_flank lp_ms
        last_kmer_idx num_blocks fo)
     (local_sweep Forward_ops sequence data e_start transitions kmer_ranks post_flank lp_ms'
        last_kmer_idx num_blocks fo)"
    by (rule local_sweep_rel [OF Forward_lattice_sim_states Forward_lattice_sim_end])
      (simp_all add: sim_shape_def)
next
  show "rel_sum (=) (\<lambda>a b. vit_p_fm a = vit_p_fm b \<and> vit_p_bm a = vit_p_bm b)
     (local_sweep Viterbi_ops sequence data e_start transitions kmer_ranks post_flank lp_ms
        last_kmer_idx num_blocks vo)
     (local_sweep Viterbi_ops sequence data e_start transitions kmer_ranks post_flank lp_ms'
        last_kmer_idx num_blocks vo)"
    by (rule local_sweep_rel [OF Viterbi_lattice_sim_states Viterbi_lattice_sim_end])
      (simp_all add: sim_shape_def)
qed (simp_all add: add_logs_NegInf_right fmax_NegInf_right)

section \<open>Forward against Viterbi\<close>

lemma logdom_simps [simp]:
  "logdom NegInf" "logdom (Fin x)" "\<not> logdom NaN" "\<not> logdom PosInf"
  by (simp_all add: logdom_def)






lemma fmax_logdom: "logdom a \<Longrightarrow> logdom b \<Longrightarrow> logdom (fmax a b)"
  by (simp add: fmax_def)

lemma fadd_logdom': "logdom a \<Longrightarrow> logdom b \<Longrightarrow> logdom (fadd a b)"
  by (cases a; cases b) simp_all







lemma Viterbi_update_end_lp_end:
  "vit_lp_end (Viterbi_update_end v row col out) = fmax (vit_lp_end out) v"
  by (simp add: Viterbi_update_end_def fmax_def fgt_def)

lemma Viterbi_update_end_frame [simp]:
  "vit_p_fm (Viterbi_update_end v row col out) = vit_p_fm out"
  "vit_p_bm (Viterbi_update_end v row col out) = vit_p_bm out"
  by (simp_all add: Viterbi_update_end_def)





lemma flog_nonneg_logdom: "0 \<le> x \<Longrightarrow> logdom (flog (Fin x))"
  by simp

lemma block_transitions_logdom:
  assumes t: "trans_m_to_e_not_k params = Fin t" "0 \<le> t" "t \<le> 1"
    and u: "is_prob (trans_e_to_e params)"
    and s: "0 \<le> s" "s \<le> 1"
    and margin: "1 / 2 ^ 23 \<le> (1 - s) * (1 - t)"
  shows "all_transitions logdom (log_transform (block_probabilities params (Fin s)))"
proof -
  obtain u' where u': "trans_e_to_e params = Fin u'" "0 \<le> u'" "u' \<le> 1"
    using u is_probE by blast
  from block_probabilities_unit [OF t u' s]
  obtain a m b p c where bp: "block_probabilities params (Fin s) =
       \<lparr>p_mm = Fin p, p_me = Fin m, p_mk = Fin s, p_ee = Fin u', p_em = Fin c, p_kk = Fin s,
        p_km = Fin a\<rparr>"
    and a: "\<bar>a - (1 - s)\<bar> \<le> 1 / 2 ^ 25" "0 \<le> a"
    and m: "\<bar>m - a * t\<bar> \<le> 1 / 2 ^ 25" "0 \<le> m"
    and b: "\<bar>b - (1 - m)\<bar> \<le> 1 / 2 ^ 25"
    and p: "s \<le> b \<longrightarrow> 0 \<le> p"
    and c: "0 \<le> c"
    by blast
  define X where "X = (1 - s) * t"
  have "a \<le> 1 - s + 1 / 2 ^ 25"
    using a(1) unfolding ulp_numerals by linarith
  then have "a * t \<le> (1 - s + 1 / 2 ^ 25) * t"
    using t(2) by (rule mult_right_mono)
  also have "\<dots> = X + 1 / 2 ^ 25 * t"
    by (simp add: X_def algebra_simps)
  also have "\<dots> \<le> X + 1 / 2 ^ 25"
    using t(3) by simp
  finally have at: "a * t \<le> X + 1 / 2 ^ 25" .
  have "(1 - s) * (1 - t) = 1 - s - X"
    by (simp add: X_def algebra_simps)
  then have mg: "1 / 2 ^ 23 \<le> 1 - s - X"
    using margin by simp
  have "s \<le> b"
    using at mg m(1) b unfolding ulp_numerals by linarith
  then have "0 \<le> p" using p by simp
  then show ?thesis
    using bp a(2) m(2) c s(1) u'(2)
    by (simp add: all_transitions_def log_transform_def)
qed

lemma block_p_skip_cases:
  "block_p_skip sequence data ki = Fin 0 \<or>
   (\<exists>a b. block_p_skip sequence data ki = get_skip_probability data a b)"
  by (auto simp: block_p_skip_def calculate_skip_probability_def Let_def)

lemma calculate_transitions_logdom:
  assumes t: "trans_m_to_e_not_k (parameters data) = Fin t" "0 \<le> t" "t \<le> 1 / 2"
    and u: "is_prob (trans_e_to_e (parameters data))"
    and skip: "\<forall>a b. \<exists>s. get_skip_probability data a b = Fin s \<and> 0 \<le> s \<and> s \<le> 1 / 2"
  shows "\<forall>bt\<in>set (calculate_transitions num_kmers sequence data). all_transitions logdom bt"
proof -
  have "all_transitions logdom
      (log_transform (block_probabilities (parameters data) (block_p_skip sequence data ki)))"
    for ki
  proof -
    obtain s where s: "block_p_skip sequence data ki = Fin s" "0 \<le> s" "s \<le> 1 / 2"
      using block_p_skip_cases [of sequence data ki] skip by force
    have "1 / 2 * (1 / 2) \<le> (1 - s) * (1 - t)"
      using s t by (intro mult_mono) simp_all
    then have "1 / 2 ^ 23 \<le> (1 - s) * (1 - t)"
      by simp
    then show ?thesis
      unfolding s(1) using t s by (intro block_transitions_logdom [OF t(1,2) _ u]) simp_all
  qed
  then show ?thesis
    by (auto simp: calculate_transitions_def)
qed












lemma Viterbi_from_never_pre_soft: "Viterbi_from m e k NegInf \<noteq> Some PS_PRE_SOFT"
  by (cases m; cases e; cases k)
    (auto simp: Viterbi_from_def Viterbi_max_def fmax_def feq_def Let_def)

lemma Viterbi_from_backtrace_states:
  "m \<noteq> NaN \<Longrightarrow> e \<noteq> NaN \<Longrightarrow> k \<noteq> NaN \<Longrightarrow> Viterbi_from m e k NegInf \<in> backtrace_states"
  by (cases m; cases e; cases k)
    (auto simp: Viterbi_from_def Viterbi_max_def fmax_def feq_def Let_def backtrace_states_def)

lemma logdom_not_NaN: "logdom a \<Longrightarrow> a \<noteq> NaN"
  by (simp add: logdom_def)

lemma Viterbi_max_logdom:
  "logdom m \<Longrightarrow> logdom e \<Longrightarrow> logdom k \<Longrightarrow> logdom (Viterbi_max m e k NegInf)"
  by (simp add: Viterbi_max_def fmax_logdom)

lemma vit_inv_sim_states:
  "sim_states (\<lambda>s t. s = t \<and> vit_inv bm0 s) (\<lambda>a b. a = b \<and> logdom a) logdom
     Viterbi_ops Viterbi_ops"
  unfolding sim_states_def
proof (intro conjI allI impI)
  fix s t row col
  assume "s = t \<and> vit_inv bm0 s"
  then show "rel_sum (=) (\<lambda>a b. a = b \<and> logdom a) (get Viterbi_ops row col s)
               (get Viterbi_ops row col t)"
    by (auto simp: Viterbi_get_def mget_def vit_inv_def)
next
  fix s t row col m e k em m' e' k'
  assume R: "s = t \<and> vit_inv bm0 s"
    and m: "m = m' \<and> logdom m" and e: "e = e' \<and> logdom e" and k: "k = k' \<and> logdom k"
    and em: "logdom em"
  have "logdom (fadd (Viterbi_max m e k NegInf) em)"
    using m e k em by (intro fadd_logdom' Viterbi_max_logdom) auto
  moreover have "Viterbi_from m e k NegInf \<in> backtrace_states"
    using m e k by (intro Viterbi_from_backtrace_states logdom_not_NaN) auto
  ultimately show "rel_sum (=) (\<lambda>s t. s = t \<and> vit_inv bm0 s)
       (update_4 Viterbi_ops row col m e k NegInf em s)
       (update_4 Viterbi_ops row col m' e' k' NegInf em t)"
    using R m e k by (auto simp: Viterbi_update_4_eq vit_inv_def)
qed (auto simp: fadd_logdom')

lemma vit_inv_sim_end:
  "sim_end (\<lambda>s t. s = t \<and> vit_inv bm0 s) (\<lambda>a b. a = b \<and> logdom a) Viterbi_ops Viterbi_ops"
  unfolding sim_end_def by (simp add: vit_inv_def)

lemma vit_inv_sim_end_eq:
  "sim_end (\<lambda>s t. s = t \<and> vit_inv bm0 s) (=) Viterbi_ops Viterbi_ops"
  unfolding sim_end_def by (simp add: vit_inv_def)

section \<open>The backtrace and the global end score\<close>

lemma Viterbi_local_inv:
  assumes sim: "sim_states (\<lambda>s t. s = t \<and> P s) G C Viterbi_ops Viterbi_ops"
    and se: "sim_end (\<lambda>s t. s = t \<and> P s) (=) Viterbi_ops Viterbi_ops"
    and G: "\<And>g g'. G g g' \<Longrightarrow> g = g'"
    and P: "P vo"
    and tr: "\<forall>bt\<in>set (calculate_transitions
                 (get_num_columns Viterbi_ops vo div PS_NUM_STATES - 2) sequence data).
               all_transitions C bt"
    and em: "\<forall>rank idx. C (log_probability_match data rank idx) \<and>
                        C (log_probability_event_insert data rank idx)"
    and zero: "C (Fin 0)"
    and run: "profile_hmm_fill_generic_local Viterbi_ops sequence data e_start vo = Inr (score, vo')"
  shows "P vo'"
proof -
  have "rel_sum (=) (\<lambda>(f, s') (v, t'). True \<and> (s' = t' \<and> P s'))
     (profile_hmm_fill_generic_local Viterbi_ops sequence data e_start vo)
     (profile_hmm_fill_generic_local Viterbi_ops sequence data e_start vo)"
    by (rule local_fill_rel [where Ge = "\<lambda>f v. True" and E = "(=)" and G = G and C = C,
          OF sim se inv_sim_shape _ tr em zero])
      (auto simp: P dest: G)
  then show ?thesis by (simp add: run)
qed

lemma Viterbi_global_inv:
  assumes sim: "sim_states (\<lambda>s t. s = t \<and> P s) G C Viterbi_ops Viterbi_ops"
    and se: "sim_end (\<lambda>s t. s = t \<and> P s) G Viterbi_ops Viterbi_ops"
    and P: "P vo"
    and tr: "\<forall>bt\<in>set (calculate_transitions
                 (get_num_columns Viterbi_ops vo div PS_NUM_STATES - 2) sequence data).
               all_transitions C bt"
    and em: "\<forall>rank idx. C (log_probability_match data rank idx) \<and>
                        C (log_probability_event_insert data rank idx)"
    and zero: "C (Fin 0)"
    and run: "profile_hmm_fill_generic_global Viterbi_ops sequence data e_start vo = Inr (score, vo')"
  shows "P vo'"
proof -
  have "rel_sum (=) (\<lambda>(f, s') (v, t'). True \<and> (s' = t' \<and> P s'))
     (profile_hmm_fill_generic_global Viterbi_ops sequence data e_start vo)
     (profile_hmm_fill_generic_global Viterbi_ops sequence data e_start vo)"
    by (rule global_fill_rel [where Ge = "\<lambda>f v. True" and G = G and C = C,
          OF sim se inv_sim_shape _ tr em zero])
      (auto simp: P)
  then show ?thesis by (simp add: run)
qed

lemma vit_inv_start: "\<forall>rc. logdom (cells (vit_p_fm vo) rc) \<Longrightarrow> vit_inv (vit_p_bm vo) vo"
  by (simp add: vit_inv_def)

text \<open>
  X1. When no entry of the transition table and no emission log-probability is NaN or
  \<open>+INFINITY\<close> and the lattice cells are finite or \<open>-INFINITY\<close>, every backtrace cell that
  a run of either fill variant with the Viterbi writer has written is \<open>PS_MATCH\<close>,
  \<open>PS_EVENT_SPLIT\<close> or \<open>PS_KMER_SKIP\<close>. With a fourth input of \<open>-INFINITY\<close>, which is what
  the engine passes, the branch of the \<open>if\<close> chain that assigns \<open>PS_PRE_SOFT\<close> is taken for
  no inputs, and one of the first three branches is taken whenever no input is NaN.
\<close>

theorem backtrace_values_without_nan:
  "((\<forall>n. \<forall>bt\<in>set (calculate_transitions n sequence data). all_transitions logdom bt) \<and>
    (\<forall>rank idx. logdom (log_probability_match data rank idx) \<and>
                logdom (log_probability_event_insert data rank idx)) \<and>
    (\<forall>rc. logdom (cells (vit_p_fm vo) rc)) \<and>
    (profile_hmm_fill_generic_local Viterbi_ops sequence data e_start vo = Inr (score, vo') \<or>
     profile_hmm_fill_generic_global Viterbi_ops sequence data e_start vo = Inr (score, vo')) \<longrightarrow>
      (\<forall>rc. cells (vit_p_bm vo') rc = cells (vit_p_bm vo) rc \<or>
            cells (vit_p_bm vo') rc \<in> {Some PS_MATCH, Some PS_EVENT_SPLIT, Some PS_KMER_SKIP})) \<and>
   Viterbi_from m e k NegInf \<noteq> Some PS_PRE_SOFT \<and>
   (m \<noteq> NaN \<and> e \<noteq> NaN \<and> k \<noteq> NaN \<longrightarrow>
      Viterbi_from m e k NegInf \<in> {Some PS_MATCH, Some PS_EVENT_SPLIT, Some PS_KMER_SKIP})"
proof (intro conjI impI)
  assume h: "(\<forall>n. \<forall>bt\<in>set (calculate_transitions n sequence data).
                 all_transitions logdom bt) \<and>
    (\<forall>rank idx. logdom (log_probability_match data rank idx) \<and>
                logdom (log_probability_event_insert data rank idx)) \<and>
    (\<forall>rc. logdom (cells (vit_p_fm vo) rc)) \<and>
    (profile_hmm_fill_generic_local Viterbi_ops sequence data e_start vo = Inr (score, vo') \<or>
     profile_hmm_fill_generic_global Viterbi_ops sequence data e_start vo = Inr (score, vo'))"
  then have tr: "\<And>n. \<forall>bt\<in>set (calculate_transitions n sequence data). all_transitions logdom bt"
    by blast
  from h have em: "\<forall>rank idx. logdom (log_probability_match data rank idx) \<and>
                logdom (log_probability_event_insert data rank idx)"
    by blast
  from h have start: "vit_inv (vit_p_bm vo) vo"
    by (intro vit_inv_start) blast
  from h have "profile_hmm_fill_generic_local Viterbi_ops sequence data e_start vo = Inr (score, vo') \<or>
     profile_hmm_fill_generic_global Viterbi_ops sequence data e_start vo = Inr (score, vo')"
    by blast
  then have "vit_inv (vit_p_bm vo) vo'"
  proof
    assume "profile_hmm_fill_generic_local Viterbi_ops sequence data e_start vo = Inr (score, vo')"
    then show ?thesis
      by (rule Viterbi_local_inv [OF vit_inv_sim_states vit_inv_sim_end_eq _ start tr em,
            rotated -1]) simp_all
  next
    assume "profile_hmm_fill_generic_global Viterbi_ops sequence data e_start vo = Inr (score, vo')"
    then show ?thesis
      by (rule Viterbi_global_inv [OF vit_inv_sim_states vit_inv_sim_end start tr em,
            rotated -1]) simp_all
  qed
  then show "\<forall>rc. cells (vit_p_bm vo') rc = cells (vit_p_bm vo) rc \<or>
            cells (vit_p_bm vo') rc \<in> {Some PS_MATCH, Some PS_EVENT_SPLIT, Some PS_KMER_SKIP}"
    by (simp add: vit_inv_def backtrace_states_def)
next
  show "Viterbi_from m e k NegInf \<noteq> Some PS_PRE_SOFT"
    by (rule Viterbi_from_never_pre_soft)
next
  assume "m \<noteq> NaN \<and> e \<noteq> NaN \<and> k \<noteq> NaN"
  then show "Viterbi_from m e k NegInf \<in> {Some PS_MATCH, Some PS_EVENT_SPLIT, Some PS_KMER_SKIP}"
    using Viterbi_from_backtrace_states [of m e k] by (simp add: backtrace_states_def)
qed

lemma global_fill_Inr:
  "profile_hmm_fill_generic_global ops sequence data e_start s = Inr (score, s') \<longleftrightarrow>
     (\<exists>swept g.
        global_sweep ops sequence data e_start
          (calculate_transitions (get_num_columns ops s div PS_NUM_STATES - 2) sequence data)
          (map (get_rank data sequence)
             (uint32_range 0 (get_num_columns ops s div PS_NUM_STATES - 2)))
          (get_num_columns ops s div PS_NUM_STATES) s = Inr swept \<and>
        get ops (get_num_rows ops swept - 1) (match_state_last_block (get_num_columns ops s)) swept
          = Inr g \<and>
        s' = update_end ops g (get_num_rows ops swept - 1)
               (match_state_last_block (get_num_columns ops s)) swept \<and>
        score = get_end ops s')"
  by (auto simp: profile_hmm_fill_generic_global_def Let_def bindE_Inr match_state_last_block_def)

lemma global_sweep_inv:
  assumes sim: "sim_states (\<lambda>s t. s = t \<and> P s) (=) (\<lambda>c. True) A A"
    and P: "P s"
    and run: "global_sweep A sequence data e_start transitions kmer_ranks num_blocks s = Inr s'"
  shows "P s'"
proof -
  have "rel_sum (=) (\<lambda>s t. s = t \<and> P s)
     (global_sweep A sequence data e_start transitions kmer_ranks num_blocks s)
     (global_sweep A sequence data e_start transitions kmer_ranks num_blocks s)"
    by (rule global_sweep_rel [OF sim inv_sim_shape]) (auto simp: P)
  then show ?thesis by (simp add: run)
qed

lemma Forward_frame_sim_states:
  "sim_states (\<lambda>s t. s = t \<and> fwd_lp_end s = l \<and> n_rows (fwd_p_fm s) = nr) (=) (\<lambda>c. True)
     Forward_ops Forward_ops"
  unfolding sim_states_def
  by (auto simp: rel_sum_eq_refl Forward_update_4_eq)

lemma Viterbi_frame_sim_states:
  "sim_states (\<lambda>s t. s = t \<and> vit_lp_end s = l \<and> n_rows (vit_p_fm s) = nr) (=) (\<lambda>c. True)
     Viterbi_ops Viterbi_ops"
  unfolding sim_states_def
  by (auto simp: rel_sum_eq_refl Viterbi_update_4_eq)

lemma Forward_global_score:
  assumes run: "profile_hmm_fill_generic_global Forward_ops sequence data e_start (Forward_new fm)
                  = Inr (score, fo)"
  shows "score = cells (fwd_p_fm fo) (unat (n_rows fm - 1), unat (match_state_last_block (n_cols fm)))"
proof -
  from run obtain swept g where
    sw: "global_sweep Forward_ops sequence data e_start
          (calculate_transitions (n_cols fm div PS_NUM_STATES - 2) sequence data)
          (map (get_rank data sequence) (uint32_range 0 (n_cols fm div PS_NUM_STATES - 2)))
          (n_cols fm div PS_NUM_STATES) (Forward_new fm) = Inr swept"
    and g: "Forward_get (n_rows (fwd_p_fm swept) - 1) (match_state_last_block (n_cols fm)) swept
              = Inr g"
    and fo: "fo = Forward_update_end g (n_rows (fwd_p_fm swept) - 1)
               (match_state_last_block (n_cols fm)) swept"
    and sc: "score = fwd_lp_end fo"
    by (auto simp: global_fill_Inr Forward_new_def)
  have "fwd_lp_end swept = NegInf \<and> n_rows (fwd_p_fm swept) = n_rows fm"
    by (rule global_sweep_inv [OF Forward_frame_sim_states _ sw]) (simp add: Forward_new_def)
  then have l: "fwd_lp_end swept = NegInf" and nr: "n_rows (fwd_p_fm swept) = n_rows fm"
    by simp_all
  from g have "g = cells (fwd_p_fm swept)
      (unat (n_rows fm - 1), unat (match_state_last_block (n_cols fm)))"
    by (auto simp: Forward_get_def mget_def nr split: if_splits)
  moreover have "fwd_p_fm fo = fwd_p_fm swept" "fwd_lp_end fo = add_logs NegInf g"
    by (simp_all add: fo Forward_update_end_def l)
  moreover have "add_logs NegInf g = g"
    by (cases g) simp_all
  ultimately show ?thesis
    using sc by simp
qed

lemma Viterbi_global_score:
  assumes run: "profile_hmm_fill_generic_global Viterbi_ops sequence data e_start
                  (Viterbi_new fm bm) = Inr (score, vo)"
    and fin: "is_finite (cells (vit_p_fm vo)
                (unat (n_rows fm - 1), unat (match_state_last_block (n_cols fm))))"
  shows "score = cells (vit_p_fm vo) (unat (n_rows fm - 1), unat (match_state_last_block (n_cols fm)))"
proof -
  from run obtain swept g where
    sw: "global_sweep Viterbi_ops sequence data e_start
          (calculate_transitions (n_cols fm div PS_NUM_STATES - 2) sequence data)
          (map (get_rank data sequence) (uint32_range 0 (n_cols fm div PS_NUM_STATES - 2)))
          (n_cols fm div PS_NUM_STATES) (Viterbi_new fm bm) = Inr swept"
    and g: "Viterbi_get (n_rows (vit_p_fm swept) - 1) (match_state_last_block (n_cols fm)) swept
              = Inr g"
    and vo: "vo = Viterbi_update_end g (n_rows (vit_p_fm swept) - 1)
               (match_state_last_block (n_cols fm)) swept"
    and sc: "score = vit_lp_end vo"
    by (auto simp: global_fill_Inr Viterbi_new_def)
  have "vit_lp_end swept = NegInf \<and> n_rows (vit_p_fm swept) = n_rows fm"
    by (rule global_sweep_inv [OF Viterbi_frame_sim_states _ sw]) (simp add: Viterbi_new_def)
  then have l: "vit_lp_end swept = NegInf" and nr: "n_rows (vit_p_fm swept) = n_rows fm"
    by simp_all
  from g have gc: "g = cells (vit_p_fm swept)
      (unat (n_rows fm - 1), unat (match_state_last_block (n_cols fm)))"
    by (auto simp: Viterbi_get_def mget_def nr split: if_splits)
  have fm: "vit_p_fm vo = vit_p_fm swept"
    by (simp add: vo)
  then have "is_finite g" using fin gc by simp
  then have "fmax NegInf g = g"
    by (cases g) (simp_all add: is_finite_def fmax_def)
  then have "vit_lp_end vo = g"
    by (simp add: vo Viterbi_update_end_lp_end l)
  then show ?thesis
    using sc gc fm by simp
qed

lemma no_update_end_inv:
  "\<forall>c\<in>set cs. \<not> is_update_end c \<Longrightarrow>
   \<forall>c\<in>set (cs @ [Update4 row col m e k NegInf em]). \<not> is_update_end c"
  by auto

text \<open>
  C5. A run of the global variant makes one \<open>update_end\<close> call, its last call, after the
  sweep over all rows and blocks: the value it passes is the one \<open>get\<close> reads at the last
  row and the match-state column of block \<open>num_blocks - 2\<close> of the swept lattice, and the
  function returns \<open>get_end()\<close> of the writer after that call. For a new Forward writer and
  for a new Viterbi writer the returned score is the value of that cell when it is finite.
\<close>

theorem global_fill_end_update:
  "(profile_hmm_fill_generic_global (traced ops) sequence data e_start (s, [])
       = Inr (score, s', calls) \<longrightarrow>
      (\<exists>swept g.
         global_sweep ops sequence data e_start
           (calculate_transitions (get_num_columns ops s div PS_NUM_STATES - 2) sequence data)
           (map (get_rank data sequence)
              (uint32_range 0 (get_num_columns ops s div PS_NUM_STATES - 2)))
           (get_num_columns ops s div PS_NUM_STATES) s = Inr swept \<and>
         get ops (get_num_rows ops swept - 1) (match_state_last_block (get_num_columns ops s)) swept
           = Inr g \<and>
         filter is_update_end calls =
           [UpdateEnd g (get_num_rows ops swept - 1) (match_state_last_block (get_num_columns ops s))] \<and>
         last calls =
           UpdateEnd g (get_num_rows ops swept - 1) (match_state_last_block (get_num_columns ops s)) \<and>
         s' = update_end ops g (get_num_rows ops swept - 1)
                (match_state_last_block (get_num_columns ops s)) swept \<and>
         score = get_end ops s' \<and>
         profile_hmm_fill_generic_global ops sequence data e_start s = Inr (score, s'))) \<and>
   (profile_hmm_fill_generic_global Forward_ops sequence data e_start (Forward_new fm)
       = Inr (score_f, fo) \<and>
    is_finite (cells (fwd_p_fm fo)
                 (unat (n_rows fm - 1), unat (match_state_last_block (n_cols fm)))) \<longrightarrow>
      score_f = cells (fwd_p_fm fo)
                  (unat (n_rows fm - 1), unat (match_state_last_block (n_cols fm)))) \<and>
   (profile_hmm_fill_generic_global Viterbi_ops sequence data e_start (Viterbi_new fm bm)
       = Inr (score_v, vo) \<and>
    is_finite (cells (vit_p_fm vo)
                 (unat (n_rows fm - 1), unat (match_state_last_block (n_cols fm)))) \<longrightarrow>
      score_v = cells (vit_p_fm vo)
                  (unat (n_rows fm - 1), unat (match_state_last_block (n_cols fm))))"
proof (intro conjI impI)
  assume run: "profile_hmm_fill_generic_global (traced ops) sequence data e_start (s, [])
       = Inr (score, s', calls)"
  let ?tr = "calculate_transitions (get_num_columns ops s div PS_NUM_STATES - 2) sequence data"
  let ?kr = "map (get_rank data sequence)
              (uint32_range 0 (get_num_columns ops s div PS_NUM_STATES - 2))"
  let ?nb = "get_num_columns ops s div PS_NUM_STATES"
  let ?col = "match_state_last_block (get_num_columns ops s)"
  from run obtain swept calls0 g where
    sw: "global_sweep (traced ops) sequence data e_start ?tr ?kr ?nb (s, []) = Inr (swept, calls0)"
    and g: "get ops (get_num_rows ops swept - 1) ?col swept = Inr g"
    and s': "s' = update_end ops g (get_num_rows ops swept - 1) ?col swept"
    and calls: "calls = calls0 @ [UpdateEnd g (get_num_rows ops swept - 1) ?col]"
    and sc: "score = get_end ops s'"
    by (auto simp: global_fill_Inr)
  have plain_sweep: "global_sweep ops sequence data e_start ?tr ?kr ?nb s = Inr swept"
    using traced_global_sweep [of ops sequence data e_start ?tr ?kr ?nb s "[]"] sw
    by (cases "global_sweep ops sequence data e_start ?tr ?kr ?nb s") auto
  have "\<forall>c\<in>set calls0. \<not> is_update_end c"
    by (rule traced_global_sweep_inv [where P = "\<lambda>cs. \<forall>c\<in>set cs. \<not> is_update_end c",
          OF no_update_end_inv _ sw]) simp_all
  then have "filter is_update_end calls0 = []"
    by (simp add: filter_empty_conv)
  then have f: "filter is_update_end calls = [UpdateEnd g (get_num_rows ops swept - 1) ?col]"
    by (simp add: calls)
  have l: "last calls = UpdateEnd g (get_num_rows ops swept - 1) ?col"
    by (simp add: calls)
  have plain: "profile_hmm_fill_generic_global ops sequence data e_start s = Inr (score, s')"
    using plain_sweep g s' sc by (auto simp: global_fill_Inr)
  show "\<exists>swept g.
         global_sweep ops sequence data e_start ?tr ?kr ?nb s = Inr swept \<and>
         get ops (get_num_rows ops swept - 1) ?col swept = Inr g \<and>
         filter is_update_end calls = [UpdateEnd g (get_num_rows ops swept - 1) ?col] \<and>
         last calls = UpdateEnd g (get_num_rows ops swept - 1) ?col \<and>
         s' = update_end ops g (get_num_rows ops swept - 1) ?col swept \<and>
         score = get_end ops s' \<and>
         profile_hmm_fill_generic_global ops sequence data e_start s = Inr (score, s')"
    using plain_sweep g f l s' sc plain by blast
next
  assume "profile_hmm_fill_generic_global Forward_ops sequence data e_start (Forward_new fm)
       = Inr (score_f, fo) \<and>
    is_finite (cells (fwd_p_fm fo)
                 (unat (n_rows fm - 1), unat (match_state_last_block (n_cols fm))))"
  then show "score_f = cells (fwd_p_fm fo)
                  (unat (n_rows fm - 1), unat (match_state_last_block (n_cols fm)))"
    using Forward_global_score by blast
next
  assume "profile_hmm_fill_generic_global Viterbi_ops sequence data e_start (Viterbi_new fm bm)
       = Inr (score_v, vo) \<and>
    is_finite (cells (vit_p_fm vo)
                 (unat (n_rows fm - 1), unat (match_state_last_block (n_cols fm))))"
  then show "score_v = cells (vit_p_fm vo)
                  (unat (n_rows fm - 1), unat (match_state_last_block (n_cols fm)))"
    using Viterbi_global_score by blast
qed

section \<open>When the engine returns\<close>

text \<open>
  Every access of the sweep is inside the lattice when the number of columns is at least six
  and the writer keeps its shape; the local variant needs three rows and a window that ends
  at the declared final event in addition, for its flank vectors.
\<close>

lemma unat_lt_2p32: "unat (w :: 32 word) < 4294967296"
  using unsigned_less [of w, where 'a = nat] by simp

lemma unat_of_nat32: "n < 4294967296 \<Longrightarrow> unat (word_of_nat n :: 32 word) = n"
  by (simp add: unat_of_nat)

lemma unat_col:
  assumes "3 * unat (b :: 32 word) + j < unat (nc :: 32 word)"
  shows "unat (3 * b + word_of_nat j) = 3 * unat b + j"
proof -
  have lt: "3 * unat b + j < 4294967296"
    using assms unat_lt_2p32 [of nc] by linarith
  have "3 * b + word_of_nat j = (word_of_nat (3 * unat b + j) :: 32 word)"
    by simp
  then show ?thesis
    using unat_of_nat32 [OF lt] by simp
qed

lemma unat_pred: "1 \<le> unat (b :: 32 word) \<Longrightarrow> unat (b - 1) = unat b - 1"
  by (rule unat_minus_one) auto

lemma in_uint32_range:
  assumes "x \<in> set (uint32_range lo hi)"
  shows "unat lo \<le> unat x \<and> unat x < unat hi"
proof -
  from assms obtain i where i: "x = word_of_nat i" "unat lo \<le> i" "i < unat hi"
    by (auto simp: uint32_range_def)
  have "i < 4294967296" using i(3) unat_lt_2p32 [of hi] by linarith
  then show ?thesis using i unat_of_nat32 by simp
qed

lemma col_lt:
  assumes "3 * unat b + 2 < unat nc"
  shows "PS_NUM_STATES * b + ps PS_MATCH < nc"
    and "PS_NUM_STATES * b + ps PS_EVENT_SPLIT < nc"
    and "PS_NUM_STATES * b + ps PS_KMER_SKIP < nc"
proof -
  have "3 * unat b + 0 < unat nc" "3 * unat b + 1 < unat nc" "3 * unat b + 2 < unat nc"
    using assms by simp_all
  from this [THEN unat_col] assms
  show "PS_NUM_STATES * b + ps PS_MATCH < nc"
    and "PS_NUM_STATES * b + ps PS_EVENT_SPLIT < nc"
    and "PS_NUM_STATES * b + ps PS_KMER_SKIP < nc"
    by (simp_all add: PS_NUM_STATES_def word_less_nat_alt)
qed

lemma update_states_total:
  assumes get_ok: "\<And>s row col. I s \<Longrightarrow> row < nr \<Longrightarrow> col < nc \<Longrightarrow> \<exists>g. get A row col s = Inr g"
    and upd_ok: "\<And>s row col m e k x em. I s \<Longrightarrow> row < nr \<Longrightarrow> col < nc \<Longrightarrow>
                   \<exists>s'. update_4 A row col m e k x em s = Inr s' \<and> I s'"
    and I: "I s"
    and row: "1 \<le> unat row" "row < nr"
    and block: "1 \<le> unat block" "3 * unat block + 2 < unat nc"
    and tr: "unat block - 1 < length transitions"
    and kr: "unat block - 1 < length kmer_ranks"
  shows "\<exists>s'. update_states A sequence data e_start transitions kmer_ranks row block s = Inr s'
              \<and> I s'"
proof -
  let ?prev = "PS_NUM_STATES * (block - 1)" and ?curr = "PS_NUM_STATES * block"
  let ?bt = "transitions ! (unat block - 1)" and ?rank = "kmer_ranks ! (unat block - 1)"
  let ?ev = "event_index data e_start (row - 1)"
  have b1: "unat (block - 1) = unat block - 1"
    by (rule unat_pred [OF block(1)])
  have r1: "row - 1 < nr"
    using row unat_pred [OF row(1)] by (simp add: word_less_nat_alt)
  have "3 * unat (block - 1) + 2 < unat nc"
    using block b1 by simp
  note prev = col_lt [OF this]
  note curr = col_lt [OF block(2)]
  obtain g1 where g1: "get A (row - 1) (?prev + ps PS_MATCH) s = Inr g1"
    using get_ok [OF I r1 prev(1)] by blast
  obtain g2 where g2: "get A (row - 1) (?prev + ps PS_EVENT_SPLIT) s = Inr g2"
    using get_ok [OF I r1 prev(2)] by blast
  obtain g3 where g3: "get A (row - 1) (?prev + ps PS_KMER_SKIP) s = Inr g3"
    using get_ok [OF I r1 prev(3)] by blast
  obtain s1 where s1: "update_4 A row (?curr + ps PS_MATCH) (fadd (lp_mm ?bt) g1)
      (fadd (lp_em ?bt) g2) (fadd (lp_km ?bt) g3) NegInf
      (log_probability_match data ?rank ?ev) s = Inr s1" and I1: "I s1"
    using upd_ok [OF I row(2) curr(1)] by blast
  obtain g4 where g4: "get A (row - 1) (?curr + ps PS_MATCH) s1 = Inr g4"
    using get_ok [OF I1 r1 curr(1)] by blast
  obtain g5 where g5: "get A (row - 1) (?curr + ps PS_EVENT_SPLIT) s1 = Inr g5"
    using get_ok [OF I1 r1 curr(2)] by blast
  obtain s2 where s2: "update_4 A row (?curr + ps PS_EVENT_SPLIT) (fadd (lp_me ?bt) g4)
      (fadd (lp_ee ?bt) g5) NegInf NegInf
      (log_probability_event_insert data ?rank ?ev) s1 = Inr s2" and I2: "I s2"
    using upd_ok [OF I1 row(2) curr(2)] by blast
  obtain g6 where g6: "get A row (?prev + ps PS_MATCH) s2 = Inr g6"
    using get_ok [OF I2 row(2) prev(1)] by blast
  obtain g7 where g7: "get A row (?prev + ps PS_KMER_SKIP) s2 = Inr g7"
    using get_ok [OF I2 row(2) prev(3)] by blast
  obtain s3 where s3: "update_4 A row (?curr + ps PS_KMER_SKIP) (fadd (lp_mk ?bt) g6) NegInf
      (fadd (lp_kk ?bt) g7) NegInf (Fin 0) s2 = Inr s3" and I3: "I s3"
    using upd_ok [OF I2 row(2) curr(3)] by blast
  have "update_states A sequence data e_start transitions kmer_ranks row block s = Inr s3"
    unfolding update_states_def Let_def b1
    by (simp only: vget_ok [OF tr] vget_ok [OF kr] bindE_simps g1 g2 g3 s1 g4 g5 s2 g6 g7 s3)
  then show ?thesis using I3 by blast
qed

lemma update_end_states_total:
  assumes get_ok: "\<And>s row col. I s \<Longrightarrow> row < nr \<Longrightarrow> col < nc \<Longrightarrow> \<exists>g. get A row col s = Inr g"
    and upe_ok: "\<And>s v row col. I s \<Longrightarrow> I (update_end A v row col s)"
    and I: "I s"
    and row: "1 \<le> unat row" "row < nr"
    and block: "3 * unat block + 2 < unat nc"
    and pf: "unat row - 1 < length post_flank"
  shows "\<exists>s'. update_end_states A post_flank lp_ms row block s = Inr s' \<and> I s'"
proof -
  let ?curr = "PS_NUM_STATES * block"
  have r1: "unat (row - 1) = unat row - 1"
    by (rule unat_pred [OF row(1)])
  note curr = col_lt [OF block]
  obtain g1 where g1: "get A row (?curr + ps PS_MATCH) s = Inr g1"
    using get_ok [OF I row(2) curr(1)] by blast
  obtain g2 where g2: "get A row (?curr + ps PS_EVENT_SPLIT) s = Inr g2"
    using get_ok [OF I row(2) curr(2)] by blast
  obtain g3 where g3: "get A row (?curr + ps PS_KMER_SKIP) s = Inr g3"
    using get_ok [OF I row(2) curr(3)] by blast
  show ?thesis
    unfolding update_end_states_def Let_def r1
    by (simp only: vget_ok [OF pf] bindE_simps g1 g2 g3 sum.inject simp_thms ex_simps
        upe_ok [OF upe_ok [OF upe_ok [OF I]]])
qed

lemma foldE_total:
  assumes "I s" and "\<And>x s. x \<in> set xs \<Longrightarrow> I s \<Longrightarrow> \<exists>s'. f x s = Inr s' \<and> I s'"
  shows "\<exists>s'. foldE f xs s = Inr s' \<and> I s'"
  using assms
proof (induction xs arbitrary: s)
  case Nil
  then show ?case by simp
next
  case (Cons x xs)
  from Cons.prems(2) [of x s] Cons.prems(1) obtain s1 where s1: "f x s = Inr s1" "I s1"
    by auto
  have "\<exists>s'. foldE f xs s1 = Inr s' \<and> I s'"
  proof (rule Cons.IH [OF s1(2)])
    fix y s
    assume "y \<in> set xs" "I s"
    then show "\<exists>s'. f y s = Inr s' \<and> I s'"
      using Cons.prems(2) [of y s] by simp
  qed
  then show ?case using s1(1) by simp
qed

lemma total_onD:
  assumes "total_on I nr nc A"
  shows "\<And>s. I s \<Longrightarrow> get_num_rows A s = nr"
    and "\<And>s. I s \<Longrightarrow> get_num_columns A s = nc"
    and "\<And>s row col. I s \<Longrightarrow> row < nr \<Longrightarrow> col < nc \<Longrightarrow> \<exists>g. get A row col s = Inr g"
    and "\<And>s row col m e k x em. I s \<Longrightarrow> row < nr \<Longrightarrow> col < nc \<Longrightarrow>
           \<exists>s'. update_4 A row col m e k x em s = Inr s' \<and> I s'"
    and "\<And>s v row col. I s \<Longrightarrow> I (update_end A v row col s)"
  using assms unfolding total_on_def by blast+

lemma block_in_range:
  assumes b: "block \<in> set (uint32_range 1 (nb - 1))"
    and nb: "2 \<le> unat nb" "3 * unat nb \<le> unat nc"
  shows "1 \<le> unat block" and "3 * unat block + 2 < unat nc" and "unat block - 1 < unat nb - 2"
proof -
  have "unat (nb - 1) = unat nb - 1"
    using nb(1) by (intro unat_pred) simp
  with in_uint32_range [OF b] have r: "1 \<le> unat block" "unat block < unat nb - 1"
    by simp_all
  show "1 \<le> unat block" by (rule r(1))
  show "3 * unat block + 2 < unat nc" using r nb by linarith
  show "unat block - 1 < unat nb - 2" using r nb by linarith
qed

lemma row_in_range:
  assumes "row \<in> set (uint32_range 1 nr)"
  shows "1 \<le> unat row" and "row < nr" and "unat row - 1 < unat nr - 1"
  using in_uint32_range [OF assms] by (simp_all add: word_less_nat_alt) linarith

lemma local_cell_total:
  assumes T: "total_on I nr nc A" and I: "I s"
    and row: "row \<in> set (uint32_range 1 nr)"
    and block: "block \<in> set (uint32_range 1 (nb - 1))"
    and nb: "2 \<le> unat nb" "3 * unat nb \<le> unat nc"
    and tr: "length transitions = unat nb - 2" and kr: "length kmer_ranks = unat nb - 2"
    and pf: "length post_flank = unat nr - 1"
  shows "\<exists>s'. local_cell A sequence data e_start transitions kmer_ranks post_flank lp_ms
                 last_kmer_idx row block s = Inr s' \<and> I s'"
proof -
  note r = row_in_range [OF row]
  note b = block_in_range [OF block nb]
  have tr': "unat block - 1 < length transitions" and kr': "unat block - 1 < length kmer_ranks"
    using b(3) tr kr by simp_all
  obtain s1 where s1: "update_states A sequence data e_start transitions kmer_ranks row block s
      = Inr s1" "I s1"
    using update_states_total [where I = I and nr = nr and nc = nc and A = A,
        OF total_onD(3) [OF T] total_onD(4) [OF T] I r(1,2) b(1,2) tr' kr']
    by blast
  have pf': "unat row - 1 < length post_flank"
    using r(3) pf by simp
  obtain s2 where s2: "update_end_states A post_flank lp_ms row block s1 = Inr s2" "I s2"
    using update_end_states_total [where I = I and nr = nr and nc = nc and A = A,
        OF total_onD(3) [OF T] total_onD(5) [OF T] s1(2) r(1,2) b(2) pf']
    by blast
  show ?thesis
    using s1 s2 by (simp add: local_cell_def)
qed

lemma local_sweep_total:
  assumes T: "total_on I nr nc A" and I: "I s"
    and nb: "2 \<le> unat nb" "3 * unat nb \<le> unat nc"
    and tr: "length transitions = unat nb - 2" and kr: "length kmer_ranks = unat nb - 2"
    and pf: "length post_flank = unat nr - 1"
  shows "\<exists>s'. local_sweep A sequence data e_start transitions kmer_ranks post_flank lp_ms
                 last_kmer_idx nb s = Inr s' \<and> I s'"
  unfolding local_sweep_def total_onD(1) [OF T I]
proof (rule foldE_total [where I = I, OF I])
  fix row s
  assume row: "row \<in> set (uint32_range 1 nr)" and s: "I s"
  show "\<exists>s'. foldE (local_cell A sequence data e_start transitions kmer_ranks post_flank lp_ms
                      last_kmer_idx row) (uint32_range 1 (nb - 1)) s = Inr s' \<and> I s'"
  proof (rule foldE_total [where I = I, OF s])
    fix block s
    assume "block \<in> set (uint32_range 1 (nb - 1))" and "I s"
    then show "\<exists>s'. local_cell A sequence data e_start transitions kmer_ranks post_flank lp_ms
                 last_kmer_idx row block s = Inr s' \<and> I s'"
      by (intro local_cell_total [OF T _ row _ nb tr kr pf])
  qed
qed

lemma global_sweep_total:
  assumes T: "total_on I nr nc A" and I: "I s"
    and nb: "2 \<le> unat nb" "3 * unat nb \<le> unat nc"
    and tr: "length transitions = unat nb - 2" and kr: "length kmer_ranks = unat nb - 2"
  shows "\<exists>s'. global_sweep A sequence data e_start transitions kmer_ranks nb s = Inr s' \<and> I s'"
  unfolding global_sweep_def total_onD(1) [OF T I]
proof (rule foldE_total [where I = I, OF I])
  fix row s
  assume row: "row \<in> set (uint32_range 1 nr)" and s: "I s"
  note r = row_in_range [OF row]
  show "\<exists>s'. foldE (update_states A sequence data e_start transitions kmer_ranks row)
                (uint32_range 1 (nb - 1)) s = Inr s' \<and> I s'"
  proof (rule foldE_total [where I = I, OF s])
    fix block s
    assume block: "block \<in> set (uint32_range 1 (nb - 1))" and s: "I s"
    note b = block_in_range [OF block nb]
    have tr': "unat block - 1 < length transitions" and kr': "unat block - 1 < length kmer_ranks"
      using b(3) tr kr by simp_all
    show "\<exists>s'. update_states A sequence data e_start transitions kmer_ranks row block s = Inr s'
            \<and> I s'"
      by (rule update_states_total [where I = I and nr = nr and nc = nc and A = A,
        OF total_onD(3) [OF T] total_onD(4) [OF T] s r(1,2) b(1,2) tr' kr'])
  qed
qed

lemma unat_div3: "unat ((nc :: 32 word) div PS_NUM_STATES) = unat nc div 3"
  by (simp add: unat_div PS_NUM_STATES_def)

lemma num_blocks_bounds:
  assumes "6 \<le> unat (nc :: 32 word)"
  shows "2 \<le> unat (nc div PS_NUM_STATES)"
    and "3 * unat (nc div PS_NUM_STATES) \<le> unat nc"
    and "unat (nc div PS_NUM_STATES - 2) = unat (nc div PS_NUM_STATES) - 2"
proof -
  show 2: "2 \<le> unat (nc div PS_NUM_STATES)"
    using assms unfolding unat_div3 by linarith
  show "3 * unat (nc div PS_NUM_STATES) \<le> unat nc"
    unfolding unat_div3 by simp
  show "unat (nc div PS_NUM_STATES - 2) = unat (nc div PS_NUM_STATES) - 2"
    using unat_sub_nat [of 2 "nc div PS_NUM_STATES"] 2 by simp
qed

lemma local_fill_total:
  assumes T: "total_on I nr nc A" and I: "I s"
    and nc: "6 \<le> unat nc" and nr: "3 \<le> unat nr"
    and stop: "event_index data e_start (nr - 1 - 1) = event_stop_idx data"
  shows "\<exists>score s'. profile_hmm_fill_generic_local A sequence data e_start s = Inr (score, s')
            \<and> I s' \<and> score = get_end A s'"
proof -
  note nb = num_blocks_bounds [OF nc]
  have ev: "unat (nr - 1) = unat nr - 1"
    using nr by (intro unat_pred) simp
  have "2 \<le> unat (nr - 1 + 1)" using nr by simp
  from make_pre_flanking_total [OF this]
  obtain pre where pre: "make_pre_flanking data (parameters data) e_start (nr - 1) = Inr pre"
    by blast
  have "2 \<le> unat (nr - 1)" using nr ev by simp
  from make_post_flanking_total [OF this stop]
  obtain post where post: "make_post_flanking data (parameters data) e_start (nr - 1) = Inr post"
    "length post = unat nr - 1"
    using ev by auto
  obtain s' where s': "local_sweep A sequence data e_start
      (calculate_transitions (nc div PS_NUM_STATES - 2) sequence data)
      (map (get_rank data sequence) (uint32_range 0 (nc div PS_NUM_STATES - 2)))
      post (flog (fdiv (Fin 1) (float_of_uint32 (nc div PS_NUM_STATES - 2))))
      (nc div PS_NUM_STATES - 2 - 1) (nc div PS_NUM_STATES) s = Inr s'" "I s'"
    using local_sweep_total [OF T I nb(1,2) _ _ post(2)] nb(3) by force
  show ?thesis
    unfolding profile_hmm_fill_generic_local_def Let_def total_onD(1) [OF T I]
      total_onD(2) [OF T I]
    using pre post(1) s' by simp
qed

lemma global_fill_total:
  assumes T: "total_on I nr nc A" and I: "I s"
    and nc: "6 \<le> unat nc" and nr: "1 \<le> unat nr"
  shows "\<exists>score s'. profile_hmm_fill_generic_global A sequence data e_start s = Inr (score, s')
            \<and> I s' \<and> score = get_end A s'"
proof -
  note nb = num_blocks_bounds [OF nc]
  obtain s1 where s1: "global_sweep A sequence data e_start
      (calculate_transitions (nc div PS_NUM_STATES - 2) sequence data)
      (map (get_rank data sequence) (uint32_range 0 (nc div PS_NUM_STATES - 2)))
      (nc div PS_NUM_STATES) s = Inr s1" "I s1"
    using global_sweep_total [OF T I nb(1,2)] nb(3) by force
  have row: "nr - 1 < nr"
    using nr unat_pred [OF nr] by (simp add: word_less_nat_alt)
  have "3 * unat (nc div PS_NUM_STATES - 2) + 2 < unat nc"
    using nb by linarith
  from col_lt(1) [OF this]
  obtain g where g: "get A (nr - 1) (PS_NUM_STATES * (nc div PS_NUM_STATES - 2) + ps PS_MATCH) s1
      = Inr g"
    using total_onD(3) [OF T s1(2) row] by blast
  show ?thesis
    unfolding profile_hmm_fill_generic_global_def Let_def total_onD(2) [OF T I]
    using s1 g total_onD(1) [OF T s1(2)] total_onD(5) [OF T s1(2)] by simp
qed

lemma Forward_total_on:
  "total_on (\<lambda>fo. n_rows (fwd_p_fm fo) = nr \<and> n_cols (fwd_p_fm fo) = nc) nr nc Forward_ops"
  unfolding total_on_def
  by (auto simp: Forward_get_def mget_def Forward_update_4_def mset_def Let_def
      Forward_update_end_def)

lemma Viterbi_total_on:
  "total_on (\<lambda>vo. n_rows (vit_p_fm vo) = nr \<and> n_cols (vit_p_fm vo) = nc \<and>
                  n_rows (vit_p_bm vo) = nr \<and> n_cols (vit_p_bm vo) = nc) nr nc Viterbi_ops"
  unfolding total_on_def
  by (auto simp: Viterbi_get_def mget_def Viterbi_update_4_def mset_def Let_def
      Viterbi_update_end_def)

lemma traced_total_on:
  assumes "total_on I nr nc A"
  shows "total_on (\<lambda>(s, cs). I s) nr nc (traced A)"
proof -
  have 1: "\<forall>x. (case x of (s, cs) \<Rightarrow> I s) \<longrightarrow>
      get_num_rows (traced A) x = nr \<and> get_num_columns (traced A) x = nc"
    by (auto simp: total_onD(1,2) [OF assms])
  have 2: "\<forall>x row col. (case x of (s, cs) \<Rightarrow> I s) \<longrightarrow> row < nr \<longrightarrow> col < nc \<longrightarrow>
      (\<exists>g. get (traced A) row col x = Inr g)"
    by (auto simp: total_onD(3) [OF assms])
  have 3: "\<forall>x row col m e k y em. (case x of (s, cs) \<Rightarrow> I s) \<longrightarrow> row < nr \<longrightarrow> col < nc \<longrightarrow>
      (\<exists>s'. update_4 (traced A) row col m e k y em x = Inr s' \<and> (case s' of (s, cs) \<Rightarrow> I s))"
  proof clarify
    fix s cs row col m e k y em
    assume "I s" "row < nr" "col < nc"
    from total_onD(4) [OF assms this, of m e k y em]
    obtain s' where "update_4 A row col m e k y em s = Inr s'" "I s'"
      by blast
    then show "\<exists>s'. update_4 (traced A) row col m e k y em (s, cs) = Inr s' \<and>
        (case s' of (s, cs) \<Rightarrow> I s)"
      by simp
  qed
  have 4: "\<forall>x v row col. (case x of (s, cs) \<Rightarrow> I s) \<longrightarrow>
      (case update_end (traced A) v row col x of (s, cs) \<Rightarrow> I s)"
    by (auto simp: total_onD(5) [OF assms])
  show ?thesis
    unfolding total_on_def using 1 2 3 4 by blast
qed

section \<open>Runs of the small bundle\<close>


lemma example_logdom:
  "\<forall>rank idx. logdom (log_probability_match example_data rank idx) \<and>
              logdom (log_probability_event_insert example_data rank idx)"
  "\<forall>idx. logdom (log_probability_background example_data idx)"
  by (simp_all add: example_data_def)

lemma example_transitions_logdom:
  "\<forall>bt\<in>set (calculate_transitions n sequence example_data). all_transitions logdom bt"
proof (rule calculate_transitions_logdom [where t = "1 / 10"])
  show "\<forall>a b. \<exists>s. get_skip_probability example_data a b = Fin s \<and> 0 \<le> s \<and> s \<le> 1 / 2"
    by (intro allI exI [of _ "1 / 4"]) (simp add: example_data_def)
qed (simp_all add: example_data_def example_parameters_def is_prob_def)

lemma example_lattice_logdom: "\<forall>rc. logdom (cells example_lattice rc)"
  by (simp add: example_lattice_def split: prod.splits)

lemma example_stop4: "event_index example_data 0 (4 - 1 - 1) = event_stop_idx example_data"
  by (simp add: event_index_def example_data_def)

lemma unat_example_shape: "6 \<le> unat (9 :: 32 word)" "3 \<le> unat (4 :: 32 word)"
  "1 \<le> unat (2 :: 32 word)"
  by simp_all


lemma Viterbi_example_local:
  "\<exists>score vo. profile_hmm_fill_generic_local Viterbi_ops sequence example_data 0
      (Viterbi_new example_lattice example_backtrace) = Inr (score, vo)"
  using local_fill_total [OF Viterbi_total_on _ unat_example_shape(1,2) example_stop4,
      of "Viterbi_new example_lattice example_backtrace" sequence]
  by (auto simp: Viterbi_new_def example_lattice_def example_backtrace_def)

lemma traced_example_local:
  "\<exists>score fo calls. profile_hmm_fill_generic_local (traced Forward_ops) sequence example_data 0
      (Forward_new example_lattice, []) = Inr (score, fo, calls)"
  using local_fill_total [OF traced_total_on [OF Forward_total_on] _ unat_example_shape(1,2)
      example_stop4, of "(Forward_new example_lattice, [])" sequence]
  by (auto simp: Forward_new_def example_lattice_def)

theorem local_entry_disabled_witness:
  "\<exists>score fo calls.
     profile_hmm_fill_generic_local (traced Forward_ops) [] example_data 0
       (Forward_new example_lattice, []) = Inr (score, fo, calls) \<and>
     list_all (\<lambda>c. fourth_input c = None \<or> fourth_input c = Some NegInf) calls \<and>
     profile_hmm_fill_generic_local Forward_ops [] example_data 0 (Forward_new example_lattice)
       = Inr (score, fo)"
proof -
  obtain score fo calls where run:
    "profile_hmm_fill_generic_local (traced Forward_ops) [] example_data 0
       (Forward_new example_lattice, []) = Inr (score, fo, calls)"
    using traced_example_local by blast
  from local_entry_disabled [THEN conjunct1, rule_format, OF run]
  show ?thesis
    using run by (auto simp: list_all_iff)
qed


theorem backtrace_values_without_nan_witness:
  "(\<exists>score vo.
      profile_hmm_fill_generic_local Viterbi_ops [] example_data 0
        (Viterbi_new example_lattice example_backtrace) = Inr (score, vo) \<and>
      (\<forall>rc. cells (vit_p_bm vo) rc = None \<or> cells (vit_p_bm vo) rc = Some PS_MATCH \<or>
            cells (vit_p_bm vo) rc = Some PS_EVENT_SPLIT \<or>
            cells (vit_p_bm vo) rc = Some PS_KMER_SKIP)) \<and>
   Viterbi_from (Fin 0) NegInf (Fin 0) NegInf = Some PS_MATCH"
proof -
  obtain score vo where run:
    "profile_hmm_fill_generic_local Viterbi_ops [] example_data 0
        (Viterbi_new example_lattice example_backtrace) = Inr (score, vo)"
    using Viterbi_example_local by blast
  have lat: "\<forall>rc. logdom (cells (vit_p_fm (Viterbi_new example_lattice example_backtrace)) rc)"
    using example_lattice_logdom by (simp add: Viterbi_new_def)
  note inst = backtrace_values_without_nan [where sequence = "[]" and data = example_data
      and e_start = 0 and vo = "Viterbi_new example_lattice example_backtrace"
      and score = score and vo' = vo and m = "Fin 0" and e = NegInf and k = "Fin 0"]
  have "\<forall>rc. cells (vit_p_bm vo) rc =
            cells (vit_p_bm (Viterbi_new example_lattice example_backtrace)) rc \<or>
          cells (vit_p_bm vo) rc \<in> {Some PS_MATCH, Some PS_EVENT_SPLIT, Some PS_KMER_SKIP}"
    using inst [THEN conjunct1] example_transitions_logdom example_logdom(1)
      lat run
    by blast
  then have "\<forall>rc. cells (vit_p_bm vo) rc = None \<or> cells (vit_p_bm vo) rc = Some PS_MATCH \<or>
            cells (vit_p_bm vo) rc = Some PS_EVENT_SPLIT \<or>
            cells (vit_p_bm vo) rc = Some PS_KMER_SKIP"
    by (simp add: Viterbi_new_def example_backtrace_def split: prod.splits)
  moreover have "Viterbi_from (Fin 0) NegInf (Fin 0) NegInf = Some PS_MATCH"
    by (simp add: Viterbi_from_def Viterbi_max_def fmax_def feq_def)
  ultimately show ?thesis
    using run by blast
qed

lemma range12: "uint32_range 1 2 = [1]"
  by (simp add: uint32_range_def upt_rec)

lemma range01: "uint32_range 0 1 = [0]"
  by (simp add: uint32_range_def upt_rec)

lemma short_shape: "(9 :: 32 word) div PS_NUM_STATES = 3" "match_state_last_block 9 = 3"
  by (simp_all add: PS_NUM_STATES_def match_state_last_block_def)

lemma short_sweep_Forward:
  "global_sweep Forward_ops sequence example_data 0 (calculate_transitions 1 sequence example_data)
     (map (get_rank example_data sequence) (uint32_range 0 1)) 3 (Forward_new short_lattice)
     = Inr swept
   \<Longrightarrow> is_finite (cells (fwd_p_fm swept) (1, 3)) \<and> n_rows (fwd_p_fm swept) = 2"
  by (auto simp: global_sweep_def Forward_new_def short_lattice_def range12 range01
      update_states_def Let_def calculate_transitions_def vget_def PS_NUM_STATES_def
      Forward_get_def mget_def Forward_update_4_def mset_def log_transform_def
      block_probabilities_def block_p_skip_def example_data_def example_parameters_def
      fsub_def is_finite_def round32_steps)

lemma short_sweep_Viterbi:
  "global_sweep Viterbi_ops sequence example_data 0 (calculate_transitions 1 sequence example_data)
     (map (get_rank example_data sequence) (uint32_range 0 1)) 3
     (Viterbi_new short_lattice short_backtrace) = Inr swept
   \<Longrightarrow> is_finite (cells (vit_p_fm swept) (1, 3))"
  by (auto simp: global_sweep_def Viterbi_new_def short_lattice_def short_backtrace_def
      range12 range01 update_states_def Let_def calculate_transitions_def vget_def
      PS_NUM_STATES_def Viterbi_get_def mget_def Viterbi_update_4_def mset_def
      Viterbi_max_def fmax_def log_transform_def
      block_probabilities_def block_p_skip_def example_data_def example_parameters_def
      fsub_def is_finite_def round32_steps)

lemma Forward_short_global:
  "\<exists>score fo. profile_hmm_fill_generic_global Forward_ops sequence example_data 0
      (Forward_new short_lattice) = Inr (score, fo) \<and>
      is_finite (cells (fwd_p_fm fo) (1, 3))"
proof -
  obtain score fo where run: "profile_hmm_fill_generic_global Forward_ops sequence example_data 0
      (Forward_new short_lattice) = Inr (score, fo)"
    using global_fill_total [OF Forward_total_on _ unat_example_shape(1,3),
      of "Forward_new short_lattice" sequence example_data 0]
    by (auto simp: Forward_new_def short_lattice_def)
  then obtain swept g where
    sw: "global_sweep Forward_ops sequence example_data 0
           (calculate_transitions 1 sequence example_data)
           (map (get_rank example_data sequence) (uint32_range 0 1)) 3 (Forward_new short_lattice)
           = Inr swept"
    and fo: "fo = Forward_update_end g (n_rows (fwd_p_fm swept) - 1) 3 swept"
    by (auto simp: global_fill_Inr Forward_new_def short_lattice_def short_shape)
  have "fwd_p_fm fo = fwd_p_fm swept"
    by (simp add: fo Forward_update_end_def)
  then show ?thesis
    using run short_sweep_Forward [OF sw] by auto
qed

lemma Viterbi_short_global:
  "\<exists>score vo. profile_hmm_fill_generic_global Viterbi_ops sequence example_data 0
      (Viterbi_new short_lattice short_backtrace) = Inr (score, vo) \<and>
      is_finite (cells (vit_p_fm vo) (1, 3))"
proof -
  obtain score vo where run: "profile_hmm_fill_generic_global Viterbi_ops sequence example_data 0
      (Viterbi_new short_lattice short_backtrace) = Inr (score, vo)"
    using global_fill_total [OF Viterbi_total_on _ unat_example_shape(1,3),
      of "Viterbi_new short_lattice short_backtrace" sequence example_data 0]
    by (auto simp: Viterbi_new_def short_lattice_def short_backtrace_def)
  then obtain swept g where
    sw: "global_sweep Viterbi_ops sequence example_data 0
           (calculate_transitions 1 sequence example_data)
           (map (get_rank example_data sequence) (uint32_range 0 1)) 3
           (Viterbi_new short_lattice short_backtrace) = Inr swept"
    and vo: "vo = Viterbi_update_end g (n_rows (vit_p_fm swept) - 1) 3 swept"
    by (auto simp: global_fill_Inr Viterbi_new_def short_lattice_def short_shape)
  have "vit_p_fm vo = vit_p_fm swept"
    by (simp add: vo)
  then show ?thesis
    using run short_sweep_Viterbi [OF sw] by auto
qed

lemma traced_short_global:
  "\<exists>score fo calls. profile_hmm_fill_generic_global (traced Forward_ops) sequence example_data 0
      (Forward_new short_lattice, []) = Inr (score, fo, calls)"
  using global_fill_total [OF traced_total_on [OF Forward_total_on] _ unat_example_shape(1,3),
      of "(Forward_new short_lattice, [])" sequence example_data 0]
  by (auto simp: Forward_new_def short_lattice_def)

theorem global_fill_end_update_witness:
  "(\<exists>score fo calls g.
      profile_hmm_fill_generic_global (traced Forward_ops) [] example_data 0
        (Forward_new short_lattice, []) = Inr (score, fo, calls) \<and>
      filter is_update_end calls = [UpdateEnd g 1 3] \<and> last calls = UpdateEnd g 1 3 \<and>
      score = fwd_lp_end fo \<and>
      profile_hmm_fill_generic_global Forward_ops [] example_data 0 (Forward_new short_lattice)
        = Inr (score, fo)) \<and>
   (\<exists>score fo.
      profile_hmm_fill_generic_global Forward_ops [] example_data 0 (Forward_new short_lattice)
        = Inr (score, fo) \<and>
      is_finite score \<and> score = cells (fwd_p_fm fo) (1, 3)) \<and>
   (\<exists>score vo.
      profile_hmm_fill_generic_global Viterbi_ops [] example_data 0
        (Viterbi_new short_lattice short_backtrace) = Inr (score, vo) \<and>
      is_finite score \<and> score = cells (vit_p_fm vo) (1, 3))"
proof (intro conjI)
  obtain score fo calls where run:
    "profile_hmm_fill_generic_global (traced Forward_ops) [] example_data 0
        (Forward_new short_lattice, []) = Inr (score, fo, calls)"
    using traced_short_global by blast
  from global_fill_end_update [THEN conjunct1, rule_format, OF run]
  obtain swept g where
    sw: "global_sweep Forward_ops [] example_data 0 (calculate_transitions 1 [] example_data)
           (map (get_rank example_data []) (uint32_range 0 1)) 3 (Forward_new short_lattice)
           = Inr swept"
    and calls: "filter is_update_end calls = [UpdateEnd g (n_rows (fwd_p_fm swept) - 1) 3]"
      "last calls = UpdateEnd g (n_rows (fwd_p_fm swept) - 1) 3"
    and rest: "score = fwd_lp_end fo"
      "profile_hmm_fill_generic_global Forward_ops [] example_data 0 (Forward_new short_lattice)
        = Inr (score, fo)"
    by (auto simp: Forward_new_def short_lattice_def short_shape)
  have "n_rows (fwd_p_fm swept) - 1 = 1"
    using short_sweep_Forward [OF sw] by simp
  then show "\<exists>score fo calls g.
      profile_hmm_fill_generic_global (traced Forward_ops) [] example_data 0
        (Forward_new short_lattice, []) = Inr (score, fo, calls) \<and>
      filter is_update_end calls = [UpdateEnd g 1 3] \<and> last calls = UpdateEnd g 1 3 \<and>
      score = fwd_lp_end fo \<and>
      profile_hmm_fill_generic_global Forward_ops [] example_data 0 (Forward_new short_lattice)
        = Inr (score, fo)"
    using run calls rest by auto
next
  obtain score fo where run:
    "profile_hmm_fill_generic_global Forward_ops [] example_data 0 (Forward_new short_lattice)
       = Inr (score, fo)" and fin: "is_finite (cells (fwd_p_fm fo) (1, 3))"
    using Forward_short_global by blast
  have cell: "(unat (n_rows short_lattice - 1), unat (match_state_last_block (n_cols short_lattice)))
      = (1, 3)"
    by (simp add: short_lattice_def short_shape)
  from global_fill_end_update [THEN conjunct2, THEN conjunct1, rule_format,
      of "[]" example_data 0 short_lattice score fo] run fin
  have "score = cells (fwd_p_fm fo) (1, 3)"
    unfolding cell by blast
  then show "\<exists>score fo.
      profile_hmm_fill_generic_global Forward_ops [] example_data 0 (Forward_new short_lattice)
        = Inr (score, fo) \<and>
      is_finite score \<and> score = cells (fwd_p_fm fo) (1, 3)"
    using run fin by auto
next
  obtain score vo where run:
    "profile_hmm_fill_generic_global Viterbi_ops [] example_data 0
       (Viterbi_new short_lattice short_backtrace) = Inr (score, vo)"
    and fin: "is_finite (cells (vit_p_fm vo) (1, 3))"
    using Viterbi_short_global by blast
  have cell: "(unat (n_rows short_lattice - 1), unat (match_state_last_block (n_cols short_lattice)))
      = (1, 3)"
    by (simp add: short_lattice_def short_shape)
  from global_fill_end_update [THEN conjunct2, THEN conjunct2, rule_format,
      of "[]" example_data 0 short_lattice short_backtrace score vo] run fin
  have "score = cells (vit_p_fm vo) (1, 3)"
    unfolding cell by blast
  then show "\<exists>score vo.
      profile_hmm_fill_generic_global Viterbi_ops [] example_data 0
        (Viterbi_new short_lattice short_backtrace) = Inr (score, vo) \<and>
      is_finite score \<and> score = cells (vit_p_fm vo) (1, 3)"
    using run fin by auto
qed

section \<open>A lattice without a path\<close>








section \<open>A run that meets a NaN\<close>

lemma range13: "uint32_range 1 3 = [1, 2]"
  by (simp add: uint32_range_def upt_rec)

lemma range02: "uint32_range 0 2 = [0, 1]"
  by (simp add: uint32_range_def upt_rec)

lemma edge_blocks:
  "block_probabilities edge_parameters (Fin 0) =
     \<lparr>p_mm = Fin 0, p_me = Fin 1, p_mk = Fin 0, p_ee = Fin (3 / 10),
      p_em = Fin (11744051 / 16777216), p_kk = Fin 0, p_km = Fin 1\<rparr>"
  "block_probabilities edge_parameters (Fin (13421773 / 67108864)) =
     \<lparr>p_mm = Fin (- (1 / 67108864)), p_me = Fin (13421773 / 16777216),
      p_mk = Fin (13421773 / 67108864), p_ee = Fin (3 / 10),
      p_em = Fin (11744051 / 16777216), p_kk = Fin (13421773 / 67108864),
      p_km = Fin (13421773 / 16777216)\<rparr>"
  by (simp_all add: block_probabilities_def Let_def fsub_def edge_parameters_def
      example_parameters_def round32_steps)

lemma edge_transitions:
  "calculate_transitions 2 sequence edge_data =
     [log_transform (block_probabilities edge_parameters (Fin 0)),
      log_transform (block_probabilities edge_parameters (Fin (13421773 / 67108864)))]"
  by (simp add: calculate_transitions_def range02 block_p_skip_def
      calculate_skip_probability_def edge_data_def)

lemma edge_shape: "(12 :: 32 word) div PS_NUM_STATES = 4"
  by (simp add: PS_NUM_STATES_def)

lemma edge_fields:
  "parameters edge_data = edge_parameters"
  "get_rank edge_data sequence ki = ki"
  "log_probability_match edge_data rank idx = Fin (- 1)"
  "log_probability_event_insert edge_data rank idx = Fin (- 2)"
  "get_skip_probability edge_data a b = Fin (13421773 / 67108864)"
  by (simp_all add: edge_data_def example_data_def)

text \<open>
  C10 at an input on which a NaN arises. With \<open>trans_m_to_e_not_k = 1\<close> and the \<open>float\<close>
  nearest to 0.2 as skip probability, all of them probabilities, the difference \<open>1 - p_skip\<close>
  is rounded up, \<open>p_mm\<close> of the second kmer is \<open>-2^-26\<close> and its logarithm is NaN. In the
  run of the global variant over a lattice of two rows and twelve columns the match-state
  update of row 1 and block 2 has the maximum NaN, no branch of the \<open>if\<close> chain assigns
  \<open>from\<close>, and the backtrace cell, which held \<open>PS_MATCH\<close>, receives the value of the
  uninitialised variable (\<open>None\<close>).
\<close>

theorem viterbi_backtrace_uninitialised:
  "(case profile_hmm_fill_generic_global Viterbi_ops [] edge_data 0
           (Viterbi_new edge_lattice edge_backtrace) of
      Inl err \<Rightarrow> False
    | Inr (score, vo) \<Rightarrow>
        cells (vit_p_bm vo) (1, 6) = None \<and> cells (vit_p_fm vo) (1, 6) = NaN) \<and>
   cells edge_backtrace (1, 6) = Some PS_MATCH \<and>
   lp_mm (calculate_transitions 2 [] edge_data ! 1) = NaN \<and>
   p_mm (block_probabilities edge_parameters (Fin (13421773 / 67108864)))
     = Fin (- (1 / 67108864)) \<and>
   is_prob (trans_m_to_e_not_k edge_parameters) \<and> is_prob (trans_e_to_e edge_parameters) \<and>
   is_prob (get_skip_probability edge_data (Fin 1) (Fin 1))"
proof (intro conjI)
  show "case profile_hmm_fill_generic_global Viterbi_ops [] edge_data 0
           (Viterbi_new edge_lattice edge_backtrace) of
      Inl err \<Rightarrow> False
    | Inr (score, vo) \<Rightarrow>
        cells (vit_p_bm vo) (1, 6) = None \<and> cells (vit_p_fm vo) (1, 6) = NaN"
    by (simp add: profile_hmm_fill_generic_global_def Let_def global_sweep_def Viterbi_new_def
      edge_lattice_def edge_backtrace_def edge_shape range13 range12 range02
      edge_transitions edge_blocks edge_fields log_transform_def
      update_states_def vget_def PS_NUM_STATES_def
      Viterbi_get_def mget_def Viterbi_update_4_def mset_def Viterbi_update_end_def
      Viterbi_max_def Viterbi_from_def fmax_def feq_def fgt_def)
next
  show "lp_mm (calculate_transitions 2 [] edge_data ! 1) = NaN"
    by (simp add: edge_transitions edge_blocks log_transform_def)
next
  show "p_mm (block_probabilities edge_parameters (Fin (13421773 / 67108864)))
     = Fin (- (1 / 67108864))"
    by (simp add: edge_blocks)
qed (simp_all add: edge_fields edge_backtrace_def edge_parameters_def example_parameters_def
    is_prob_def)

end
